theory Spec2Isabelle
  imports Main "HOL-Library.Multiset"
begin

section \<open>Strings\<close>

text \<open>
  Go strings are byte sequences; \<open>len\<close> counts bytes. They are modelled as
  \<^typ>\<open>string\<close> (a list of 8-bit characters). Go's \<open>int\<close> is 64 bits wide; the
  lengths and indices below stay far from its bounds, so they are modelled as
  \<^typ>\<open>int\<close>.
\<close>

definition len :: "string \<Rightarrow> int" where
  "len s = int (length s)"

text \<open>
  The slice expression \<open>s[lo:hi]\<close>. Go panics unless \<open>0 \<le> lo \<le> hi \<le> len(s)\<close>;
  the panic is the value \<open>None\<close>.
\<close>

definition slice :: "string \<Rightarrow> int \<Rightarrow> int \<Rightarrow> string option" where
  "slice s lo hi =
     (if 0 \<le> lo \<and> lo \<le> hi \<and> hi \<le> len s
      then Some (take (nat (hi - lo)) (drop (nat lo) s))
      else None)"

subsection \<open>The hand-rolled substring search of \<open>complete_name/main.go\<close>\<close>

text \<open>
  \<^verbatim>\<open>
  func indexSubstring(s, substr string) int {
      for i := 0; i <= len(s)-len(substr); i++ {
          if s[i:i+len(substr)] == substr { return i }
      }
      return -1
  }
  \<close>
  The loop is the recursive function \<open>indexSubstring_from\<close>, which takes the loop
  variable \<open>i\<close>.
\<close>

function indexSubstring_from :: "string \<Rightarrow> string \<Rightarrow> int \<Rightarrow> int option" where
  "indexSubstring_from s substr i =
     (if i \<le> len s - len substr
      then (case slice s i (i + len substr) of
              None \<Rightarrow> None
            | Some t \<Rightarrow> if t = substr then Some i else indexSubstring_from s substr (i + 1))
      else Some (- 1))"
  by pat_completeness auto
termination
  by (relation "measure (\<lambda>(s, substr, i). nat (len s - len substr - i + 1))") auto

definition indexSubstring :: "string \<Rightarrow> string \<Rightarrow> int option" where
  "indexSubstring s substr = indexSubstring_from s substr 0"

text \<open>
  \<^verbatim>\<open>
  func contains(s, substr string) bool {
      return len(s) >= len(substr) &&
          (s == substr || len(s) > len(substr) &&
              (s[:len(substr)] == substr || s[len(s)-len(substr):] == substr ||
                  indexSubstring(s, substr) != -1))
  }
  \<close>
  \<open>&&\<close> binds tighter than \<open>||\<close> and both evaluate left to right and stop early, so
  the expression is the chain of tests below. \<open>None\<close> is a panic of a slice expression.
\<close>

definition contains :: "string \<Rightarrow> string \<Rightarrow> bool option" where
  "contains s substr =
     (if \<not> len s \<ge> len substr then Some False
      else if s = substr then Some True
      else if \<not> len s > len substr then Some False
      else (case slice s 0 (len substr) of
              None \<Rightarrow> None
            | Some p \<Rightarrow>
                if p = substr then Some True
                else (case slice s (len s - len substr) (len s) of
                        None \<Rightarrow> None
                      | Some q \<Rightarrow>
                          if q = substr then Some True
                          else (case indexSubstring s substr of
                                  None \<Rightarrow> None
                                | Some k \<Rightarrow> Some (k \<noteq> - 1)))))"

text \<open>
  \<^verbatim>\<open>
  func isRateLimitError(err error) bool {
      if err == nil { return false }
      return contains(err.Error(), "429")
  }
  \<close>
  A Go \<open>error\<close> is modelled by its message (\<open>err.Error()\<close>); \<open>nil\<close> is \<open>None\<close>.
\<close>

definition isRateLimitError :: "string option \<Rightarrow> bool option" where
  "isRateLimitError err =
     (case err of None \<Rightarrow> Some False | Some msg \<Rightarrow> contains msg ''429'')"

text \<open>
  The specification side of the comparison, following the words of the claim:
  \<open>substr\<close> occurs in \<open>s\<close> as a contiguous substring.
\<close>

definition occurs_in :: "string \<Rightarrow> string \<Rightarrow> bool" where
  "occurs_in substr s = (\<exists>before after. s = before @ substr @ after)"

text \<open>\<open>substr\<close> occurs in \<open>s\<close> at byte offset \<open>j\<close>.\<close>

definition occurs_at :: "string \<Rightarrow> string \<Rightarrow> nat \<Rightarrow> bool" where
  "occurs_at substr s j = (j + length substr \<le> length s \<and> take (length substr) (drop j s) = substr)"

subsection \<open>Library functions on strings\<close>

text \<open>
  Go's regular expressions (RE2 syntax, no flags) read \<open>\d\<close> as the ASCII digits
  only, and \<open>^\<close> and \<open>$\<close> as the beginning and the end of the text. So
  \<open>^[0-9]{8}$\<close> and \<open>^\d{8}$\<close> match exactly the strings of eight ASCII digits, and
  \<open>^\d$\<close> exactly the strings of one.
\<close>

definition is_digit :: "char \<Rightarrow> bool" where
  "is_digit c = (c \<in> set ''0123456789'')"

definition match_8_digits :: "string \<Rightarrow> bool" where
  "match_8_digits s = (length s = 8 \<and> list_all is_digit s)"

text \<open>
  \<open>strings.TrimSpace\<close> removes leading and trailing Unicode white space. On the
  UTF-8 bytes of a string these are the encodings of U+0009 to U+000D, U+0020, U+0085,
  U+00A0, U+1680, U+2000 to U+200A, U+2028, U+2029, U+202F, U+205F and U+3000.
\<close>

definition white_space :: "string list" where
  "white_space =
     [[CHR 0x09], [CHR 0x0A], [CHR 0x0B], [CHR 0x0C], [CHR 0x0D], [CHR 0x20],
      [CHR 0xC2, CHR 0x85], [CHR 0xC2, CHR 0xA0],
      [CHR 0xE1, CHR 0x9A, CHR 0x80],
      [CHR 0xE2, CHR 0x80, CHR 0x80], [CHR 0xE2, CHR 0x80, CHR 0x81],
      [CHR 0xE2, CHR 0x80, CHR 0x82], [CHR 0xE2, CHR 0x80, CHR 0x83],
      [CHR 0xE2, CHR 0x80, CHR 0x84], [CHR 0xE2, CHR 0x80, CHR 0x85],
      [CHR 0xE2, CHR 0x80, CHR 0x86], [CHR 0xE2, CHR 0x80, CHR 0x87],
      [CHR 0xE2, CHR 0x80, CHR 0x88], [CHR 0xE2, CHR 0x80, CHR 0x89],
      [CHR 0xE2, CHR 0x80, CHR 0x8A],
      [CHR 0xE2, CHR 0x80, CHR 0xA8], [CHR 0xE2, CHR 0x80, CHR 0xA9],
      [CHR 0xE2, CHR 0x80, CHR 0xAF],
      [CHR 0xE2, CHR 0x81, CHR 0x9F],
      [CHR 0xE3, CHR 0x80, CHR 0x80]]"

lemma white_space_nonempty: "p \<in> set white_space \<Longrightarrow> p \<noteq> []"
  by (auto simp: white_space_def)

lemma find_in_set: "find P xs = Some x \<Longrightarrow> x \<in> set xs \<and> P x"
  by (induction xs) (auto split: if_splits)

function TrimLeft :: "string \<Rightarrow> string" where
  "TrimLeft s =
     (case find (\<lambda>p. take (length p) s = p) white_space of
        None \<Rightarrow> s
      | Some p \<Rightarrow> TrimLeft (drop (length p) s))"
  by pat_completeness auto
termination
proof (relation "measure length")
  show "wf (measure length)" by simp
next
  fix s p
  assume "find (\<lambda>p. take (length p) s = p) white_space = Some p"
  then have p: "p \<in> set white_space" and t: "take (length p) s = p"
    by (auto dest: find_in_set)
  from p have "p \<noteq> []" by (rule white_space_nonempty)
  moreover from t have "length (take (length p) s) = length p"
    by simp
  then have "length p \<le> length s"
    by (simp add: min_def split: if_splits)
  ultimately show "(drop (length p) s, s) \<in> measure length"
    by (cases p) auto
qed

function TrimRight :: "string \<Rightarrow> string" where
  "TrimRight s =
     (case find (\<lambda>p. length p \<le> length s \<and> drop (length s - length p) s = p) white_space of
        None \<Rightarrow> s
      | Some p \<Rightarrow> TrimRight (take (length s - length p) s))"
  by pat_completeness auto
termination
proof (relation "measure length")
  show "wf (measure length)" by simp
next
  fix s p
  assume "find (\<lambda>p. length p \<le> length s \<and> drop (length s - length p) s = p) white_space = Some p"
  then have p: "p \<in> set white_space" and l: "length p \<le> length s"
    by (auto dest: find_in_set)
  from p have "p \<noteq> []" by (rule white_space_nonempty)
  with l show "(take (length s - length p) s, s) \<in> measure length"
    by (cases p) auto
qed

declare TrimLeft.simps [simp del] TrimRight.simps [simp del]

definition TrimSpace :: "string \<Rightarrow> string" where
  "TrimSpace s = TrimRight (TrimLeft s)"

text \<open>\<open>strings.Contains\<close>, by the offsets where the substring can start.\<close>

fun strings_Contains :: "string \<Rightarrow> string \<Rightarrow> bool" where
  "strings_Contains [] substr = (substr = [])"
| "strings_Contains (c # cs) substr =
     (take (length substr) (c # cs) = substr \<or> strings_Contains cs substr)"

text \<open>The verb \<open>%d\<close> of \<open>fmt\<close>: an integer in decimal.\<close>

function decimal :: "nat \<Rightarrow> string" where
  "decimal n =
     (if n < 10 then [''0123456789'' ! n]
      else decimal (n div 10) @ [''0123456789'' ! (n mod 10)])"
  by pat_completeness auto
termination
  by (relation "measure id") auto

declare decimal.simps [simp del]

definition fmt_d :: "int \<Rightarrow> string" where
  "fmt_d i = (if i < 0 then ''-'' @ decimal (nat (- i)) else decimal (nat i))"

section \<open>Time, the network and what a run leaves behind\<close>

text \<open>
  The programs act on the world by sleeping, by sending HTTP requests and by printing.
  A \<open>world\<close> carries the wall clock (in nanoseconds, the unit of \<open>time.Duration\<close>),
  the number of requests sent so far and the log of what the run did, each request
  with the time at which it was issued.
\<close>

definition Second :: int where
  "Second = 1000000000"

datatype request = GET string | POST string "(string \<times> string) list"

text \<open>
  The lines the birth-date scraper prints around its rate window (the other programs'
  output is not modelled).
\<close>

datatype stdout_line =
    NuevoCicloIniciado
  | EsperandoSiguienteCiclo int
  | EsperandoDoceSegundos
  | ReseteandoSesion
  | NuevoNonceObtenido string
  | ConsultandoDNI string int
  | RateLimitDetectado
  | ReintentandoConsulta

text \<open>
  An event of a run: a request handed to \<open>client.Do\<close> (with the time of the call), a
  request that the HTTP client sent on its own because the answer before it was a
  redirect, a sleep, a printed line.
\<close>

datatype event = Request int request | Redirected int request | Slept int | Printed stdout_line

record world =
  clock :: int
  sent :: nat
  log :: "event list"

text \<open>\<open>time.Sleep(d)\<close> returns at once when \<open>d\<close> is negative or zero.\<close>

definition Sleep :: "int \<Rightarrow> world \<Rightarrow> world" where
  "Sleep d w = w\<lparr>clock := clock w + max 0 d, log := log w @ [Slept d]\<rparr>"

definition Println :: "stdout_line \<Rightarrow> world \<Rightarrow> world" where
  "Println l w = w\<lparr>log := log w @ [Printed l]\<rparr>"

text \<open>
  What comes back for one request on the wire: a transport error, or a response with
  its status code, its \<open>Location\<close> header (as the URL it resolves to, empty when the
  header is absent) and its body. The body is read by \<open>leerRespuesta\<close> (which can fail
  while decompressing or reading) and then parsed by library code (goquery, regexp,
  encoding/json); the model takes the body as those libraries present it, a value of
  the type parameter \<open>'b\<close>. The time the exchange takes is \<open>latency\<close>.
\<close>

record 'b response =
  latency :: int
  transport_error :: "string option"
  StatusCode :: int
  Location :: string
  read_error :: "string option"
  Body :: 'b

text \<open>
  The network is any function from the number of requests already sent and the request
  to what comes back: the endpoint may answer every request as it likes.
\<close>

type_synonym 'b net = "nat \<Rightarrow> request \<Rightarrow> 'b response"

text \<open>
  None of the programs sets \<open>CheckRedirect\<close> on its \<open>http.Client\<close>, so \<open>client.Do\<close>
  follows redirects with the policy of \<open>net/http\<close>: after the status 301, 302 or 303 it
  sends a GET to the new location; after 307 or 308 it sends the request again, method
  and form included (every POST of the programs is built on a \<open>strings.Reader\<close>, so
  its body can be sent again); a redirect without \<open>Location\<close> is returned as it is.
\<close>

definition redirect_request :: "request \<Rightarrow> 'b response \<Rightarrow> request option" where
  "redirect_request req resp =
     (if Location resp = '''' then None
      else if StatusCode resp = 301 \<or> StatusCode resp = 302 \<or> StatusCode resp = 303
      then Some (GET (Location resp))
      else if StatusCode resp = 307 \<or> StatusCode resp = 308
      then Some (case req of GET u \<Rightarrow> GET (Location resp)
                           | POST u form \<Rightarrow> POST (Location resp) form)
      else None)"

text \<open>
  The error of \<open>client.Do\<close> when the tenth answer in a row is a redirect,
  \<^verbatim>\<open>Post "<url>": stopped after 10 redirects\<close>,
  with the method of the first request and the location of the last answer (\<open>%q\<close>
  prints the URL between double quotes; the escapes it adds for quotes, backslashes
  and unprintable bytes inside the URL are not modelled).
\<close>

definition stopped_after_10_redirects :: "request \<Rightarrow> string \<Rightarrow> string" where
  "stopped_after_10_redirects req loc =
     (case req of GET u \<Rightarrow> ''Get'' | POST u form \<Rightarrow> ''Post'')
     @ '' '' @ [CHR 0x22] @ loc @ [CHR 0x22] @ '': stopped after 10 redirects''"

text \<open>
  One call of \<open>client.Do\<close>, from the request number \<open>via\<close> of the call on (\<open>via\<close> is the
  number of requests the call has sent before, \<open>len(via)\<close> in \<open>net/http\<close>); \<open>first\<close>
  is the request the call was made with. The default policy gives up when ten
  requests have been sent.
\<close>

function client_send ::
  "'b net \<Rightarrow> request \<Rightarrow> nat \<Rightarrow> world \<Rightarrow> request \<Rightarrow> world \<times> 'b response" where
  "client_send net first via w req =
     (let resp = net (sent w) req;
          w1 = w\<lparr>clock := clock w + max 0 (latency resp),
                 sent := sent w + 1,
                 log := log w @ [if via = 0 then Request (clock w) req
                                 else Redirected (clock w) req]\<rparr>
      in case transport_error resp of
           Some e \<Rightarrow> (w1, resp)
         | None \<Rightarrow>
             (case redirect_request req resp of
                None \<Rightarrow> (w1, resp)
              | Some req' \<Rightarrow>
                  if via + 1 < 10 then client_send net first (via + 1) w1 req'
                  else (w1, resp\<lparr>transport_error :=
                              Some (stopped_after_10_redirects first (Location resp))\<rparr>)))"
  by pat_completeness auto
termination
  by (relation "measure (\<lambda>(net, first, via, w, req). 10 - via)") auto

declare client_send.simps [simp del]

definition client_Do :: "'b net \<Rightarrow> world \<Rightarrow> request \<Rightarrow> world \<times> 'b response" where
  "client_Do net w req = client_send net req 0 w req"

text \<open>
  \<^verbatim>\<open>
  func leerRespuesta(resp *http.Response) ([]byte, error)
  \<close>
  returns the decoded body or the error of the gzip reader or of \<open>io.ReadAll\<close>.
\<close>

definition leerRespuesta :: "'b response \<Rightarrow> string + 'b" where
  "leerRespuesta resp = (case read_error resp of Some e \<Rightarrow> Inl e | None \<Rightarrow> Inr (Body resp))"

section \<open>The pages of eldni.com as the libraries present them\<close>

text \<open>
  The fields whose values the person-data extractor looks for. They are the keys of the
  pattern table of \<open>extractDataWithRegex\<close>.
\<close>

datatype campo = CampoNombres | CampoApellidoPaterno | CampoApellidoMaterno

text \<open>
  The extractors query a parsed document through goquery selectors and search the raw
  HTML with regular expressions. Selectors and patterns are a replaceable lookup table;
  a document is modelled by what each query of the source returns on it:

  \<^item> \<open>parse_error\<close>: the error of \<open>goquery.NewDocumentFromReader\<close>, if any (parsing a
    string does not fail in practice; the callers that check it are modelled with the
    check, the others never see it);
  \<^item> \<open>token_value\<close>: \<open>doc.Find("input[name='_token']").Attr("value")\<close>, \<open>None\<close> when the
    attribute does not exist;
  \<^item> \<open>mark_text\<close>: \<open>doc.Find("mark").Text()\<close>;
  \<^item> \<open>digito_verificador_value\<close>: \<open>doc.Find("#digito_verificador").Attr("value")\<close>;
  \<^item> \<open>codigo_submatch\<close>: \<open>re.FindStringSubmatch(html)\<close> for each pattern of
    \<open>extraerCodigo\<close>, in the order of its \<open>patterns\<close> slice (\<open>[]\<close> is \<open>nil\<close>, no match);
  \<^item> \<open>nombres_value\<close>, \<open>apellidop_value\<close>, \<open>apellidom_value\<close>:
    \<open>doc.Find("#nombres").AttrOr("value", "")\<close> and its two siblings;
  \<^item> \<open>td_texts\<close>: the \<open>Text()\<close> of each element of \<open>doc.Find("table tbody tr td")\<close>, in
    document order;
  \<^item> \<open>css_nombres_text\<close>, \<open>css_paterno_text\<close>, \<open>css_materno_text\<close>:
    \<open>doc.Find(".nombres, .nombre, [data-nombres]").First().Text()\<close> and its siblings;
  \<^item> \<open>regex_submatch\<close>: \<open>re.FindStringSubmatch(html)\<close> for the pattern of each field in
    \<open>extractDataWithRegex\<close>.
\<close>

record html_doc =
  parse_error :: "string option"
  token_value :: "string option"
  mark_text :: string
  digito_verificador_value :: "string option"
  codigo_submatch :: "string list list"
  nombres_value :: string
  apellidop_value :: string
  apellidom_value :: string
  td_texts :: "string list"
  css_nombres_text :: string
  css_paterno_text :: string
  css_materno_text :: string
  regex_submatch :: "campo \<Rightarrow> string list"

section \<open>The verification-digit package (\<open>package codigo\<close>, second file of \<open>part_000\<close>)\<close>

text \<open>
  \<^verbatim>\<open>
  func esDigito(s string) bool {
      return regexp.MustCompile(`^\d$`).MatchString(s)
  }
  \<close>
\<close>

definition esDigito :: "string \<Rightarrow> bool" where
  "esDigito s = (length s = 1 \<and> list_all is_digit s)"

text \<open>
  \<^verbatim>\<open>
  for _, pattern := range patterns {
      re := regexp.MustCompile(`(?i)` + pattern)
      if matches := re.FindStringSubmatch(html); len(matches) > 1 && esDigito(matches[1]) {
          return matches[1]
      }
  }
  return ""
  \<close>
\<close>

fun extraerCodigo_patterns :: "string list list \<Rightarrow> string" where
  "extraerCodigo_patterns [] = ''''"
| "extraerCodigo_patterns (matches # rest) =
     (if length matches > 1 \<and> esDigito (matches ! 1) then matches ! 1
      else extraerCodigo_patterns rest)"

text \<open>
  \<^verbatim>\<open>
  func extraerCodigo(doc *goquery.Document, html string) string {
      if codigo := strings.TrimSpace(doc.Find("mark").Text()); esDigito(codigo) {
          return codigo
      }
      if codigo, exists := doc.Find("#digito_verificador").Attr("value"); exists && esDigito(codigo) {
          return codigo
      }
      ... the loop over the patterns ...
  }
  \<close>
\<close>

definition extraerCodigo :: "html_doc \<Rightarrow> string" where
  "extraerCodigo doc =
     (let codigo = TrimSpace (mark_text doc)
      in if esDigito codigo then codigo
         else (case digito_verificador_value doc of
                 Some codigo \<Rightarrow>
                   if esDigito codigo then codigo
                   else extraerCodigo_patterns (codigo_submatch doc)
               | None \<Rightarrow> extraerCodigo_patterns (codigo_submatch doc)))"

definition url_digito :: string where
  "url_digito = ''https://eldni.com/pe/obtener-digito-verificador-del-dni''"

text \<open>
  \<open>obtenerToken\<close> of the verification-digit package (it does not look at the status
  code; the person-data package's \<open>obtenerToken\<close> below does).
\<close>

definition obtenerToken_digito :: "html_doc net \<Rightarrow> world \<Rightarrow> string \<Rightarrow> world \<times> (string + string)" where
  "obtenerToken_digito net w targetURL =
     (let (w1, resp) = client_Do net w (GET targetURL)
      in case transport_error resp of
           Some e \<Rightarrow> (w1, Inl e)
         | None \<Rightarrow>
             (case leerRespuesta resp of
                Inl e \<Rightarrow> (w1, Inl e)
              | Inr doc \<Rightarrow>
                  (case parse_error doc of
                     Some e \<Rightarrow> (w1, Inl e)
                   | None \<Rightarrow>
                       (case token_value doc of
                          None \<Rightarrow> (w1, Inl ''token no encontrado'')
                        | Some token \<Rightarrow> (w1, Inr token)))))"

text \<open>
  \<open>enviarFormulario\<close>: the form is \<open>url.Values{"_token": {token}, "dniveri": {dni}}\<close>;
  the function sleeps one second, posts, and extracts the code from the answer.
  The message of the last error is \<open>c\<acute>odigo no encontrado\<close> in UTF-8.
\<close>

definition codigo_no_encontrado :: string where
  "codigo_no_encontrado = ''c'' @ [CHR 0xC3, CHR 0xB3] @ ''digo no encontrado''"

definition enviarFormulario ::
  "html_doc net \<Rightarrow> world \<Rightarrow> string \<Rightarrow> string \<Rightarrow> string \<Rightarrow> world \<times> (string + string)" where
  "enviarFormulario net w targetURL dni token =
     (let req = POST targetURL [(''_token'', token), (''dniveri'', dni)];
          w1 = Sleep (1 * Second) w;
          (w2, resp) = client_Do net w1 req
      in case transport_error resp of
           Some e \<Rightarrow> (w2, Inl e)
         | None \<Rightarrow>
             if StatusCode resp \<ge> 400
             then (w2, Inl (''error servidor: '' @ fmt_d (StatusCode resp)))
             else (case leerRespuesta resp of
                     Inl e \<Rightarrow> (w2, Inl e)
                   | Inr doc \<Rightarrow>
                       (let codigo = extraerCodigo doc
                        in if codigo = '''' then (w2, Inl codigo_no_encontrado)
                           else (w2, Inr codigo))))"

definition DNI_invalido :: string where
  "DNI_invalido = ''DNI inv'' @ [CHR 0xC3, CHR 0xA1] @ ''lido''"

text \<open>
  \<^verbatim>\<open>
  func ObtenerCodigoVerificacion(dni string) (string, error) {
      if !regexp.MustCompile(`^[0-9]{8}$`).MatchString(dni) {
          return "", fmt.Errorf("DNI inv\'alido")
      }
      ... a fresh client and cookie jar ...
      token, err := obtenerToken(client, targetURL)
      if err != nil { return "", err }
      return enviarFormulario(client, targetURL, dni, token)
  }
  \<close>
\<close>

definition ObtenerCodigoVerificacion ::
  "html_doc net \<Rightarrow> world \<Rightarrow> string \<Rightarrow> world \<times> (string + string)" where
  "ObtenerCodigoVerificacion net w dni =
     (if \<not> match_8_digits dni then (w, Inl DNI_invalido)
      else (let (w1, r) = obtenerToken_digito net w url_digito
            in case r of
                 Inl err \<Rightarrow> (w1, Inl err)
               | Inr token \<Rightarrow> enviarFormulario net w1 url_digito dni token))"

subsection \<open>The retry loop of \<open>reniec/main.go\<close>\<close>

definition maxReintentos :: int where
  "maxReintentos = 2"

text \<open>
  \<^verbatim>\<open>
  func procesarDNI(dni string) (string, error) {
      maxReintentos := 2
      var lastError error
      for intento := 1; intento <= maxReintentos; intento++ {
          codigo, err := codigo.ObtenerCodigoVerificacion(dni)
          if err == nil { return codigo, nil }
          lastError = err
          if intento < maxReintentos {
              time.Sleep(time.Duration(intento*2) * time.Second)
          }
      }
      return "", lastError
  }
  \<close>
  The loop is \<open>procesarDNI_loop\<close>, with the loop variable \<open>intento\<close> and \<open>lastError\<close>
  (\<open>None\<close> is \<open>nil\<close>).
\<close>

text \<open>The delay before the next attempt: \<open>time.Duration(intento*2) * time.Second\<close>.\<close>

definition espera_reintento :: "int \<Rightarrow> int" where
  "espera_reintento intento = intento * 2 * Second"

function procesarDNI_loop ::
  "html_doc net \<Rightarrow> world \<Rightarrow> string \<Rightarrow> int \<Rightarrow> string option \<Rightarrow> world \<times> (string + string)" where
  "procesarDNI_loop net w dni intento lastError =
     (if intento \<le> maxReintentos
      then (case ObtenerCodigoVerificacion net w dni of
              (w1, Inr codigo) \<Rightarrow> (w1, Inr codigo)
            | (w1, Inl err) \<Rightarrow>
                procesarDNI_loop net
                  (if intento < maxReintentos then Sleep (espera_reintento intento) w1 else w1)
                  dni (intento + 1) (Some err))
      else (case lastError of None \<Rightarrow> (w, Inr '''') | Some err \<Rightarrow> (w, Inl err)))"
  by pat_completeness auto
termination
  by (relation "measure (\<lambda>(net, w, dni, intento, lastError). nat (maxReintentos + 1 - intento))")
     auto

declare procesarDNI_loop.simps [simp del]

definition procesarDNI :: "html_doc net \<Rightarrow> world \<Rightarrow> string \<Rightarrow> world \<times> (string + string)" where
  "procesarDNI net w dni = procesarDNI_loop net w dni 1 None"

text \<open>
  A network for the examples: the form page carries the token \<open>tok\<close>, and the answer
  to a submission shows the digit 7 in its \<open>mark\<close> element.
\<close>

definition pagina_vacia :: html_doc where
  "pagina_vacia =
     \<lparr>parse_error = None, token_value = None, mark_text = '''',
      digito_verificador_value = None, codigo_submatch = [[], [], []],
      nombres_value = '''', apellidop_value = '''', apellidom_value = '''',
      td_texts = [], css_nombres_text = '''', css_paterno_text = '''',
      css_materno_text = '''', regex_submatch = (\<lambda>c. [])\<rparr>"

definition respuesta :: "html_doc \<Rightarrow> html_doc response" where
  "respuesta doc =
     \<lparr>latency = 0, transport_error = None, StatusCode = 200, Location = '''',
      read_error = None, Body = doc\<rparr>"

definition red_digito_7 :: "html_doc net" where
  "red_digito_7 n req =
     (case req of
        GET u \<Rightarrow> respuesta (pagina_vacia\<lparr>token_value := Some ''tok''\<rparr>)
      | POST u form \<Rightarrow> respuesta (pagina_vacia\<lparr>mark_text := '' 7 ''\<rparr>))"

definition mundo_inicial :: world where
  "mundo_inicial = \<lparr>clock = 0, sent = 0, log = []\<rparr>"

section \<open>The person-data package (\<open>package codigo\<close>, \<open>part_002\<close>)\<close>

record DatosPersona =
  DNI :: string
  Nombres :: string
  ApellidoPaterno :: string
  ApellidoMaterno :: string
  CodigoVerif :: string

subsection \<open>The extraction pipeline \<open>extraerDatosPersona\<close>\<close>

text \<open>
  First method, the copy inputs:
  \<^verbatim>\<open>
  if nombres := strings.TrimSpace(doc.Find("#nombres").AttrOr("value", "")); nombres != "" {
      datos.Nombres = nombres
  }
  \<close>
  and the same for \<open>#apellidop\<close> and \<open>#apellidom\<close>.
\<close>

definition metodo_inputs :: "html_doc \<Rightarrow> DatosPersona \<Rightarrow> DatosPersona" where
  "metodo_inputs doc datos =
     (let nombres = TrimSpace (nombres_value doc);
          datos = (if nombres \<noteq> '''' then datos\<lparr>Nombres := nombres\<rparr> else datos);
          apellidoP = TrimSpace (apellidop_value doc);
          datos = (if apellidoP \<noteq> '''' then datos\<lparr>ApellidoPaterno := apellidoP\<rparr> else datos);
          apellidoM = TrimSpace (apellidom_value doc);
          datos = (if apellidoM \<noteq> '''' then datos\<lparr>ApellidoMaterno := apellidoM\<rparr> else datos)
      in datos)"

text \<open>
  Second method, the table. The closure passed to \<open>Each\<close> gets the index \<open>i\<close> of the
  cell in the selection and the cell:
  \<^verbatim>\<open>
  text := strings.TrimSpace(s.Text())
  switch i {
  case 1: if datos.Nombres == "" { datos.Nombres = text }
  case 2: if datos.ApellidoPaterno == "" { datos.ApellidoPaterno = text }
  case 3: if datos.ApellidoMaterno == "" { datos.ApellidoMaterno = text }
  }
  \<close>
\<close>

definition celda_tabla :: "DatosPersona \<Rightarrow> nat \<times> string \<Rightarrow> DatosPersona" where
  "celda_tabla datos cell =
     (let i = fst cell; text = TrimSpace (snd cell)
      in if i = 1 then (if Nombres datos = '''' then datos\<lparr>Nombres := text\<rparr> else datos)
         else if i = 2
           then (if ApellidoPaterno datos = '''' then datos\<lparr>ApellidoPaterno := text\<rparr> else datos)
         else if i = 3
           then (if ApellidoMaterno datos = '''' then datos\<lparr>ApellidoMaterno := text\<rparr> else datos)
         else datos)"

definition metodo_tabla :: "html_doc \<Rightarrow> DatosPersona \<Rightarrow> DatosPersona" where
  "metodo_tabla doc datos = foldl celda_tabla datos (enumerate 0 (td_texts doc))"

text \<open>
  Third method, the CSS classes:
  \<^verbatim>\<open>
  if datos.Nombres == "" {
      nombres := strings.TrimSpace(doc.Find(".nombres, .nombre, [data-nombres]").First().Text())
      if nombres != "" { datos.Nombres = nombres }
  }
  \<close>
  and the same for the two surnames.
\<close>

definition metodo_css :: "html_doc \<Rightarrow> DatosPersona \<Rightarrow> DatosPersona" where
  "metodo_css doc datos =
     (let datos =
            (if Nombres datos = ''''
             then (let nombres = TrimSpace (css_nombres_text doc)
                   in if nombres \<noteq> '''' then datos\<lparr>Nombres := nombres\<rparr> else datos)
             else datos);
          datos =
            (if ApellidoPaterno datos = ''''
             then (let apellidoP = TrimSpace (css_paterno_text doc)
                   in if apellidoP \<noteq> '''' then datos\<lparr>ApellidoPaterno := apellidoP\<rparr> else datos)
             else datos);
          datos =
            (if ApellidoMaterno datos = ''''
             then (let apellidoM = TrimSpace (css_materno_text doc)
                   in if apellidoM \<noteq> '''' then datos\<lparr>ApellidoMaterno := apellidoM\<rparr> else datos)
             else datos)
      in datos)"

text \<open>
  Fourth method, the regular expressions. \<open>patterns\<close> is a Go map from each pattern to
  a pointer to the field it fills; \<open>campo_get\<close> and \<open>campo_set\<close> read and write through
  that pointer.
  \<^verbatim>\<open>
  for pattern, field := range patterns {
      if *field == "" {
          re := regexp.MustCompile(pattern)
          if matches := re.FindStringSubmatch(html); len(matches) > 1 {
              *field = strings.TrimSpace(matches[1])
          }
      }
  }
  \<close>
  Go leaves the order in which \<open>range\<close> visits a map unspecified; the visiting order is
  the parameter \<open>orden\<close>.
\<close>

fun campo_get :: "campo \<Rightarrow> DatosPersona \<Rightarrow> string" where
  "campo_get CampoNombres datos = Nombres datos"
| "campo_get CampoApellidoPaterno datos = ApellidoPaterno datos"
| "campo_get CampoApellidoMaterno datos = ApellidoMaterno datos"

fun campo_set :: "campo \<Rightarrow> string \<Rightarrow> DatosPersona \<Rightarrow> DatosPersona" where
  "campo_set CampoNombres v datos = datos\<lparr>Nombres := v\<rparr>"
| "campo_set CampoApellidoPaterno v datos = datos\<lparr>ApellidoPaterno := v\<rparr>"
| "campo_set CampoApellidoMaterno v datos = datos\<lparr>ApellidoMaterno := v\<rparr>"

definition regex_campo :: "html_doc \<Rightarrow> DatosPersona \<Rightarrow> campo \<Rightarrow> DatosPersona" where
  "regex_campo doc datos field =
     (if campo_get field datos = ''''
      then (let matches = regex_submatch doc field
            in if length matches > 1 then campo_set field (TrimSpace (matches ! 1)) datos
               else datos)
      else datos)"

definition extractDataWithRegex :: "campo list \<Rightarrow> html_doc \<Rightarrow> DatosPersona \<Rightarrow> DatosPersona" where
  "extractDataWithRegex orden doc datos = foldl (regex_campo doc) datos orden"

text \<open>Some field of interest is still empty: the guard of the second and fourth method.\<close>

definition falta_alguno :: "DatosPersona \<Rightarrow> bool" where
  "falta_alguno datos =
     (Nombres datos = '''' \<or> ApellidoPaterno datos = '''' \<or> ApellidoMaterno datos = '''')"

text \<open>
  \<^verbatim>\<open>
  func extraerDatosPersona(html, dni string) (*DatosPersona, error) {
      doc, err := goquery.NewDocumentFromReader(strings.NewReader(html))
      if err != nil { return nil, err }
      datos := &DatosPersona{DNI: dni}
      ... first method ...
      if datos.Nombres == "" || datos.ApellidoPaterno == "" || datos.ApellidoMaterno == "" {
          ... second method ...
      }
      ... third method ...
      if datos.Nombres == "" || datos.ApellidoPaterno == "" || datos.ApellidoMaterno == "" {
          extractDataWithRegex(html, datos)
      }
      datos.CodigoVerif = ""
      if datos.Nombres == "" && datos.ApellidoPaterno == "" && datos.ApellidoMaterno == "" {
          return nil, fmt.Errorf("no se encontraron datos para el DNI %s", dni)
      }
      return datos, nil
  }
  \<close>
  \<open>pipeline\<close> is the body between the creation of \<open>datos\<close> and the final check.
\<close>

definition pipeline :: "campo list \<Rightarrow> html_doc \<Rightarrow> DatosPersona \<Rightarrow> DatosPersona" where
  "pipeline orden doc datos =
     (let datos = metodo_inputs doc datos;
          datos = (if falta_alguno datos then metodo_tabla doc datos else datos);
          datos = metodo_css doc datos;
          datos = (if falta_alguno datos then extractDataWithRegex orden doc datos else datos)
      in datos\<lparr>CodigoVerif := ''''\<rparr>)"

definition no_se_encontraron_datos :: "string \<Rightarrow> string" where
  "no_se_encontraron_datos dni = ''no se encontraron datos para el DNI '' @ dni"

definition extraerDatosPersona :: "campo list \<Rightarrow> html_doc \<Rightarrow> string \<Rightarrow> string + DatosPersona" where
  "extraerDatosPersona orden doc dni =
     (case parse_error doc of
        Some err \<Rightarrow> Inl err
      | None \<Rightarrow>
          (let datos = pipeline orden doc
                 \<lparr>DNI = dni, Nombres = '''', ApellidoPaterno = '''', ApellidoMaterno = '''',
                  CodigoVerif = ''''\<rparr>
           in if Nombres datos = '''' \<and> ApellidoPaterno datos = '''' \<and> ApellidoMaterno datos = ''''
              then Inl (no_se_encontraron_datos dni)
              else Inr datos))"

text \<open>
  To state what the pipeline computes: the values a document offers for a field, one per
  method and in the order of the methods (the copy input, the table cell of the field's
  column if the table has that many cells, the CSS class, the group of the regular
  expression if it matches), each trimmed; and the first of them that is not empty.
\<close>

fun input_de :: "html_doc \<Rightarrow> campo \<Rightarrow> string" where
  "input_de doc CampoNombres = nombres_value doc"
| "input_de doc CampoApellidoPaterno = apellidop_value doc"
| "input_de doc CampoApellidoMaterno = apellidom_value doc"

fun columna :: "campo \<Rightarrow> nat" where
  "columna CampoNombres = 1"
| "columna CampoApellidoPaterno = 2"
| "columna CampoApellidoMaterno = 3"

fun css_de :: "html_doc \<Rightarrow> campo \<Rightarrow> string" where
  "css_de doc CampoNombres = css_nombres_text doc"
| "css_de doc CampoApellidoPaterno = css_paterno_text doc"
| "css_de doc CampoApellidoMaterno = css_materno_text doc"

definition candidatos :: "html_doc \<Rightarrow> campo \<Rightarrow> string list" where
  "candidatos doc f =
     [TrimSpace (input_de doc f)]
     @ (if columna f < length (td_texts doc) then [TrimSpace (td_texts doc ! columna f)] else [])
     @ [TrimSpace (css_de doc f)]
     @ (if length (regex_submatch doc f) > 1 then [TrimSpace (regex_submatch doc f ! 1)] else [])"

fun primero_no_vacio :: "string list \<Rightarrow> string" where
  "primero_no_vacio [] = ''''"
| "primero_no_vacio (x # xs) = (if x \<noteq> '''' then x else primero_no_vacio xs)"

definition datos_nuevos :: "string \<Rightarrow> DatosPersona" where
  "datos_nuevos dni =
     \<lparr>DNI = dni, Nombres = '''', ApellidoPaterno = '''', ApellidoMaterno = '''', CodigoVerif = ''''\<rparr>"

text \<open>
  Documents for the examples: one whose copy inputs carry a name and a paternal surname
  but no maternal surname, and where the table and the regular expressions would offer
  other values; and the three keys of the pattern table in one visiting order.
\<close>

definition pagina_ana :: html_doc where
  "pagina_ana =
     pagina_vacia\<lparr>nombres_value := '' ANA '', apellidop_value := ''LOPEZ'',
                  td_texts := [''12345678'', ''MARIA'', ''PEREZ'', ''''],
                  regex_submatch := (\<lambda>f. [''nombres: ROSA'', ''ROSA''])\<rparr>"

definition orden_npm :: "campo list" where
  "orden_npm = [CampoNombres, CampoApellidoPaterno, CampoApellidoMaterno]"

text \<open>
  The document of the specification's example: name ANA, paternal surname LOPEZ, no
  maternal surname anywhere.
\<close>

definition pagina_parcial :: html_doc where
  "pagina_parcial = pagina_vacia\<lparr>nombres_value := ''ANA'', apellidop_value := ''LOPEZ''\<rparr>"

subsection \<open>The lookups of the person-data package\<close>

definition url_datos :: string where
  "url_datos = ''https://eldni.com/pe/buscar-datos-por-dni''"

definition error_del_servidor :: "int \<Rightarrow> string" where
  "error_del_servidor code = ''error del servidor: '' @ fmt_d code"

text \<open>
  \<^verbatim>\<open>
  func obtenerToken(client *http.Client, targetURL string) (string, error)
  \<close>
  (\<open>http.NewRequest\<close> fails only on a malformed method or URL; both are constants
  here, so its error branch is left out, here and below.)
\<close>

definition obtenerToken :: "html_doc net \<Rightarrow> world \<Rightarrow> string \<Rightarrow> world \<times> (string + string)" where
  "obtenerToken net w targetURL =
     (let (w1, resp) = client_Do net w (GET targetURL)
      in case transport_error resp of
           Some e \<Rightarrow> (w1, Inl e)
         | None \<Rightarrow>
             if StatusCode resp \<ge> 400 then (w1, Inl (error_del_servidor (StatusCode resp)))
             else (case leerRespuesta resp of
                     Inl e \<Rightarrow> (w1, Inl e)
                   | Inr doc \<Rightarrow>
                       (case parse_error doc of
                          Some e \<Rightarrow> (w1, Inl e)
                        | None \<Rightarrow>
                            (case token_value doc of
                               None \<Rightarrow> (w1, Inl ''token CSRF no encontrado'')
                             | Some token \<Rightarrow> (w1, Inr token)))))"

text \<open>
  \<open>enviarFormularioDatos\<close> and the exported \<open>EnviarFormularioConToken\<close> have the same
  body: build the form \<open>{"_token": {token}, "dni": {dni}}\<close>, sleep one second, post,
  refuse a status of 400 or more, read the body and hand it to \<open>extraerDatosPersona\<close>.
\<close>

definition enviarFormularioDatos ::
  "campo list \<Rightarrow> html_doc net \<Rightarrow> world \<Rightarrow> string \<Rightarrow> string \<Rightarrow> string
   \<Rightarrow> world \<times> (string + DatosPersona)" where
  "enviarFormularioDatos orden net w targetURL dni token =
     (let req = POST targetURL [(''_token'', token), (''dni'', dni)];
          w1 = Sleep (1 * Second) w;
          (w2, resp) = client_Do net w1 req
      in case transport_error resp of
           Some e \<Rightarrow> (w2, Inl e)
         | None \<Rightarrow>
             if StatusCode resp \<ge> 400 then (w2, Inl (error_del_servidor (StatusCode resp)))
             else (case leerRespuesta resp of
                     Inl e \<Rightarrow> (w2, Inl e)
                   | Inr doc \<Rightarrow> (w2, extraerDatosPersona orden doc dni)))"

definition EnviarFormularioConToken ::
  "campo list \<Rightarrow> html_doc net \<Rightarrow> world \<Rightarrow> string \<Rightarrow> string \<Rightarrow> string
   \<Rightarrow> world \<times> (string + DatosPersona)" where
  "EnviarFormularioConToken orden net w targetURL dni token =
     (let req = POST targetURL [(''_token'', token), (''dni'', dni)];
          w1 = Sleep (1 * Second) w;
          (w2, resp) = client_Do net w1 req
      in case transport_error resp of
           Some e \<Rightarrow> (w2, Inl e)
         | None \<Rightarrow>
             if StatusCode resp \<ge> 400 then (w2, Inl (error_del_servidor (StatusCode resp)))
             else (case leerRespuesta resp of
                     Inl e \<Rightarrow> (w2, Inl e)
                   | Inr doc \<Rightarrow> (w2, extraerDatosPersona orden doc dni)))"

definition DNI_invalido_8_digitos :: string where
  "DNI_invalido_8_digitos =
     ''DNI inv'' @ [CHR 0xC3, CHR 0xA1] @ ''lido: debe tener 8 d'' @ [CHR 0xC3, CHR 0xAD] @ ''gitos''"

text \<open>
  \<^verbatim>\<open>
  func ObtenerDatosPersona(dni string) (*DatosPersona, error) {
      if !regexp.MustCompile(`^[0-9]{8}$`).MatchString(dni) {
          return nil, fmt.Errorf("DNI inv\'alido: debe tener 8 d\'igitos")
      }
      ... a fresh client and cookie jar ...
      token, err := obtenerToken(client, targetURL)
      if err != nil { return nil, fmt.Errorf("error obteniendo token: %v", err) }
      return enviarFormularioDatos(client, targetURL, dni, token)
  }
  \<close>
\<close>

definition ObtenerDatosPersona ::
  "campo list \<Rightarrow> html_doc net \<Rightarrow> world \<Rightarrow> string \<Rightarrow> world \<times> (string + DatosPersona)" where
  "ObtenerDatosPersona orden net w dni =
     (if \<not> match_8_digits dni then (w, Inl DNI_invalido_8_digitos)
      else (let (w1, r) = obtenerToken net w url_datos
            in case r of
                 Inl err \<Rightarrow> (w1, Inl (''error obteniendo token: '' @ err))
               | Inr token \<Rightarrow> enviarFormularioDatos orden net w1 url_datos dni token))"

text \<open>
  \<^verbatim>\<open>
  func ExtraerToken(html string) (string, error)
  \<close>
\<close>

definition ExtraerToken :: "html_doc \<Rightarrow> string + string" where
  "ExtraerToken doc =
     (case parse_error doc of
        Some e \<Rightarrow> Inl e
      | None \<Rightarrow>
          (case token_value doc of
             None \<Rightarrow> Inl ''token CSRF no encontrado''
           | Some token \<Rightarrow> Inr token))"

section \<open>The worker of \<open>complete_name/main.go\<close>\<close>

text \<open>
  The state of a worker. Its HTTP client and cookie jar are left out: they act on the
  answers of the endpoint only, and the network of the model answers as it likes.
\<close>

record WorkerState =
  ID :: int
  Token :: string
  ConsultCount :: int
  TargetURL :: string

text \<open>
  \<^verbatim>\<open>
  func renovarToken(state *WorkerState) error {
      ... GET state.TargetURL ...
      resp, err := state.Client.Do(req)
      if err != nil { return err }
      if resp.StatusCode >= 400 { return fmt.Errorf("error del servidor: %d", resp.StatusCode) }
      body, err := codigo.LeerRespuesta(resp)
      if err != nil { return err }
      token, err := codigo.ExtraerToken(string(body))
      if err != nil { return err }
      state.Token = token
      return nil
  }
  \<close>
  The error is \<open>None\<close> for \<open>nil\<close>.
\<close>

definition renovarToken ::
  "html_doc net \<Rightarrow> world \<Rightarrow> WorkerState \<Rightarrow> world \<times> WorkerState \<times> string option" where
  "renovarToken net w state =
     (let (w1, resp) = client_Do net w (GET (TargetURL state))
      in case transport_error resp of
           Some e \<Rightarrow> (w1, state, Some e)
         | None \<Rightarrow>
             if StatusCode resp \<ge> 400
             then (w1, state, Some (error_del_servidor (StatusCode resp)))
             else (case leerRespuesta resp of
                     Inl e \<Rightarrow> (w1, state, Some e)
                   | Inr doc \<Rightarrow>
                       (case ExtraerToken doc of
                          Inl e \<Rightarrow> (w1, state, Some e)
                        | Inr token \<Rightarrow> (w1, state\<lparr>Token := token\<rparr>, None))))"

text \<open>
  \<^verbatim>\<open>
  func consultarDNIConToken(dni string, state *WorkerState) (*codigo.DatosPersona, error) {
      if state.Token == "" { return nil, fmt.Errorf("token no disponible") }
      return codigo.EnviarFormularioConToken(state.Client, state.TargetURL, dni, state.Token)
  }
  \<close>
\<close>

definition consultarDNIConToken ::
  "campo list \<Rightarrow> html_doc net \<Rightarrow> world \<Rightarrow> string \<Rightarrow> WorkerState
   \<Rightarrow> world \<times> (string + DatosPersona)" where
  "consultarDNIConToken orden net w dni state =
     (if Token state = '''' then (w, Inl ''token no disponible'')
      else EnviarFormularioConToken orden net w (TargetURL state) dni (Token state))"

text \<open>
  \<^verbatim>\<open>
  func procesarDNIConToken(dni string, state *WorkerState) (*codigo.DatosPersona, error) {
      maxReintentos := 2
      var lastError error
      for intento := 1; intento <= maxReintentos; intento++ {
          datos, err := consultarDNIConToken(dni, state)
          if err == nil { return datos, nil }
          lastError = err
          if isRateLimitError(err) {
              waitTime := time.Duration(30+intento*30) * time.Second
              time.Sleep(waitTime)
              if renewErr := renovarToken(state); renewErr != nil { ... only printed ... }
          }
          if intento < maxReintentos {
              backoff := time.Duration(intento*10) * time.Second
              time.Sleep(backoff)
          }
      }
      return nil, fmt.Errorf("worker %d agot\'o %d reintentos: %v", state.ID, maxReintentos, lastError)
  }
  \<close>
  \<open>isRateLimitError\<close> is the function of the first section; it never panics (claim C9),
  so its value is \<open>Some True\<close> or \<open>Some False\<close>.
\<close>

definition agoto_reintentos :: "int \<Rightarrow> string option \<Rightarrow> string" where
  "agoto_reintentos worker lastError =
     ''worker '' @ fmt_d worker @ '' agot'' @ [CHR 0xC3, CHR 0xB3] @ '' '' @ fmt_d maxReintentos
     @ '' reintentos: '' @ (case lastError of None \<Rightarrow> ''<nil>'' | Some e \<Rightarrow> e)"

text \<open>
  The cooldown after a rate-limit error, \<open>waitTime\<close>, and the delay before the next
  attempt, \<open>backoff\<close>, as functions of \<open>intento\<close>.
\<close>

definition waitTime :: "int \<Rightarrow> int" where
  "waitTime intento = (30 + intento * 30) * Second"

definition backoff :: "int \<Rightarrow> int" where
  "backoff intento = intento * 10 * Second"

function procesarDNIConToken_loop ::
  "campo list \<Rightarrow> html_doc net \<Rightarrow> world \<Rightarrow> string \<Rightarrow> WorkerState \<Rightarrow> int \<Rightarrow> string option
   \<Rightarrow> world \<times> WorkerState \<times> (string + DatosPersona)" where
  "procesarDNIConToken_loop orden net w dni state intento lastError =
     (if intento \<le> maxReintentos
      then (case consultarDNIConToken orden net w dni state of
              (w1, Inr datos) \<Rightarrow> (w1, state, Inr datos)
            | (w1, Inl err) \<Rightarrow>
                (let (w2, state2) =
                       (if isRateLimitError (Some err) = Some True
                        then (let (w', state', renewErr) =
                                    renovarToken net (Sleep (waitTime intento) w1) state
                              in (w', state'))
                        else (w1, state));
                     w3 = (if intento < maxReintentos then Sleep (backoff intento) w2 else w2)
                 in procesarDNIConToken_loop orden net w3 dni state2 (intento + 1) (Some err)))
      else (w, state, Inl (agoto_reintentos (ID state) lastError)))"
  by pat_completeness auto
termination
  by (relation "measure (\<lambda>(orden, net, w, dni, state, intento, lastError).
        nat (maxReintentos + 1 - intento))") auto

declare procesarDNIConToken_loop.simps [simp del]

definition procesarDNIConToken ::
  "campo list \<Rightarrow> html_doc net \<Rightarrow> world \<Rightarrow> string \<Rightarrow> WorkerState
   \<Rightarrow> world \<times> WorkerState \<times> (string + DatosPersona)" where
  "procesarDNIConToken orden net w dni state =
     procesarDNIConToken_loop orden net w dni state 1 None"

text \<open>
  What a worker sends on the result channel:
  \<^verbatim>\<open>
  type Resultado struct {
      DNI   string
      Datos *codigo.DatosPersona
      Error error
  }
  \<close>
\<close>

datatype Resultado = Resultado (rDNI: string) (rDatos: "DatosPersona option") (rError: "string option")

definition resultado_de :: "string \<Rightarrow> string + DatosPersona \<Rightarrow> Resultado" where
  "resultado_de dni r =
     (case r of Inl err \<Rightarrow> Resultado dni None (Some err) | Inr datos \<Rightarrow> Resultado dni (Some datos) None)"

text \<open>
  The loop of \<open>workerConToken\<close> over the identifiers the worker receives from the
  channel, in the order in which it receives them:
  \<^verbatim>\<open>
  for dni := range dniChan {
      if state.ConsultCount%3 == 0 && state.ConsultCount > 0 {
          if err := renovarToken(state); err != nil {
              ... printed ...
              // Continuar con el token actual si falla la renovaci\'on
          }
      }
      datos, err := procesarDNIConToken(dni, state)
      resultadoChan <- Resultado{DNI: dni, Datos: datos, Error: err}
      state.ConsultCount++
      sleepTime := time.Duration(5+workerID*2) * time.Second
      time.Sleep(sleepTime)
  }
  \<close>
\<close>

fun worker_loop ::
  "campo list \<Rightarrow> html_doc net \<Rightarrow> int \<Rightarrow> world \<Rightarrow> WorkerState \<Rightarrow> string list
   \<Rightarrow> world \<times> WorkerState \<times> Resultado list" where
  "worker_loop orden net workerID w state [] = (w, state, [])"
| "worker_loop orden net workerID w state (dni # rest) =
     (let (w1, state1) =
            (if ConsultCount state mod 3 = 0 \<and> ConsultCount state > 0
             then (let (w', state', err) = renovarToken net w state in (w', state'))
             else (w, state));
          (w2, state2, r) = procesarDNIConToken orden net w1 dni state1;
          state3 = state2\<lparr>ConsultCount := ConsultCount state2 + 1\<rparr>;
          w3 = Sleep ((5 + workerID * 2) * Second) w2;
          (w4, state4, results) = worker_loop orden net workerID w3 state3 rest
      in (w4, state4, resultado_de dni r # results))"

text \<open>
  \<open>workerConToken\<close>, for the identifiers \<open>dnis\<close> it would receive: it builds its state,
  gets the first token, and returns without receiving anything when that fails.
\<close>

definition workerConToken ::
  "campo list \<Rightarrow> html_doc net \<Rightarrow> world \<Rightarrow> int \<Rightarrow> string list
   \<Rightarrow> world \<times> WorkerState \<times> Resultado list" where
  "workerConToken orden net w workerID dnis =
     (let state = \<lparr>ID = workerID, Token = '''', ConsultCount = 0, TargetURL = url_datos\<rparr>;
          (w1, state1, err) = renovarToken net w state
      in case err of
           Some e \<Rightarrow> (w1, state1, [])
         | None \<Rightarrow> worker_loop orden net workerID w1 state1 dnis)"

section \<open>The birth-date scraper (\<open>package main\<close>, first file of \<open>part_000\<close>)\<close>

text \<open>
  Of the \<open>DNIScraper\<close> struct the fields that steer \<open>ConsultarDNI\<close>. The HTTP client
  with its cookie jar, the user agents and the database handle are left out: the first
  two act on the endpoint's answers only, and the database write at the end of a
  successful lookup changes neither the result nor the scraper.
\<close>

record DNIScraper =
  nonce :: string
  lastRequest :: int
  requestCount :: int
  minuteStart :: int
  requestsInMinute :: int

record DNIData =
  dd_DNI :: string
  dd_Nombres :: string
  dd_FechaNacimiento :: string

text \<open>
  The anonymous struct that \<open>json.Unmarshal\<close> fills: \<open>Success\<close> and, under \<open>Data\<close>,
  the identifier, the names, the birth date and a message.
\<close>

record respuesta_json =
  Success :: bool
  Data_DNI :: string
  Data_Nombres :: string
  Data_FechaNacimiento :: string
  Data_Message :: string

text \<open>
  A body of dniperu.com as the libraries present it:
  \<^item> \<open>raw\<close>: its bytes (\<open>io.ReadAll\<close>);
  \<^item> \<open>scripts\<close>: for each \<open>script\<close> element of the parsed page, in document order, its
    text and what the nonce pattern's \<open>FindStringSubmatch\<close> returns on that text;
  \<^item> \<open>json\<close>: what \<open>json.Unmarshal\<close> makes of the bytes, \<open>None\<close> when it fails.
\<close>

record fecha_body =
  raw :: string
  scripts :: "(string \<times> string list) list"
  json :: "respuesta_json option"

definition url_fecha :: string where
  "url_fecha = ''https://dniperu.com/fecha-de-nacimiento-con-dni/''"

definition url_ajax :: string where
  "url_ajax = ''https://dniperu.com/wp-admin/admin-ajax.php''"

text \<open>
  The closure that \<open>getNonce\<close> passes to \<open>Each\<close>, on the nonce found so far:
  \<^verbatim>\<open>
  if strings.Contains(s.Text(), "fecha_vars") && ds.nonce == "" {
      re := regexp.MustCompile(...)
      if matches := re.FindStringSubmatch(s.Text()); len(matches) > 1 {
          ds.nonce = matches[1]
      }
  }
  \<close>
\<close>

definition nonce_de_script :: "string \<Rightarrow> string \<times> string list \<Rightarrow> string" where
  "nonce_de_script n s =
     (if strings_Contains (fst s) ''fecha_vars'' \<and> n = ''''
      then (if length (snd s) > 1 then snd s ! 1 else n)
      else n)"

text \<open>
  \<^verbatim>\<open>
  func (ds *DNIScraper) getNonce() error {
      ... GET the form page ...
      resp, err := ds.client.Do(req)
      if err != nil { return err }
      doc, _ := goquery.NewDocumentFromReader(resp.Body)
      doc.Find("script").Each(...)
      if ds.nonce == "" { return fmt.Errorf("no se pudo obtener el nonce") }
      fmt.Printf("... Nuevo nonce obtenido: %s\n", ds.nonce)
      return nil
  }
  \<close>
\<close>

definition getNonce ::
  "fecha_body net \<Rightarrow> world \<Rightarrow> DNIScraper \<Rightarrow> world \<times> DNIScraper \<times> string option" where
  "getNonce net w ds =
     (let (w1, resp) = client_Do net w (GET url_fecha)
      in case transport_error resp of
           Some e \<Rightarrow> (w1, ds, Some e)
         | None \<Rightarrow>
             (let ds1 = ds\<lparr>nonce := foldl nonce_de_script (nonce ds) (scripts (Body resp))\<rparr>
              in if nonce ds1 = '''' then (w1, ds1, Some ''no se pudo obtener el nonce'')
                 else (Println (NuevoNonceObtenido (nonce ds1)) w1, ds1, None)))"

text \<open>
  \<^verbatim>\<open>
  func (ds *DNIScraper) resetSession() error {
      fmt.Println("... Reseteando sesi\'on...")
      jar, _ := cookiejar.New(nil)
      ds.client.Jar = jar
      ds.nonce = ""
      ds.requestCount = 0
      time.Sleep(3 * time.Second)
      return ds.getNonce()
  }
  \<close>
\<close>

definition resetSession ::
  "fecha_body net \<Rightarrow> world \<Rightarrow> DNIScraper \<Rightarrow> world \<times> DNIScraper \<times> string option" where
  "resetSession net w ds =
     getNonce net (Sleep (3 * Second) (Println ReseteandoSesion w))
       (ds\<lparr>nonce := '''', requestCount := 0\<rparr>)"

text \<open>
  The rate gate of \<open>ConsultarDNI\<close> (the statements from \<open>now := time.Now()\<close> to the
  twelve-second delay):
  \<^verbatim>\<open>
  now := time.Now()
  if now.Sub(ds.minuteStart) >= 60*time.Second {
      ds.minuteStart = now
      ds.requestsInMinute = 0
      fmt.Println("... Nuevo ciclo de minuto iniciado")
  }
  if ds.requestsInMinute >= 5 {
      waitTime := 61*time.Second - now.Sub(ds.minuteStart) + time.Second
      fmt.Printf("... Esperando %v para el siguiente ciclo...\n", waitTime)
      time.Sleep(waitTime)
      ds.minuteStart = time.Now()
      ds.requestsInMinute = 0
  }
  if ds.requestsInMinute > 0 {
      fmt.Printf("... Esperando 12 segundos antes de la siguiente consulta...\n")
      time.Sleep(12 * time.Second)
  }
  \<close>
\<close>

definition rate_gate :: "world \<Rightarrow> DNIScraper \<Rightarrow> world \<times> DNIScraper" where
  "rate_gate w ds =
     (let now = clock w;
          (w1, ds1) =
            (if now - minuteStart ds \<ge> 60 * Second
             then (Println NuevoCicloIniciado w, ds\<lparr>minuteStart := now, requestsInMinute := 0\<rparr>)
             else (w, ds));
          (w2, ds2) =
            (if requestsInMinute ds1 \<ge> 5
             then (let waitTime = 61 * Second - (now - minuteStart ds1) + Second;
                       w' = Sleep waitTime (Println (EsperandoSiguienteCiclo waitTime) w1)
                   in (w', ds1\<lparr>minuteStart := clock w', requestsInMinute := 0\<rparr>))
             else (w1, ds1));
          w3 = (if requestsInMinute ds2 > 0
                then Sleep (12 * Second) (Println EsperandoDoceSegundos w2)
                else w2)
      in (w3, ds2))"

text \<open>
  How one pass through the body of \<open>ConsultarDNI\<close> ends: it returns a result, or it
  reaches the call \<open>return ds.ConsultarDNI(dni)\<close> of the too-many-requests branch.
\<close>

datatype 'a paso = Termina 'a | Reintenta

definition DNI_debe_tener_8_digitos :: string where
  "DNI_debe_tener_8_digitos = ''DNI debe tener 8 d'' @ [CHR 0xC3, CHR 0xAD] @ ''gitos''"

text \<open>
  What \<open>ConsultarDNI\<close> does with the answer to its POST (from \<open>body, _ := io.ReadAll\<close>
  on): the literal bodies \<open>-1\<close> and \<open>0\<close>, the JSON, and the too-many-requests branch,
  which sleeps ten seconds, restarts the window, resets the session and calls
  \<open>ConsultarDNI\<close> again.
\<close>

definition atender_respuesta ::
  "fecha_body net \<Rightarrow> world \<Rightarrow> DNIScraper \<Rightarrow> string \<Rightarrow> fecha_body
   \<Rightarrow> world \<times> DNIScraper \<times> (string + DNIData) paso" where
  "atender_respuesta net w ds dni body =
     (let respStr = TrimSpace (raw body)
      in if respStr = ''-1'' then (w, ds, Termina (Inl ''acceso denegado''))
         else if respStr = ''0'' then (w, ds, Termina (Inl ''DNI no encontrado''))
         else (case json body of
                 None \<Rightarrow> (w, ds, Termina (Inl ''error parseando respuesta''))
               | Some response \<Rightarrow>
                   if \<not> Success response
                   then (if strings_Contains (Data_Message response) ''demasiadas solicitudes''
                         then (let w1 = Sleep (10 * Second) (Println RateLimitDetectado w);
                                   ds1 = ds\<lparr>minuteStart := clock w1, requestsInMinute := 0\<rparr>;
                                   (w2, ds2, err) = resetSession net w1 ds1
                               in case err of
                                    Some e \<Rightarrow> (w2, ds2, Termina (Inl e))
                                  | None \<Rightarrow> (Println ReintentandoConsulta w2, ds2, Reintenta))
                         else (w, ds, Termina (Inl (''consulta no exitosa: '' @ Data_Message response))))
                   else (w, ds,
                         Termina (Inr \<lparr>dd_DNI = dni, dd_Nombres = Data_Nombres response,
                                       dd_FechaNacimiento = Data_FechaNacimiento response\<rparr>))))"

text \<open>
  The body of \<open>ConsultarDNI\<close> up to its recursive call: the check of the identifier,
  the rate gate, the session (\<open>requestCount\<close>, \<open>resetSession\<close>, \<open>getNonce\<close>), the POST
  with the form \<open>action\<close>, \<open>company\<close>, \<open>dni\<close>, \<open>security\<close>, and the answer.
\<close>

definition ConsultarDNI_cuerpo ::
  "fecha_body net \<Rightarrow> world \<Rightarrow> DNIScraper \<Rightarrow> string
   \<Rightarrow> world \<times> DNIScraper \<times> (string + DNIData) paso" where
  "ConsultarDNI_cuerpo net w ds dni =
     (if len dni \<noteq> 8 \<or> \<not> match_8_digits dni
      then (w, ds, Termina (Inl DNI_debe_tener_8_digitos))
      else (let (w1, ds1) = rate_gate w ds;
                ds2 = ds1\<lparr>requestCount := requestCount ds1 + 1\<rparr>;
                (w3, ds3, err3) =
                  (if requestCount ds2 > 4 then resetSession net w1 ds2 else (w1, ds2, None))
            in case err3 of
                 Some e \<Rightarrow> (w3, ds3, Termina (Inl e))
               | None \<Rightarrow>
                   (let (w4, ds4, err4) =
                          (if nonce ds3 = '''' then getNonce net w3 ds3 else (w3, ds3, None))
                    in case err4 of
                         Some e \<Rightarrow> (w4, ds4, Termina (Inl e))
                       | None \<Rightarrow>
                           (let req = POST url_ajax
                                        [(''action'', ''buscar_fecha''), (''company'', ''''),
                                         (''dni'', dni), (''security'', nonce ds4)];
                                w5 = Println (ConsultandoDNI dni (requestsInMinute ds4 + 1)) w4;
                                ds5 = ds4\<lparr>lastRequest := clock w5,
                                          requestsInMinute := requestsInMinute ds4 + 1\<rparr>;
                                (w6, resp) = client_Do net w5 req
                            in case transport_error resp of
                                 Some e \<Rightarrow> (w6, ds5, Termina (Inl e))
                               | None \<Rightarrow> atender_respuesta net w6 ds5 dni (Body resp)))))"

text \<open>
  \<open>ConsultarDNI\<close> calls itself for as long as the endpoint answers too many requests,
  so it need not return. The first argument bounds the number of passes through the
  body; the result \<open>None\<close> says that \<open>ConsultarDNI\<close> has not returned within them.
\<close>

fun ConsultarDNI ::
  "nat \<Rightarrow> fecha_body net \<Rightarrow> world \<Rightarrow> DNIScraper \<Rightarrow> string
   \<Rightarrow> world \<times> DNIScraper \<times> (string + DNIData) option" where
  "ConsultarDNI 0 net w ds dni = (w, ds, None)"
| "ConsultarDNI (Suc n) net w ds dni =
     (case ConsultarDNI_cuerpo net w ds dni of
        (w', ds', Termina r) \<Rightarrow> (w', ds', Some r)
      | (w', ds', Reintenta) \<Rightarrow> ConsultarDNI n net w' ds' dni)"

text \<open>
  \<^verbatim>\<open>
  func (ds *DNIScraper) ConsultarMultiplesDNIs(dnis []string) {
      for i, dni := range dnis {
          data, err := ds.ConsultarDNI(dni)
          if err != nil { ... printed ...; continue }
          ... printed ...
      }
  }
  \<close>
  Each call gets the same bound \<open>n\<close>; the loop goes on only when the call returns.
  The last component says whether the loop has finished.
\<close>

fun ConsultarMultiplesDNIs ::
  "nat \<Rightarrow> fecha_body net \<Rightarrow> world \<Rightarrow> DNIScraper \<Rightarrow> string list
   \<Rightarrow> world \<times> DNIScraper \<times> bool" where
  "ConsultarMultiplesDNIs n net w ds [] = (w, ds, True)"
| "ConsultarMultiplesDNIs n net w ds (dni # dnis) =
     (case ConsultarDNI n net w ds dni of
        (w', ds', None) \<Rightarrow> (w', ds', False)
      | (w', ds', Some r) \<Rightarrow> ConsultarMultiplesDNIs n net w' ds' dnis)"

text \<open>
  \<open>NewDNIScraper\<close> leaves the nonce empty and the counters at zero and sets
  \<open>minuteStart\<close> to the current time.
\<close>

definition NewDNIScraper :: "world \<Rightarrow> DNIScraper" where
  "NewDNIScraper w =
     \<lparr>nonce = '''', lastRequest = 0, requestCount = 0, minuteStart = clock w,
      requestsInMinute = 0\<rparr>"

section \<open>Networks and states for the examples\<close>

text \<open>
  An endpoint of eldni.com that serves the form page with the token \<open>tok\<close> and answers
  every submission with the document \<open>pagina_parcial\<close>; and a worker that holds that
  token.
\<close>

definition red_datos :: "html_doc net" where
  "red_datos n req =
     (case req of
        GET u \<Rightarrow> respuesta (pagina_vacia\<lparr>token_value := Some ''tok''\<rparr>)
      | POST u form \<Rightarrow> respuesta pagina_parcial)"

definition worker_con_token :: WorkerState where
  "worker_con_token = \<lparr>ID = 1, Token = ''tok'', ConsultCount = 0, TargetURL = url_datos\<rparr>"

text \<open>
  What the loop of \<open>procesarDNIConToken\<close> does between a failed attempt and the
  next pass: the cooldown and the token renewal when the error mentions 429, then the
  backoff. (A name for that part of the loop body, used to state what a retry does.)
\<close>

definition tras_fallo :: "html_doc net \<Rightarrow> world \<Rightarrow> WorkerState \<Rightarrow> int \<Rightarrow> string \<Rightarrow> world \<times> WorkerState" where
  "tras_fallo net w1 state intento err =
     (let (w2, state2) =
            (if isRateLimitError (Some err) = Some True
             then (let (w', state', renewErr) = renovarToken net (Sleep (waitTime intento) w1) state
                   in (w', state'))
             else (w1, state))
      in (if intento < maxReintentos then Sleep (backoff intento) w2 else w2, state2))"

section \<open>Reading the log\<close>

text \<open>
  The lookups a run has submitted are the POST requests that the program handed to
  \<open>client.Do\<close>; \<open>lookups\<close> counts them, \<open>lookup_times\<close> lists the times at which they
  were issued. (The requests that the HTTP client sends again after a redirect are
  counted by \<open>wire_posts\<close> below.)
\<close>

fun is_lookup :: "event \<Rightarrow> bool" where
  "is_lookup (Request t (POST u form)) = True"
| "is_lookup e = False"

definition lookups :: "event list \<Rightarrow> nat" where
  "lookups es = length (filter is_lookup es)"

fun lookup_times :: "event list \<Rightarrow> int list" where
  "lookup_times [] = []"
| "lookup_times (Request t (POST u form) # es) = t # lookup_times es"
| "lookup_times (e # es) = lookup_times es"

text \<open>
  What the program itself did: the log without the requests that the HTTP client sent
  on its own after a redirect.
\<close>

fun is_redirected :: "event \<Rightarrow> bool" where
  "is_redirected (Redirected t req) = True"
| "is_redirected e = False"

definition calls :: "event list \<Rightarrow> event list" where
  "calls es = filter (\<lambda>e. \<not> is_redirected e) es"

text \<open>
  The POST requests that went over the wire, those sent again after a redirect
  included; \<open>wire_posts\<close> counts them.
\<close>

fun is_post :: "event \<Rightarrow> bool" where
  "is_post (Request t (POST u form)) = True"
| "is_post (Redirected t (POST u form)) = True"
| "is_post e = False"

definition wire_posts :: "event list \<Rightarrow> nat" where
  "wire_posts es = length (filter is_post es)"

text \<open>
  An endpoint of eldni.com whose answers never show a verification digit: the
  no-data-found case of the verification-digit lookup.
\<close>

definition red_sin_codigo :: "html_doc net" where
  "red_sin_codigo n req =
     (case req of
        GET u \<Rightarrow> respuesta (pagina_vacia\<lparr>token_value := Some ''tok''\<rparr>)
      | POST u form \<Rightarrow> respuesta pagina_vacia)"


text \<open>
  Answers of dniperu.com: the form page with its nonce, the literal body \<open>0\<close>, a
  successful lookup, and the too-many-requests answer.
\<close>

definition respuesta_fecha :: "fecha_body \<Rightarrow> fecha_body response" where
  "respuesta_fecha b =
     \<lparr>latency = 0, transport_error = None, StatusCode = 200, Location = '''',
      read_error = None, Body = b\<rparr>"

definition pagina_nonce :: fecha_body where
  "pagina_nonce =
     \<lparr>raw = ''<html>'',
      scripts = [(''var fecha_vars = {nonce: <abc123>}'', [''fecha_vars = {nonce: <abc123>'', ''abc123''])],
      json = None\<rparr>"


definition cuerpo_exito :: fecha_body where
  "cuerpo_exito =
     \<lparr>raw = ''{json}'', scripts = [],
      json = Some \<lparr>Success = True, Data_DNI = ''12345678'', Data_Nombres = ''ANA'',
                   Data_FechaNacimiento = ''01/02/1990'', Data_Message = ''''\<rparr>\<rparr>"

definition cuerpo_demasiadas :: fecha_body where
  "cuerpo_demasiadas =
     \<lparr>raw = ''{json}'', scripts = [],
      json = Some \<lparr>Success = False, Data_DNI = '''', Data_Nombres = '''',
                   Data_FechaNacimiento = '''', Data_Message = ''Hay demasiadas solicitudes''\<rparr>\<rparr>"

text \<open>An endpoint that answers every lookup with too many requests.\<close>

definition red_saturada :: "fecha_body net" where
  "red_saturada n req =
     (case req of
        GET u \<Rightarrow> respuesta_fecha pagina_nonce
      | POST u form \<Rightarrow> respuesta_fecha cuerpo_demasiadas)"


text \<open>
  An endpoint whose form page takes forty seconds to arrive the first time and that
  answers every lookup at once and with success.
\<close>

definition red_lenta_al_inicio :: "fecha_body net" where
  "red_lenta_al_inicio n req =
     (case req of
        GET u \<Rightarrow> (respuesta_fecha pagina_nonce)\<lparr>latency := (if n = 0 then 40 * Second else 0)\<rparr>
      | POST u form \<Rightarrow> respuesta_fecha cuerpo_exito)"

text \<open>
  An endpoint of eldni.com whose form page fails with the status 500, so that no token
  can be renewed, while it still answers submissions with \<open>pagina_parcial\<close>.
\<close>

definition red_sin_renovacion :: "html_doc net" where
  "red_sin_renovacion n req =
     (case req of
        GET u \<Rightarrow> (respuesta pagina_vacia)\<lparr>StatusCode := 500\<rparr>
      | POST u form \<Rightarrow> respuesta pagina_parcial)"

text \<open>
  An endpoint of eldni.com that answers every submission with the status 429 and whose
  form page fails with the status 500, so that no token can be renewed.
\<close>

definition red_limitada :: "html_doc net" where
  "red_limitada n req =
     (case req of
        GET u \<Rightarrow> (respuesta pagina_vacia)\<lparr>StatusCode := 500\<rparr>
      | POST u form \<Rightarrow> (respuesta pagina_vacia)\<lparr>StatusCode := 429\<rparr>)"

text \<open>
  An endpoint of eldni.com that serves the form page with the token \<open>tok\<close> and answers
  every submission with the status 307 and the submission's own URL as the location.
\<close>

definition red_redirige :: "html_doc net" where
  "red_redirige n req =
     (case req of
        GET u \<Rightarrow> respuesta (pagina_vacia\<lparr>token_value := Some ''tok''\<rparr>)
      | POST u form \<Rightarrow> (respuesta pagina_vacia)\<lparr>StatusCode := 307, Location := u\<rparr>)"

subsection \<open>The windows of the rate gate\<close>

text \<open>
  \<open>ConsultarDNI\<close> starts a new counting window at three places, each next to a line it
  prints: when a minute has passed since \<open>minuteStart\<close> (\<open>NuevoCicloIniciado\<close>), when
  the window is full and it waits for the next one (\<open>EsperandoSiguienteCiclo\<close>, printed
  before the wait), and when the endpoint reports too many requests
  (\<open>RateLimitDetectado\<close>, printed before the ten-second pause). These lines cut the log
  into windows.
\<close>

fun is_reset :: "event \<Rightarrow> bool" where
  "is_reset (Printed NuevoCicloIniciado) = True"
| "is_reset (Printed (EsperandoSiguienteCiclo d)) = True"
| "is_reset (Printed RateLimitDetectado) = True"
| "is_reset e = False"

text \<open>
  The number of lookups in each window of a log, from the first window to the one in
  progress; \<open>c\<close> is the number of lookups already in the first window.
\<close>

fun por_ventana :: "nat \<Rightarrow> event list \<Rightarrow> nat list" where
  "por_ventana c [] = [c]"
| "por_ventana c (e # es) =
     (if is_reset e then c # por_ventana 0 es
      else if is_lookup e then por_ventana (Suc c) es
      else por_ventana c es)"

text \<open>
  The same reading of the log, step by step: the lookups in the window in progress
  after the log, and that this number has never been above five.
\<close>

definition tras_evento :: "nat \<Rightarrow> event \<Rightarrow> nat" where
  "tras_evento c e = (if is_reset e then 0 else if is_lookup e then Suc c else c)"

fun en_curso :: "nat \<Rightarrow> event list \<Rightarrow> nat" where
  "en_curso c [] = c"
| "en_curso c (e # es) = en_curso (tras_evento c e) es"

fun ventanas_ok :: "nat \<Rightarrow> event list \<Rightarrow> bool" where
  "ventanas_ok c [] = (c \<le> 5)"
| "ventanas_ok c (e # es) = (c \<le> 5 \<and> ventanas_ok (tras_evento c e) es)"

text \<open>
  What holds between the scraper and the log whenever \<open>ConsultarDNI\<close> is called:
  \<open>requestsInMinute\<close> is the number of lookups of the window in progress, and no window
  has had more than five.
\<close>

definition gate_inv :: "world \<Rightarrow> DNIScraper \<Rightarrow> bool" where
  "gate_inv w ds =
     (ventanas_ok 0 (log w) \<and> requestsInMinute ds = int (en_curso 0 (log w)))"

subsection \<open>The lookups on the clock\<close>

text \<open>
  The number of lookups issued in the sixty seconds that start at \<open>a\<close>, for a list of
  the times of the lookups.
\<close>

definition en_minuto :: "int \<Rightarrow> int list \<Rightarrow> nat" where
  "en_minuto a ts = length (filter (\<lambda>t. a \<le> t \<and> t < a + 60 * Second) ts)"

text \<open>
  For the times of the lookups with the latest first: each lookup comes sixty seconds
  or more after the sixth before it.
\<close>

fun espaciados :: "int list \<Rightarrow> bool" where
  "espaciados [] = True"
| "espaciados (t # r) = ((5 < length r \<longrightarrow> r ! 5 + 60 * Second \<le> t) \<and> espaciados r)"

text \<open>
  What holds between the clock \<open>c\<close>, the scraper's \<open>minuteStart\<close> and
  \<open>requestsInMinute\<close> and the times \<open>r\<close> of the lookups so far (latest first) whenever
  \<open>ConsultarDNI\<close> is called. The counter is restarted without regard to the lookups
  before only when sixty seconds have passed since \<open>minuteStart\<close>; \<open>a\<close> is the time of
  the last such restart (or of \<open>NewDNIScraper\<close>) and \<open>j\<close> the number of lookups since.
  Those \<open>j\<close> lookups are twelve seconds or more apart; the lookups before \<open>a\<close> are
  spaced so that the \<open>m\<close>-th before \<open>a\<close> is at least \<open>12 m\<close> seconds old at \<open>a\<close> (up
  to \<open>m = 5\<close>); and the next lookup will come twelve seconds after the last one since
  \<open>a\<close>, because the counter is positive or because that time has passed already.
\<close>

definition ritmo_ok :: "int \<Rightarrow> nat \<Rightarrow> int list \<Rightarrow> int \<Rightarrow> int \<Rightarrow> int \<Rightarrow> bool" where
  "ritmo_ok a j r c ms rim =
     (j \<le> length r \<and> a \<le> ms \<and> ms \<le> c \<and> 0 \<le> rim
      \<and> (\<forall>k < length r. r ! k \<le> c)
      \<and> sorted_wrt (\<lambda>x y. y \<le> x) r
      \<and> (\<forall>k. Suc k < j \<longrightarrow> r ! Suc k + 12 * Second \<le> r ! k)
      \<and> (\<forall>k < j. a \<le> r ! k)
      \<and> (\<forall>m < 6. j + m < length r \<longrightarrow> r ! (j + m) + int m * (12 * Second) \<le> a)
      \<and> (0 < j \<longrightarrow> 0 < rim \<or> r ! 0 + 12 * Second \<le> c)
      \<and> espaciados r)"

definition ritmo :: "world \<Rightarrow> DNIScraper \<Rightarrow> bool" where
  "ritmo w ds =
     (\<exists>a j. ritmo_ok a j (rev (lookup_times (log w))) (clock w) (minuteStart ds)
               (requestsInMinute ds))"

text \<open>
  The same when the gate has let the call through: the next lookup can go out now.
\<close>

definition ritmo_listo :: "world \<Rightarrow> DNIScraper \<Rightarrow> bool" where
  "ritmo_listo w ds =
     (\<exists>a j. ritmo_ok a j (rev (lookup_times (log w))) (clock w) (minuteStart ds)
               (requestsInMinute ds)
           \<and> (0 < j \<longrightarrow> rev (lookup_times (log w)) ! 0 + 12 * Second \<le> clock w))"

text \<open>Six pending identifiers, for the examples.\<close>

definition seis_dnis :: "string list" where
  "seis_dnis = [''10000001'', ''10000002'', ''10000003'', ''10000004'', ''10000005'', ''10000006'']"

text \<open>
  A state in which a pass through the body of \<open>ConsultarDNI\<close> sends its lookup without
  waiting and without resetting the session: the window is young and both counters
  are at zero. It is the state of a fresh scraper, and the state in which the
  too-many-requests branch makes the recursive call.
\<close>

definition listo_para_reintentar :: "world \<Rightarrow> DNIScraper \<Rightarrow> bool" where
  "listo_para_reintentar w ds =
     (requestsInMinute ds = 0 \<and> requestCount ds = 0 \<and> clock w - minuteStart ds < 60 * Second)"

section \<open>The orchestrators: workers, channels and the collector\<close>



text \<open>
  Where a worker goroutine stands: not yet started on the channel (\<open>Idle\<close>); returned
  because it could not get its first token (\<open>SinToken\<close>, only \<open>workerConToken\<close> does
  that); at the head of its \<open>for dni := range dniChan\<close> loop (\<open>Working\<close>); holding an
  identifier it has received and not yet answered (\<open>Holding\<close>); returned because the
  channel was drained (\<open>Done\<close>).
\<close>

datatype estado_worker = Idle | SinToken | Working | Holding string | Done

fun terminal :: "estado_worker \<Rightarrow> bool" where
  "terminal SinToken = True"
| "terminal Done = True"
| "terminal e = False"






text \<open>The identifiers that workers have received and not yet answered.\<close>

fun en_mano :: "estado_worker list \<Rightarrow> string list" where
  "en_mano [] = []"
| "en_mano (Holding dni # es) = dni # en_mano es"
| "en_mano (e # es) = en_mano es"



section \<open>Substring search: correctness\<close>

lemma occurs_in_iff_at: "occurs_in substr s = (\<exists>j. occurs_at substr s j)"
proof
  assume "occurs_in substr s"
  then obtain b a where s: "s = b @ substr @ a"
    by (auto simp: occurs_in_def)
  have "occurs_at substr s (length b)"
    by (simp add: occurs_at_def s)
  then show "\<exists>j. occurs_at substr s j" ..
next
  assume "\<exists>j. occurs_at substr s j"
  then obtain j where j: "j + length substr \<le> length s"
    and t: "take (length substr) (drop j s) = substr"
    by (auto simp: occurs_at_def)
  have "drop j s = substr @ drop (length substr) (drop j s)"
    using t by (metis append_take_drop_id)
  then have "s = take j s @ substr @ drop (length substr) (drop j s)"
    by (metis append_take_drop_id)
  then show "occurs_in substr s"
    unfolding occurs_in_def by blast
qed

lemma slice_in_range:
  "0 \<le> i \<Longrightarrow> i + len substr \<le> len s \<Longrightarrow>
   slice s i (i + len substr) = Some (take (length substr) (drop (nat i) s))"
  by (simp add: slice_def len_def)

lemma indexSubstring_from_correct:
  "0 \<le> i \<Longrightarrow>
   \<exists>k. indexSubstring_from s substr i = Some k \<and>
       (k \<noteq> - 1) = (\<exists>j \<ge> nat i. occurs_at substr s j)"
proof (induction s substr i rule: indexSubstring_from.induct)
  case (1 s substr i)
  show ?case
  proof (cases "i \<le> len s - len substr")
    case False
    then have none: "\<not> (\<exists>j \<ge> nat i. occurs_at substr s j)"
      using "1.prems" by (auto simp: occurs_at_def len_def)
    from False have "indexSubstring_from s substr i = Some (- 1)"
      by simp
    with none show ?thesis by simp
  next
    case True
    then have sl: "slice s i (i + len substr) = Some (take (length substr) (drop (nat i) s))"
      using "1.prems" by (intro slice_in_range) auto
    show ?thesis
    proof (cases "take (length substr) (drop (nat i) s) = substr")
      case hit: True
      have "occurs_at substr s (nat i)"
        using True "1.prems" hit by (auto simp: occurs_at_def len_def)
      then have "\<exists>j \<ge> nat i. occurs_at substr s j"
        by blast
      moreover have "indexSubstring_from s substr i = Some i"
        using True sl hit by simp
      ultimately show ?thesis
        using "1.prems" by simp
    next
      case miss: False
      have step: "indexSubstring_from s substr i = indexSubstring_from s substr (i + 1)"
        using True sl miss by simp
      have "0 \<le> i + 1"
        using "1.prems" by simp
      from "1.IH" [OF True sl miss this]
      obtain k where k: "indexSubstring_from s substr (i + 1) = Some k"
        and kk: "(k \<noteq> - 1) = (\<exists>j \<ge> nat (i + 1). occurs_at substr s j)"
        by blast
      have "(\<exists>j \<ge> nat (i + 1). occurs_at substr s j) = (\<exists>j \<ge> nat i. occurs_at substr s j)"
      proof
        assume "\<exists>j \<ge> nat (i + 1). occurs_at substr s j"
        then obtain j where "j \<ge> nat (i + 1)" "occurs_at substr s j" by blast
        moreover then have "j \<ge> nat i" by simp
        ultimately show "\<exists>j \<ge> nat i. occurs_at substr s j" by blast
      next
        assume "\<exists>j \<ge> nat i. occurs_at substr s j"
        then obtain j where j: "j \<ge> nat i" "occurs_at substr s j" by blast
        have "j \<noteq> nat i"
          using j(2) miss by (auto simp: occurs_at_def)
        with j(1) have "j \<ge> nat (i + 1)"
          using "1.prems" by simp
        with j(2) show "\<exists>j \<ge> nat (i + 1). occurs_at substr s j" by blast
      qed
      with k kk step show ?thesis by simp
    qed
  qed
qed

lemma indexSubstring_correct:
  "\<exists>k. indexSubstring s substr = Some k \<and> (k \<noteq> - 1) = occurs_in substr s"
  using indexSubstring_from_correct [of 0 s substr]
  by (simp add: indexSubstring_def occurs_in_iff_at)

lemma contains_correct: "contains s substr = Some (occurs_in substr s)"
proof (cases "len s \<ge> len substr")
  case False
  then have "\<not> occurs_in substr s"
    by (auto simp: occurs_in_def len_def)
  with False show ?thesis
    by (simp add: contains_def)
next
  case ge: True
  show ?thesis
  proof (cases "s = substr")
    case True
    have "s = [] @ s @ []" by simp
    then have "occurs_in s s"
      unfolding occurs_in_def by blast
    with True ge show ?thesis
      by (simp add: contains_def)
  next
    case ne: False
    show ?thesis
    proof (cases "len s > len substr")
      case False
      with ge have eq: "length s = length substr"
        by (simp add: len_def)
      have "\<not> occurs_in substr s"
        using eq ne by (auto simp: occurs_in_def)
      with False ge ne show ?thesis
        by (simp add: contains_def)
    next
      case gt: True
      have p: "slice s 0 (len substr) = Some (take (length substr) s)"
        using gt by (simp add: slice_def len_def)
      have q: "slice s (len s - len substr) (len s)
               = Some (drop (length s - length substr) s)"
        using gt by (simp add: slice_def len_def nat_diff_distrib')
      obtain k where k: "indexSubstring s substr = Some k"
        and kk: "(k \<noteq> - 1) = occurs_in substr s"
        using indexSubstring_correct by blast
      have pre: "occurs_in substr s" if "take (length substr) s = substr"
      proof -
        have "s = [] @ substr @ drop (length substr) s"
          using that by (metis append_Nil append_take_drop_id)
        then show ?thesis unfolding occurs_in_def by blast
      qed
      have suf: "occurs_in substr s" if "drop (length s - length substr) s = substr"
      proof -
        have "s = take (length s - length substr) s @ substr @ []"
          using that by (metis append_Nil2 append_take_drop_id)
        then show ?thesis unfolding occurs_in_def by blast
      qed
      show ?thesis
        using ge ne gt p q k kk pre suf
        by (auto simp: contains_def)
    qed
  qed
qed

text \<open>
  Claim C9. For all strings \<open>s\<close> and \<open>substr\<close>, \<open>contains(s, substr)\<close> returns (no slice
  expression panics) and its value is true exactly when \<open>substr\<close> occurs in \<open>s\<close> as a
  contiguous substring; \<open>isRateLimitError\<close> is false for \<open>nil\<close> and, for an error with
  message \<open>msg\<close>, true exactly when \<open>429\<close> occurs in \<open>msg\<close>.
\<close>

theorem C9_contains_is_substring_containment:
  "contains s substr = Some (occurs_in substr s)
   \<and> isRateLimitError (Some msg) = Some (occurs_in ''429'' msg)
   \<and> isRateLimitError None = Some False"
  using contains_correct [of s substr] contains_correct [of msg "''429''"]
  by (simp add: isRateLimitError_def)

section \<open>One call of the HTTP client\<close>

lemma client_Do_direct:
  "transport_error (net (sent w) req) \<noteq> None \<or> redirect_request req (net (sent w) req) = None \<Longrightarrow>
   client_Do net w req =
     (w\<lparr>clock := clock w + max 0 (latency (net (sent w) req)),
        sent := sent w + 1,
        log := log w @ [Request (clock w) req]\<rparr>, net (sent w) req)"
  by (auto simp: client_Do_def client_send.simps [of net req 0 w req] Let_def
        split: option.splits)

lemma redirect_request_200 [simp]:
  "StatusCode resp = 200 \<Longrightarrow> redirect_request req resp = None"
  "StatusCode resp = 500 \<Longrightarrow> redirect_request req resp = None"
  "Location resp = '''' \<Longrightarrow> redirect_request req resp = None"
  by (simp_all add: redirect_request_def)

lemma calls_append [simp]: "calls (xs @ ys) = calls xs @ calls ys"
  by (simp add: calls_def)

lemma calls_simps [simp]:
  "calls [] = []"
  "calls (Request t req # es) = Request t req # calls es"
  "calls (Redirected t req # es) = calls es"
  "calls (Slept d # es) = Slept d # calls es"
  "calls (Printed l # es) = Printed l # calls es"
  by (simp_all add: calls_def)

lemma wire_posts_append [simp]: "wire_posts (xs @ ys) = wire_posts xs + wire_posts ys"
  by (simp add: wire_posts_def)

lemma wire_posts_simps [simp]:
  "wire_posts [] = 0"
  "wire_posts (Request t (GET u) # es) = wire_posts es"
  "wire_posts (Request t (POST u form) # es) = Suc (wire_posts es)"
  "wire_posts (Redirected t (GET u) # es) = wire_posts es"
  "wire_posts (Redirected t (POST u form) # es) = Suc (wire_posts es)"
  "wire_posts (Slept d # es) = wire_posts es"
  "wire_posts (Printed l # es) = wire_posts es"
  by (simp_all add: wire_posts_def)

lemma redirect_request_GET:
  "redirect_request (GET u) resp = Some req' \<Longrightarrow> \<exists>u'. req' = GET u'"
  by (auto simp: redirect_request_def split: if_splits)

text \<open>
  What a call adds to the log: the request of the call, then at most nine requests
  sent again; time does not go back; a call with a GET puts no POST on the wire.
\<close>

lemma client_send_log:
  "via < 10 \<Longrightarrow>
   \<exists>fs. log (fst (client_send net first via w req)) =
          log w @ (if via = 0 then Request (clock w) req else Redirected (clock w) req) # fs
      \<and> list_all is_redirected fs \<and> length fs + via \<le> 9
      \<and> ((\<exists>u. req = GET u) \<longrightarrow> wire_posts fs = 0)
      \<and> clock w \<le> clock (fst (client_send net first via w req))
      \<and> sent w < sent (fst (client_send net first via w req))"
proof (induction net first via w req rule: client_send.induct)
  case (1 net first via w req)
  let ?resp = "net (sent w) req"
  let ?w1 = "w\<lparr>clock := clock w + max 0 (latency ?resp), sent := sent w + 1,
                 log := log w @ [if via = 0 then Request (clock w) req
                                 else Redirected (clock w) req]\<rparr>"
  show ?case
  proof (cases "transport_error ?resp")
    case (Some e)
    then show ?thesis
      using "1.prems" by (simp add: client_send.simps [of net first via w req] Let_def)
  next
    case None
    show ?thesis
    proof (cases "redirect_request req ?resp")
      case none: None
      with None show ?thesis
        using "1.prems" by (simp add: client_send.simps [of net first via w req] Let_def)
    next
      case (Some req')
      show ?thesis
      proof (cases "via + 1 < 10")
        case False
        with None Some show ?thesis
          using "1.prems" by (simp add: client_send.simps [of net first via w req] Let_def)
      next
        case True
        have eq: "client_send net first via w req = client_send net first (via + 1) ?w1 req'"
          using None Some True by (simp add: client_send.simps [of net first via w req] Let_def)
        from "1.IH" [OF refl refl None Some True True]
        obtain fs where fs: "log (fst (client_send net first (via + 1) ?w1 req')) =
              log ?w1 @ Redirected (clock ?w1) req' # fs"
          and r: "list_all is_redirected fs" and l: "length fs + (via + 1) \<le> 9"
          and g: "(\<exists>u. req' = GET u) \<longrightarrow> wire_posts fs = 0"
          and c: "clock ?w1 \<le> clock (fst (client_send net first (via + 1) ?w1 req'))"
          and s: "sent ?w1 < sent (fst (client_send net first (via + 1) ?w1 req'))"
          by auto
        have g': "(\<exists>u. req = GET u) \<longrightarrow> wire_posts (Redirected (clock ?w1) req' # fs) = 0"
          using g Some by (auto dest: redirect_request_GET)
        show ?thesis
          unfolding eq
          using fs r l g' c s
          by (intro exI [of _ "Redirected (clock ?w1) req' # fs"]) auto
      qed
    qed
  qed
qed

lemma client_Do_log:
  "\<exists>fs. log (fst (client_Do net w req)) = log w @ Request (clock w) req # fs
      \<and> list_all is_redirected fs \<and> length fs \<le> 9
      \<and> ((\<exists>u. req = GET u) \<longrightarrow> wire_posts fs = 0)"
  using client_send_log [of 0 net req w req] by (auto simp: client_Do_def)

lemma calls_redirected: "list_all is_redirected fs \<Longrightarrow> calls fs = []"
  by (induction fs) (simp_all add: calls_def)

lemma wire_posts_le_length: "wire_posts fs \<le> length fs"
  by (simp add: wire_posts_def)

lemma calls_client_Do [simp]:
  "calls (log (fst (client_Do net w req))) = calls (log w) @ [Request (clock w) req]"
  using client_Do_log [of net w req] by (auto simp: calls_redirected)

lemma clock_client_Do: "clock w \<le> clock (fst (client_Do net w req))"
  using client_send_log [of 0 net req w req] by (auto simp: client_Do_def)

lemma wire_posts_client_Do:
  "wire_posts (log (fst (client_Do net w req))) \<le> wire_posts (log w) + 10"
proof -
  from client_Do_log [of net w req] obtain fs where
    l: "log (fst (client_Do net w req)) = log w @ Request (clock w) req # fs"
    and n: "length fs \<le> 9" by blast
  have "wire_posts (Request (clock w) req # fs) \<le> Suc (length fs)"
    using wire_posts_le_length [of fs] by (cases req) simp_all
  with n show ?thesis
    by (simp add: l)
qed

lemma wire_posts_client_Do_GET:
  "wire_posts (log (fst (client_Do net w (GET u)))) = wire_posts (log w)"
  using client_Do_log [of net w "GET u"] by auto

lemma lookups_append [simp]: "lookups (xs @ ys) = lookups xs + lookups ys"
  by (simp add: lookups_def)

lemma lookups_simps [simp]:
  "lookups [] = 0"
  "lookups (Slept d # es) = lookups es"
  "lookups (Printed l # es) = lookups es"
  "lookups (Request t (GET u) # es) = lookups es"
  "lookups (Redirected t req # es) = lookups es"
  "lookups (Request t (POST u form) # es) = Suc (lookups es)"
  by (simp_all add: lookups_def)

lemma lookup_times_append_other [simp]:
  "lookup_times (es @ [Slept d]) = lookup_times es"
  "lookup_times (es @ [Printed l]) = lookup_times es"
  "lookup_times (es @ [Request t (GET u)]) = lookup_times es"
  "lookup_times (es @ [Redirected t req]) = lookup_times es"
  "lookup_times (es @ [Request t (POST u form)]) = lookup_times es @ [t]"
  by (induction es rule: lookup_times.induct) simp_all

lemma lookup_times_append [simp]:
  "lookup_times (xs @ ys) = lookup_times xs @ lookup_times ys"
  by (induction xs rule: lookup_times.induct) simp_all

lemma lookups_calls [simp]: "lookups (calls es) = lookups es"
  by (induction es rule: lookup_times.induct) (simp_all add: lookups_def calls_def)

lemma lookup_times_calls [simp]: "lookup_times (calls es) = lookup_times es"
  by (induction es rule: lookup_times.induct) (simp_all add: calls_def)

lemma lookups_client_Do [simp]:
  "lookups (log (fst (client_Do net w req))) = lookups (log w @ [Request (clock w) req])"
proof -
  have "lookups (log (fst (client_Do net w req))) = lookups (calls (log (fst (client_Do net w req))))"
    by (simp only: lookups_calls)
  also have "\<dots> = lookups (calls (log w @ [Request (clock w) req]))"
    by simp
  finally show ?thesis
    by (simp only: lookups_calls)
qed

lemma lookup_times_client_Do [simp]:
  "lookup_times (log (fst (client_Do net w req))) = lookup_times (log w @ [Request (clock w) req])"
proof -
  have "lookup_times (log (fst (client_Do net w req)))
      = lookup_times (calls (log (fst (client_Do net w req))))"
    by (simp only: lookup_times_calls)
  also have "\<dots> = lookup_times (calls (log w @ [Request (clock w) req]))"
    by simp
  finally show ?thesis
    by (simp only: lookup_times_calls)
qed


section \<open>The verification code is one decimal digit\<close>

lemma esDigito_single: "esDigito s \<Longrightarrow> \<exists>c. s = [c] \<and> c \<in> set ''0123456789''"
  by (cases s) (auto simp: esDigito_def is_digit_def)

lemma extraerCodigo_patterns_digit:
  "extraerCodigo_patterns ms = '''' \<or> esDigito (extraerCodigo_patterns ms)"
  by (induction ms) auto

lemma extraerCodigo_digit: "extraerCodigo doc = '''' \<or> esDigito (extraerCodigo doc)"
  using extraerCodigo_patterns_digit [of "codigo_submatch doc"]
  by (auto simp: extraerCodigo_def Let_def split: option.splits)

lemma enviarFormulario_digit:
  "enviarFormulario net w targetURL dni token = (w', Inr codigo) \<Longrightarrow> esDigito codigo"
  using extraerCodigo_digit
  by (fastforce simp: enviarFormulario_def Let_def
        split: prod.splits option.splits sum.splits if_splits)

lemma ObtenerCodigoVerificacion_digit:
  "ObtenerCodigoVerificacion net w dni = (w', Inr codigo) \<Longrightarrow> esDigito codigo"
  by (auto simp: ObtenerCodigoVerificacion_def Let_def
        split: prod.splits sum.splits if_splits dest: enviarFormulario_digit)

lemma procesarDNI_loop_digit:
  "procesarDNI_loop net w dni intento (Some e) = (w', Inr codigo) \<Longrightarrow> esDigito codigo"
proof (induction net w dni intento "Some e" arbitrary: e rule: procesarDNI_loop.induct)
  case (1 net w dni intento)
  show ?case
  proof (cases "intento \<le> maxReintentos")
    case False
    with "1.prems" show ?thesis
      by (simp add: procesarDNI_loop.simps [of net w dni intento])
  next
    case True
    obtain w1 r where r: "ObtenerCodigoVerificacion net w dni = (w1, r)"
      by (cases "ObtenerCodigoVerificacion net w dni")
    show ?thesis
    proof (cases r)
      case (Inr c)
      with True r "1.prems" have "c = codigo"
        by (simp add: procesarDNI_loop.simps [of net w dni intento])
      with r Inr show ?thesis
        by (auto dest: ObtenerCodigoVerificacion_digit)
    next
      case (Inl err)
      with True r "1.prems" "1.hyps" show ?thesis
        by (simp add: procesarDNI_loop.simps [of net w dni intento])
    qed
  qed
qed

lemma procesarDNI_digit:
  "procesarDNI net w dni = (w', Inr codigo) \<Longrightarrow> esDigito codigo"
proof -
  assume a: "procesarDNI net w dni = (w', Inr codigo)"
  have le: "(1::int) \<le> maxReintentos" by (simp add: maxReintentos_def)
  obtain w1 r where r: "ObtenerCodigoVerificacion net w dni = (w1, r)"
    by (cases "ObtenerCodigoVerificacion net w dni")
  show ?thesis
  proof (cases r)
    case (Inr c)
    with a r le have "c = codigo"
      by (simp add: procesarDNI_def procesarDNI_loop.simps [of net w dni 1])
    with r Inr show ?thesis
      by (auto dest: ObtenerCodigoVerificacion_digit)
  next
    case (Inl err)
    with a r le show ?thesis
      by (auto simp: procesarDNI_def procesarDNI_loop.simps [of net w dni 1]
            dest: procesarDNI_loop_digit)
  qed
qed

text \<open>
  Claim C10. For every document, \<open>extraerCodigo\<close> returns the empty string or a string
  of exactly one decimal digit; hence a code returned by \<open>enviarFormulario\<close>, by
  \<open>ObtenerCodigoVerificacion\<close> or by the retry loop \<open>procesarDNI\<close> (the code the
  collector persists) is a single decimal digit.
\<close>

theorem C10_codigo_is_one_digit:
  "(extraerCodigo doc = '''' \<or> (\<exists>c. extraerCodigo doc = [c] \<and> c \<in> set ''0123456789''))
   \<and> (enviarFormulario net w targetURL dni token = (w', Inr codigo)
        \<longrightarrow> (\<exists>c. codigo = [c] \<and> c \<in> set ''0123456789''))
   \<and> (ObtenerCodigoVerificacion net w dni = (w', Inr codigo)
        \<longrightarrow> (\<exists>c. codigo = [c] \<and> c \<in> set ''0123456789''))
   \<and> (procesarDNI net w dni = (w', Inr codigo)
        \<longrightarrow> (\<exists>c. codigo = [c] \<and> c \<in> set ''0123456789''))"
proof (intro conjI impI)
  show "extraerCodigo doc = '''' \<or> (\<exists>c. extraerCodigo doc = [c] \<and> c \<in> set ''0123456789'')"
    using extraerCodigo_digit [of doc] esDigito_single by blast
next
  assume "enviarFormulario net w targetURL dni token = (w', Inr codigo)"
  then show "\<exists>c. codigo = [c] \<and> c \<in> set ''0123456789''"
    by (blast dest: enviarFormulario_digit esDigito_single)
next
  assume "ObtenerCodigoVerificacion net w dni = (w', Inr codigo)"
  then show "\<exists>c. codigo = [c] \<and> c \<in> set ''0123456789''"
    by (blast dest: ObtenerCodigoVerificacion_digit esDigito_single)
next
  assume "procesarDNI net w dni = (w', Inr codigo)"
  then show "\<exists>c. codigo = [c] \<and> c \<in> set ''0123456789''"
    by (blast dest: procesarDNI_digit esDigito_single)
qed

lemma TrimSpace_7: "TrimSpace '' 7 '' = ''7''"
  by (simp add: TrimSpace_def TrimLeft.simps TrimRight.simps white_space_def)

lemma enviarFormulario_red_digito_7:
  "enviarFormulario red_digito_7 w url_digito dni token =
     (w\<lparr>clock := clock w + 1 * Second, sent := sent w + 1,
        log := log w @ [Slept (1 * Second),
                 Request (clock w + 1 * Second)
                   (POST url_digito [(''_token'', token), (''dniveri'', dni)])]\<rparr>,
      Inr ''7'')"
  by (simp add: enviarFormulario_def client_Do_direct Sleep_def red_digito_7_def respuesta_def
        leerRespuesta_def extraerCodigo_def pagina_vacia_def TrimSpace_7 esDigito_def
        is_digit_def Second_def)

lemma ObtenerCodigoVerificacion_red_digito_7:
  "ObtenerCodigoVerificacion red_digito_7 mundo_inicial ''12345678'' =
     (\<lparr>clock = 1 * Second, sent = 2,
       log = [Request 0 (GET url_digito), Slept (1 * Second),
              Request (1 * Second)
                (POST url_digito [(''_token'', ''tok''), (''dniveri'', ''12345678'')])]\<rparr>,
      Inr ''7'')"
  by (simp add: ObtenerCodigoVerificacion_def match_8_digits_def is_digit_def
        obtenerToken_digito_def client_Do_direct red_digito_7_def [of _ "GET _"] respuesta_def
        leerRespuesta_def pagina_vacia_def mundo_inicial_def
        enviarFormulario_red_digito_7)

theorem C10_codigo_is_one_digit_witness:
  "extraerCodigo (pagina_vacia\<lparr>mark_text := '' 7 ''\<rparr>) = ''7''
   \<and> snd (enviarFormulario red_digito_7 mundo_inicial url_digito ''12345678'' ''tok'') = Inr ''7''
   \<and> snd (ObtenerCodigoVerificacion red_digito_7 mundo_inicial ''12345678'') = Inr ''7''
   \<and> snd (procesarDNI red_digito_7 mundo_inicial ''12345678'') = Inr ''7''
   \<and> (\<exists>c. ''7'' = [c] \<and> c \<in> set ''0123456789'')"
proof -
  have e: "extraerCodigo (pagina_vacia\<lparr>mark_text := '' 7 ''\<rparr>) = ''7''"
    by (simp add: extraerCodigo_def pagina_vacia_def TrimSpace_7 esDigito_def is_digit_def)
  have f: "snd (enviarFormulario red_digito_7 mundo_inicial url_digito ''12345678'' ''tok'') = Inr ''7''"
    by (simp add: enviarFormulario_red_digito_7)
  have o: "snd (ObtenerCodigoVerificacion red_digito_7 mundo_inicial ''12345678'') = Inr ''7''"
    by (simp add: ObtenerCodigoVerificacion_red_digito_7)
  have p: "snd (procesarDNI red_digito_7 mundo_inicial ''12345678'') = Inr ''7''"
    by (simp add: procesarDNI_def procesarDNI_loop.simps [of _ mundo_inicial _ 1]
          maxReintentos_def ObtenerCodigoVerificacion_red_digito_7)
  obtain w' where p': "procesarDNI red_digito_7 mundo_inicial ''12345678'' = (w', Inr ''7'')"
    using p by (cases "procesarDNI red_digito_7 mundo_inicial ''12345678''") auto
  note C10_codigo_is_one_digit [of _ red_digito_7 mundo_inicial _ "''12345678''" _ w' "''7''",
      THEN conjunct2, THEN conjunct2, THEN conjunct2]
  from this p' have d: "\<exists>c. ''7'' = [c] \<and> c \<in> set ''0123456789''"
    by (rule mp)
  show ?thesis
    by (intro conjI) (rule e f o p d)+
qed

section \<open>The extraction pipeline: first match wins, per field\<close>

lemma campo_get_CodigoVerif [simp]: "campo_get f (datos\<lparr>CodigoVerif := v\<rparr>) = campo_get f datos"
  by (cases f) simp_all

lemma campo_get_set: "campo_get f (campo_set g v datos) = (if f = g then v else campo_get f datos)"
  by (cases f; cases g) simp_all

lemma falta_alguno_iff: "falta_alguno datos = (\<exists>f. campo_get f datos = '''')"
proof
  assume "falta_alguno datos"
  then consider "campo_get CampoNombres datos = ''''"
    | "campo_get CampoApellidoPaterno datos = ''''"
    | "campo_get CampoApellidoMaterno datos = ''''"
    by (auto simp: falta_alguno_def)
  then show "\<exists>f. campo_get f datos = ''''" by cases blast+
next
  assume "\<exists>f. campo_get f datos = ''''"
  then obtain f where "campo_get f datos = ''''" ..
  then show "falta_alguno datos"
    by (cases f) (simp_all add: falta_alguno_def)
qed

subsection \<open>What each method does to one field\<close>

lemma metodo_inputs_campo:
  "campo_get f (metodo_inputs doc datos) =
     (if TrimSpace (input_de doc f) \<noteq> '''' then TrimSpace (input_de doc f) else campo_get f datos)"
  by (cases f) (simp_all add: metodo_inputs_def Let_def)

lemma celda_tabla_campo:
  "campo_get f (celda_tabla datos (i, t)) =
     (if campo_get f datos = '''' \<and> i = columna f then TrimSpace t else campo_get f datos)"
  by (cases f) (simp_all add: celda_tabla_def Let_def)

lemma foldl_celda_tabla_campo:
  "campo_get f (foldl celda_tabla datos (enumerate 0 tds)) =
     (if campo_get f datos = '''' \<and> columna f < length tds then TrimSpace (tds ! columna f)
      else campo_get f datos)"
proof (induction tds rule: rev_induct)
  case Nil
  then show ?case by simp
next
  case (snoc t tds)
  have e: "enumerate 0 (tds @ [t]) = enumerate 0 tds @ [(length tds, t)]"
    by (simp add: enumerate_append_eq)
  show ?case
    unfolding e foldl_append foldl.simps celda_tabla_campo snoc.IH
    by (auto simp: nth_append less_Suc_eq)
qed

lemma metodo_tabla_campo:
  "campo_get f (metodo_tabla doc datos) =
     (if campo_get f datos = '''' \<and> columna f < length (td_texts doc)
      then TrimSpace (td_texts doc ! columna f)
      else campo_get f datos)"
  by (simp add: metodo_tabla_def foldl_celda_tabla_campo)

lemma metodo_css_campo:
  "campo_get f (metodo_css doc datos) =
     (if campo_get f datos = '''' then TrimSpace (css_de doc f) else campo_get f datos)"
  by (cases f) (simp_all add: metodo_css_def Let_def)

lemma regex_campo_campo:
  "campo_get f (regex_campo doc datos g) =
     (if f = g \<and> campo_get f datos = '''' \<and> length (regex_submatch doc f) > 1
      then TrimSpace (regex_submatch doc f ! 1)
      else campo_get f datos)"
  by (auto simp: regex_campo_def Let_def campo_get_set)

lemma extractDataWithRegex_campo:
  "campo_get f (extractDataWithRegex orden doc datos) =
     (if f \<in> set orden \<and> campo_get f datos = '''' \<and> length (regex_submatch doc f) > 1
      then TrimSpace (regex_submatch doc f ! 1)
      else campo_get f datos)"
  unfolding extractDataWithRegex_def
proof (induction orden rule: rev_induct)
  case Nil
  then show ?case by simp
next
  case (snoc g orden)
  show ?case
    unfolding foldl_append foldl.simps regex_campo_campo snoc.IH
    by auto
qed

subsection \<open>A later method never overwrites a field that is filled\<close>

lemma metodo_tabla_keeps:
  "campo_get f datos \<noteq> '''' \<Longrightarrow> campo_get f (metodo_tabla doc datos) = campo_get f datos"
  by (simp add: metodo_tabla_campo)

lemma metodo_css_keeps:
  "campo_get f datos \<noteq> '''' \<Longrightarrow> campo_get f (metodo_css doc datos) = campo_get f datos"
  by (simp add: metodo_css_campo)

lemma extractDataWithRegex_keeps:
  "campo_get f datos \<noteq> '''' \<Longrightarrow>
   campo_get f (extractDataWithRegex orden doc datos) = campo_get f datos"
  by (simp add: extractDataWithRegex_campo)

subsection \<open>The pipeline in closed form\<close>

lemma pipeline_campo:
  assumes "f \<in> set orden" and "campo_get f datos = ''''"
  shows "campo_get f (pipeline orden doc datos) = primero_no_vacio (candidatos doc f)"
proof -
  define d1 where "d1 = metodo_inputs doc datos"
  define d2 where "d2 = (if falta_alguno d1 then metodo_tabla doc d1 else d1)"
  define d3 where "d3 = metodo_css doc d2"
  define d4 where "d4 = (if falta_alguno d3 then extractDataWithRegex orden doc d3 else d3)"
  have p: "pipeline orden doc datos = d4\<lparr>CodigoVerif := ''''\<rparr>"
    by (simp add: pipeline_def Let_def d1_def d2_def d3_def d4_def)
  have 1: "campo_get f d1 = primero_no_vacio [TrimSpace (input_de doc f)]"
    using assms(2) by (simp add: d1_def metodo_inputs_campo)
  have 2: "campo_get f d2 =
      (if campo_get f d1 = '''' \<and> columna f < length (td_texts doc)
       then TrimSpace (td_texts doc ! columna f) else campo_get f d1)"
  proof (cases "falta_alguno d1")
    case True
    then show ?thesis by (simp add: d2_def metodo_tabla_campo)
  next
    case False
    then have "campo_get f d1 \<noteq> ''''"
      by (auto simp: falta_alguno_iff)
    with False show ?thesis by (simp add: d2_def)
  qed
  have 3: "campo_get f d3 =
      (if campo_get f d2 = '''' then TrimSpace (css_de doc f) else campo_get f d2)"
    by (simp add: d3_def metodo_css_campo)
  have 4: "campo_get f d4 =
      (if campo_get f d3 = '''' \<and> length (regex_submatch doc f) > 1
       then TrimSpace (regex_submatch doc f ! 1) else campo_get f d3)"
  proof (cases "falta_alguno d3")
    case True
    then show ?thesis
      using assms(1) by (simp add: d4_def extractDataWithRegex_campo)
  next
    case False
    then have "campo_get f d3 \<noteq> ''''"
      by (auto simp: falta_alguno_iff)
    with False show ?thesis by (simp add: d4_def)
  qed
  show ?thesis
    unfolding p campo_get_CodigoVerif 4 3 2 1 candidatos_def
    by simp
qed

lemma pipeline_DNI: "DNI (pipeline orden doc datos) = DNI datos"
proof -
  have c: "DNI (celda_tabla d cell) = DNI d" for d cell
    by (simp add: celda_tabla_def Let_def)
  have t: "DNI (foldl celda_tabla d cells) = DNI d" for d cells
    by (induction cells arbitrary: d) (simp_all add: c)
  have s: "DNI (campo_set g v d) = DNI d" for g v d
    by (cases g) simp_all
  have r: "DNI (foldl (regex_campo doc) d gs) = DNI d" for d gs
    by (induction gs arbitrary: d) (simp_all add: regex_campo_def Let_def s)
  show ?thesis
    by (simp add: pipeline_def Let_def metodo_inputs_def metodo_tabla_def metodo_css_def
          extractDataWithRegex_def t r)
qed

lemma pipeline_CodigoVerif: "CodigoVerif (pipeline orden doc datos) = ''''"
  by (simp add: pipeline_def Let_def)

lemma primero_no_vacio_in: "primero_no_vacio xs = '''' \<or> primero_no_vacio xs \<in> set xs"
  by (induction xs) auto

lemma primero_no_vacio_empty_iff: "(primero_no_vacio xs = '''') = list_all (\<lambda>x. x = '''') xs"
  by (induction xs) auto

lemma campo_UNIV: "(UNIV :: campo set) = {CampoNombres, CampoApellidoPaterno, CampoApellidoMaterno}"
  by (auto intro: campo.exhaust)

lemma pipeline_keeps_input:
  assumes "TrimSpace (input_de doc f) \<noteq> ''''"
  shows "campo_get f (pipeline orden doc datos) = TrimSpace (input_de doc f)"
proof -
  define d1 where "d1 = metodo_inputs doc datos"
  define d2 where "d2 = (if falta_alguno d1 then metodo_tabla doc d1 else d1)"
  define d3 where "d3 = metodo_css doc d2"
  define d4 where "d4 = (if falta_alguno d3 then extractDataWithRegex orden doc d3 else d3)"
  have p: "pipeline orden doc datos = d4\<lparr>CodigoVerif := ''''\<rparr>"
    by (simp add: pipeline_def Let_def d1_def d2_def d3_def d4_def)
  have 1: "campo_get f d1 = TrimSpace (input_de doc f)"
    using assms by (simp add: d1_def metodo_inputs_campo)
  with assms have n1: "campo_get f d1 \<noteq> ''''" by simp
  then have 2: "campo_get f d2 = campo_get f d1"
    by (simp add: d2_def metodo_tabla_keeps)
  with n1 have 3: "campo_get f d3 = campo_get f d1"
    by (simp add: d3_def metodo_css_keeps)
  with n1 have 4: "campo_get f d4 = campo_get f d1"
    by (simp add: d4_def extractDataWithRegex_keeps)
  show ?thesis
    by (simp add: p 4 1)
qed

lemma extraerDatosPersona_Inr:
  "extraerDatosPersona orden doc dni = Inr datos \<Longrightarrow> datos = pipeline orden doc (datos_nuevos dni)"
  by (auto simp: extraerDatosPersona_def datos_nuevos_def Let_def split: option.splits if_splits)

lemma datos_nuevos_empty: "campo_get f (datos_nuevos dni) = ''''"
  by (cases f) (simp_all add: datos_nuevos_def)

lemma all_empty_iff:
  "(Nombres d = '''' \<and> ApellidoPaterno d = '''' \<and> ApellidoMaterno d = '''')
   = (\<forall>f. campo_get f d = '''')"
proof
  assume a: "Nombres d = '''' \<and> ApellidoPaterno d = '''' \<and> ApellidoMaterno d = ''''"
  show "\<forall>f. campo_get f d = ''''"
  proof
    fix f show "campo_get f d = ''''" using a by (cases f) simp_all
  qed
next
  assume a: "\<forall>f. campo_get f d = ''''"
  from a [rule_format, of CampoNombres] a [rule_format, of CampoApellidoPaterno]
    a [rule_format, of CampoApellidoMaterno]
  show "Nombres d = '''' \<and> ApellidoPaterno d = '''' \<and> ApellidoMaterno d = ''''"
    by simp
qed

lemma extraerDatosPersona_cases:
  assumes "parse_error doc = None"
  shows "extraerDatosPersona orden doc dni =
     (if \<forall>f. campo_get f (pipeline orden doc (datos_nuevos dni)) = ''''
      then Inl (no_se_encontraron_datos dni)
      else Inr (pipeline orden doc (datos_nuevos dni)))"
  using assms all_empty_iff [of "pipeline orden doc (datos_nuevos dni)"]
  by (simp add: extraerDatosPersona_def datos_nuevos_def Let_def)

text \<open>
  Claim C7. The methods run in the canonical order (copy inputs, table cells, CSS
  classes, regular expressions) and a later method never overwrites a field that is
  already filled: the table, the CSS and the regular-expression method each leave a
  non-empty field as it is; if the first method fills field \<open>f\<close>, the returned record
  carries the first method's value for \<open>f\<close>; and in general the returned record carries,
  for each field, the first non-empty of the values the four methods offer, in that
  order. (\<open>orden\<close> is the order in which Go visits the pattern table; every key is in
  it.)
\<close>

theorem C7_later_method_never_overwrites:
  "(campo_get f datos \<noteq> '''' \<longrightarrow>
       campo_get f (metodo_tabla doc datos) = campo_get f datos
     \<and> campo_get f (metodo_css doc datos) = campo_get f datos
     \<and> campo_get f (extractDataWithRegex orden doc datos) = campo_get f datos)
   \<and> (extraerDatosPersona orden doc dni = Inr found \<and> TrimSpace (input_de doc f) \<noteq> ''''
        \<longrightarrow> campo_get f found = TrimSpace (input_de doc f))
   \<and> (extraerDatosPersona orden doc dni = Inr found \<and> f \<in> set orden
        \<longrightarrow> campo_get f found = primero_no_vacio (candidatos doc f))"
proof (intro conjI impI)
  assume "campo_get f datos \<noteq> ''''"
  then show "campo_get f (metodo_tabla doc datos) = campo_get f datos"
    and "campo_get f (metodo_css doc datos) = campo_get f datos"
    and "campo_get f (extractDataWithRegex orden doc datos) = campo_get f datos"
    by (rule metodo_tabla_keeps metodo_css_keeps extractDataWithRegex_keeps)+
next
  assume "extraerDatosPersona orden doc dni = Inr found \<and> TrimSpace (input_de doc f) \<noteq> ''''"
  then show "campo_get f found = TrimSpace (input_de doc f)"
    using extraerDatosPersona_Inr pipeline_keeps_input by metis
next
  assume "extraerDatosPersona orden doc dni = Inr found \<and> f \<in> set orden"
  then show "campo_get f found = primero_no_vacio (candidatos doc f)"
    using extraerDatosPersona_Inr pipeline_campo datos_nuevos_empty by metis
qed

lemma TrimSpace_plain:
  "TrimSpace '''' = ''''" "TrimSpace '' ANA '' = ''ANA''" "TrimSpace ''LOPEZ'' = ''LOPEZ''"
  "TrimSpace ''MARIA'' = ''MARIA''" "TrimSpace ''PEREZ'' = ''PEREZ''"
  "TrimSpace ''ROSA'' = ''ROSA''" "TrimSpace ''ANA'' = ''ANA''"
  by (simp_all add: TrimSpace_def TrimLeft.simps TrimRight.simps white_space_def)

lemma extraerDatosPersona_pagina_ana:
  "extraerDatosPersona orden_npm pagina_ana ''12345678'' =
     Inr \<lparr>DNI = ''12345678'', Nombres = ''ANA'', ApellidoPaterno = ''LOPEZ'',
          ApellidoMaterno = ''ROSA'', CodigoVerif = ''''\<rparr>"
  by (simp add: extraerDatosPersona_def pipeline_def metodo_inputs_def metodo_tabla_def
        metodo_css_def extractDataWithRegex_def regex_campo_def celda_tabla_def
        falta_alguno_def orden_npm_def pagina_ana_def pagina_vacia_def TrimSpace_plain
        enumerate_eq_zip upt_rec)

theorem C7_later_method_never_overwrites_witness:
  "extraerDatosPersona orden_npm pagina_ana ''12345678'' =
      Inr \<lparr>DNI = ''12345678'', Nombres = ''ANA'', ApellidoPaterno = ''LOPEZ'',
           ApellidoMaterno = ''ROSA'', CodigoVerif = ''''\<rparr>
   \<and> TrimSpace (input_de pagina_ana CampoNombres) = ''ANA''
   \<and> candidatos pagina_ana CampoNombres = [''ANA'', ''MARIA'', '''', ''ROSA'']
   \<and> primero_no_vacio (candidatos pagina_ana CampoNombres) = ''ANA''
   \<and> candidatos pagina_ana CampoApellidoMaterno = ['''', '''', '''', ''ROSA'']
   \<and> campo_get CampoNombres
        (metodo_tabla pagina_ana (datos_nuevos ''12345678''\<lparr>Nombres := ''ANA''\<rparr>)) = ''ANA''
   \<and> campo_get CampoNombres
        (extractDataWithRegex orden_npm pagina_ana (datos_nuevos ''12345678''\<lparr>Nombres := ''ANA''\<rparr>))
        = ''ANA''"
proof -
  let ?d = "datos_nuevos ''12345678''\<lparr>Nombres := ''ANA''\<rparr>"
  let ?r = "\<lparr>DNI = ''12345678'', Nombres = ''ANA'', ApellidoPaterno = ''LOPEZ'',
           ApellidoMaterno = ''ROSA'', CodigoVerif = ''''\<rparr>"
  note T = C7_later_method_never_overwrites
    [of CampoNombres ?d pagina_ana orden_npm "''12345678''" ?r]
  have a: "extraerDatosPersona orden_npm pagina_ana ''12345678'' = Inr ?r"
    by (rule extraerDatosPersona_pagina_ana)
  have b: "TrimSpace (input_de pagina_ana CampoNombres) = ''ANA''"
    by (simp add: pagina_ana_def pagina_vacia_def TrimSpace_plain)
  have c: "candidatos pagina_ana CampoNombres = [''ANA'', ''MARIA'', '''', ''ROSA'']"
    by (simp add: candidatos_def pagina_ana_def pagina_vacia_def TrimSpace_plain)
  have c': "candidatos pagina_ana CampoApellidoMaterno = ['''', '''', '''', ''ROSA'']"
    by (simp add: candidatos_def pagina_ana_def pagina_vacia_def TrimSpace_plain)
  have n: "campo_get CampoNombres ?d \<noteq> ''''"
    by simp
  from T [THEN conjunct1] n
  have k: "campo_get CampoNombres (metodo_tabla pagina_ana ?d) = campo_get CampoNombres ?d
     \<and> campo_get CampoNombres (metodo_css pagina_ana ?d) = campo_get CampoNombres ?d
     \<and> campo_get CampoNombres (extractDataWithRegex orden_npm pagina_ana ?d)
        = campo_get CampoNombres ?d"
    by (rule mp)
  have g: "campo_get CampoNombres ?d = ''ANA''"
    by simp
  have "TrimSpace (input_de pagina_ana CampoNombres) \<noteq> ''''"
    unfolding b by simp
  with a have "extraerDatosPersona orden_npm pagina_ana ''12345678'' = Inr ?r
      \<and> TrimSpace (input_de pagina_ana CampoNombres) \<noteq> ''''" ..
  with T [THEN conjunct2, THEN conjunct1]
  have i: "campo_get CampoNombres ?r = TrimSpace (input_de pagina_ana CampoNombres)"
    by (rule mp)
  have "CampoNombres \<in> set orden_npm"
    by (simp add: orden_npm_def)
  with a have "extraerDatosPersona orden_npm pagina_ana ''12345678'' = Inr ?r
      \<and> CampoNombres \<in> set orden_npm" ..
  with T [THEN conjunct2, THEN conjunct2]
  have j: "campo_get CampoNombres ?r = primero_no_vacio (candidatos pagina_ana CampoNombres)"
    by (rule mp)
  show ?thesis
    using a b c c' k g i j by simp
qed

section \<open>No data found, exactly when every field stays empty\<close>

lemma pipeline_from_candidatos:
  assumes "set orden = UNIV"
  shows "campo_get f (pipeline orden doc (datos_nuevos dni)) = primero_no_vacio (candidatos doc f)"
  using assms by (intro pipeline_campo datos_nuevos_empty) simp

text \<open>
  Claim C6. For every document that parses, \<open>extraerDatosPersona\<close> returns the
  no-data-found failure if and only if name, paternal surname and maternal surname are
  all empty after the four methods have run, which is the case exactly when every value
  the document offers for them is empty; otherwise it returns the record as a success,
  also when some of its fields are empty. No field is defaulted: each field of the
  returned record is empty or one of the values the document offers for that field, the
  identifier is the one asked for and the verification code is empty. (\<open>orden\<close> is the
  order in which Go visits the pattern table; it holds every key.)
\<close>

theorem C6_no_data_found_iff_all_empty:
  "parse_error doc = None \<and> set orden = UNIV \<longrightarrow>
     ((extraerDatosPersona orden doc dni = Inl (no_se_encontraron_datos dni))
        = (\<forall>f. campo_get f (pipeline orden doc (datos_nuevos dni)) = ''''))
   \<and> ((extraerDatosPersona orden doc dni = Inl (no_se_encontraron_datos dni))
        = (\<forall>f. list_all (\<lambda>v. v = '''') (candidatos doc f)))
   \<and> ((\<exists>f. campo_get f (pipeline orden doc (datos_nuevos dni)) \<noteq> '''')
        = (extraerDatosPersona orden doc dni = Inr (pipeline orden doc (datos_nuevos dni))))
   \<and> (\<forall>found. extraerDatosPersona orden doc dni = Inr found \<longrightarrow>
          (\<forall>f. campo_get f found = '''' \<or> campo_get f found \<in> set (candidatos doc f))
          \<and> DNI found = dni \<and> CodigoVerif found = '''')"
proof (intro impI)
  assume h: "parse_error doc = None \<and> set orden = UNIV"
  let ?p = "pipeline orden doc (datos_nuevos dni)"
  note c = extraerDatosPersona_cases [of doc orden dni]
  have cand: "campo_get f ?p = primero_no_vacio (candidatos doc f)" for f
    using h by (simp add: pipeline_from_candidatos)
  have 1: "(extraerDatosPersona orden doc dni = Inl (no_se_encontraron_datos dni))
        = (\<forall>f. campo_get f ?p = '''')"
    using h c by simp
  have 2: "(extraerDatosPersona orden doc dni = Inl (no_se_encontraron_datos dni))
        = (\<forall>f. list_all (\<lambda>v. v = '''') (candidatos doc f))"
    unfolding 1 cand primero_no_vacio_empty_iff ..
  have 3: "(\<exists>f. campo_get f ?p \<noteq> '''') = (extraerDatosPersona orden doc dni = Inr ?p)"
    using h c by simp
  have 4: "(\<forall>f. campo_get f found = '''' \<or> campo_get f found \<in> set (candidatos doc f))
          \<and> DNI found = dni \<and> CodigoVerif found = ''''"
    if "extraerDatosPersona orden doc dni = Inr found" for found
  proof -
    from that have f: "found = ?p"
      by (rule extraerDatosPersona_Inr)
    have "campo_get f ?p = '''' \<or> campo_get f ?p \<in> set (candidatos doc f)" for f
      unfolding cand by (rule primero_no_vacio_in)
    moreover have "DNI ?p = dni"
      by (simp add: pipeline_DNI datos_nuevos_def)
    moreover have "CodigoVerif ?p = ''''"
      by (rule pipeline_CodigoVerif)
    ultimately show ?thesis
      unfolding f by blast
  qed
  show "((extraerDatosPersona orden doc dni = Inl (no_se_encontraron_datos dni))
        = (\<forall>f. campo_get f ?p = ''''))
   \<and> ((extraerDatosPersona orden doc dni = Inl (no_se_encontraron_datos dni))
        = (\<forall>f. list_all (\<lambda>v. v = '''') (candidatos doc f)))
   \<and> ((\<exists>f. campo_get f ?p \<noteq> '''')
        = (extraerDatosPersona orden doc dni = Inr ?p))
   \<and> (\<forall>found. extraerDatosPersona orden doc dni = Inr found \<longrightarrow>
          (\<forall>f. campo_get f found = '''' \<or> campo_get f found \<in> set (candidatos doc f))
          \<and> DNI found = dni \<and> CodigoVerif found = '''')"
    by (intro conjI allI impI 1 2 3 4)
qed

lemma set_orden_npm: "set orden_npm = UNIV"
  by (simp add: orden_npm_def campo_UNIV)

lemma pipeline_pagina_parcial:
  "pipeline orden_npm pagina_parcial (datos_nuevos ''12345678'') =
     \<lparr>DNI = ''12345678'', Nombres = ''ANA'', ApellidoPaterno = ''LOPEZ'',
      ApellidoMaterno = '''', CodigoVerif = ''''\<rparr>"
proof -
  let ?d = "\<lparr>DNI = ''12345678'', Nombres = ''ANA'', ApellidoPaterno = ''LOPEZ'',
      ApellidoMaterno = '''', CodigoVerif = ''''\<rparr>"
  have 1: "metodo_inputs pagina_parcial (datos_nuevos ''12345678'') = ?d"
    by (simp add: metodo_inputs_def Let_def datos_nuevos_def pagina_parcial_def
          pagina_vacia_def TrimSpace_plain)
  have f: "falta_alguno ?d"
    by (simp add: falta_alguno_def)
  have 2: "metodo_tabla pagina_parcial ?d = ?d"
    by (simp add: metodo_tabla_def pagina_parcial_def pagina_vacia_def)
  have 3: "metodo_css pagina_parcial ?d = ?d"
    by (simp add: metodo_css_def Let_def pagina_parcial_def pagina_vacia_def TrimSpace_plain)
  have 4: "extractDataWithRegex orden_npm pagina_parcial ?d = ?d"
    by (simp add: extractDataWithRegex_def regex_campo_def orden_npm_def pagina_parcial_def
          pagina_vacia_def)
  show ?thesis
    unfolding pipeline_def Let_def 1 by (simp only: f 2 3 4 if_True) simp
qed

lemma extraerDatosPersona_pagina_parcial:
  "extraerDatosPersona orden_npm pagina_parcial ''12345678'' =
     Inr \<lparr>DNI = ''12345678'', Nombres = ''ANA'', ApellidoPaterno = ''LOPEZ'',
          ApellidoMaterno = '''', CodigoVerif = ''''\<rparr>"
proof -
  have "parse_error pagina_parcial = None"
    by (simp add: pagina_parcial_def pagina_vacia_def)
  then show ?thesis
    unfolding extraerDatosPersona_def datos_nuevos_def [symmetric] Let_def
      pipeline_pagina_parcial
    by simp
qed

lemma pipeline_pagina_vacia:
  "pipeline orden_npm pagina_vacia (datos_nuevos ''12345678'') = datos_nuevos ''12345678''"
proof -
  let ?d = "datos_nuevos ''12345678''"
  have 1: "metodo_inputs pagina_vacia ?d = ?d"
    by (simp add: metodo_inputs_def Let_def pagina_vacia_def TrimSpace_plain)
  have f: "falta_alguno ?d"
    by (simp add: falta_alguno_def datos_nuevos_def)
  have 2: "metodo_tabla pagina_vacia ?d = ?d"
    by (simp add: metodo_tabla_def pagina_vacia_def)
  have 3: "metodo_css pagina_vacia ?d = ?d"
    by (simp add: metodo_css_def Let_def pagina_vacia_def TrimSpace_plain datos_nuevos_def)
  have 4: "extractDataWithRegex orden_npm pagina_vacia ?d = ?d"
    by (simp add: extractDataWithRegex_def regex_campo_def orden_npm_def pagina_vacia_def
          datos_nuevos_def)
  show ?thesis
    unfolding pipeline_def Let_def 1 by (simp only: f 2 3 4 if_True) (simp add: datos_nuevos_def)
qed

lemma extraerDatosPersona_pagina_vacia:
  "extraerDatosPersona orden_npm pagina_vacia ''12345678'' =
     Inl ''no se encontraron datos para el DNI 12345678''"
proof -
  have "parse_error pagina_vacia = None"
    by (simp add: pagina_vacia_def)
  then show ?thesis
    unfolding extraerDatosPersona_def datos_nuevos_def [symmetric] Let_def
      pipeline_pagina_vacia
    by (simp add: datos_nuevos_def no_se_encontraron_datos_def)
qed

theorem C6_no_data_found_iff_all_empty_witness:
  "extraerDatosPersona orden_npm pagina_parcial ''12345678'' =
      Inr \<lparr>DNI = ''12345678'', Nombres = ''ANA'', ApellidoPaterno = ''LOPEZ'',
           ApellidoMaterno = '''', CodigoVerif = ''''\<rparr>
   \<and> extraerDatosPersona orden_npm pagina_vacia ''12345678'' =
      Inl ''no se encontraron datos para el DNI 12345678''
   \<and> (\<forall>f. list_all (\<lambda>v. v = '''') (candidatos pagina_vacia f))
   \<and> \<not> (\<forall>f. list_all (\<lambda>v. v = '''') (candidatos pagina_parcial f))
   \<and> candidatos pagina_parcial CampoApellidoMaterno = ['''', '''']"
proof -
  have hv: "parse_error pagina_vacia = None \<and> set orden_npm = UNIV"
    by (simp add: pagina_vacia_def set_orden_npm)
  have hp: "parse_error pagina_parcial = None \<and> set orden_npm = UNIV"
    by (simp add: pagina_parcial_def pagina_vacia_def set_orden_npm)
  note V = C6_no_data_found_iff_all_empty [of pagina_vacia orden_npm "''12345678''", THEN mp, OF hv]
  note P = C6_no_data_found_iff_all_empty [of pagina_parcial orden_npm "''12345678''", THEN mp, OF hp]
  have nd: "no_se_encontraron_datos ''12345678'' = ''no se encontraron datos para el DNI 12345678''"
    by (simp add: no_se_encontraron_datos_def)
  have a: "\<forall>f. list_all (\<lambda>v. v = '''') (candidatos pagina_vacia f)"
    using V [THEN conjunct2, THEN conjunct1] extraerDatosPersona_pagina_vacia
    unfolding nd by simp
  have b: "\<not> (\<forall>f. list_all (\<lambda>v. v = '''') (candidatos pagina_parcial f))"
    using P [THEN conjunct2, THEN conjunct1] extraerDatosPersona_pagina_parcial
    by simp
  have c: "candidatos pagina_parcial CampoApellidoMaterno = ['''', '''']"
    by (simp add: candidatos_def pagina_parcial_def pagina_vacia_def TrimSpace_plain)
  show ?thesis
    by (intro conjI extraerDatosPersona_pagina_parcial extraerDatosPersona_pagina_vacia a b c)
qed

section \<open>Malformed identifiers and the network\<close>


lemma ObtenerDatosPersona_rejects:
  "\<not> match_8_digits dni \<Longrightarrow>
   ObtenerDatosPersona orden net w dni = (w, Inl DNI_invalido_8_digitos)"
  by (simp add: ObtenerDatosPersona_def)



text \<open>
  Claim C2, at the input where the code departs from it. The worker's token-based path
  \<open>consultarDNIConToken\<close> checks only that the token is not empty: with the token
  \<open>tok\<close> it posts the malformed identifier \<open>abc\<close> to the endpoint, and the failure it
  returns is the extractor's no-data error for the answer, not an invalid-input
  failure.
\<close>

theorem C2_token_path_posts_malformed_identifier:
  "\<not> match_8_digits ''abc''
   \<and> consultarDNIConToken orden_npm (\<lambda>n req. respuesta pagina_vacia) mundo_inicial ''abc''
        worker_con_token
      = (\<lparr>clock = 1 * Second, sent = 1,
          log = [Slept (1 * Second),
                 Request (1 * Second) (POST url_datos [(''_token'', ''tok''), (''dni'', ''abc'')])]\<rparr>,
         Inl ''no se encontraron datos para el DNI abc'')"
proof -
  have e: "extraerDatosPersona orden_npm pagina_vacia ''abc''
           = Inl ''no se encontraron datos para el DNI abc''"
  proof -
    let ?d = "datos_nuevos ''abc''"
    have 1: "metodo_inputs pagina_vacia ?d = ?d"
      by (simp add: metodo_inputs_def Let_def pagina_vacia_def TrimSpace_plain)
    have f: "falta_alguno ?d"
      by (simp add: falta_alguno_def datos_nuevos_def)
    have 2: "metodo_tabla pagina_vacia ?d = ?d"
      by (simp add: metodo_tabla_def pagina_vacia_def)
    have 3: "metodo_css pagina_vacia ?d = ?d"
      by (simp add: metodo_css_def Let_def pagina_vacia_def TrimSpace_plain datos_nuevos_def)
    have 4: "extractDataWithRegex orden_npm pagina_vacia ?d = ?d"
      by (simp add: extractDataWithRegex_def regex_campo_def orden_npm_def pagina_vacia_def
            datos_nuevos_def)
    have p: "pipeline orden_npm pagina_vacia ?d = ?d"
      unfolding pipeline_def Let_def 1
      by (simp only: f 2 3 4 if_True) (simp add: datos_nuevos_def)
    have "parse_error pagina_vacia = None"
      by (simp add: pagina_vacia_def)
    then show ?thesis
      unfolding extraerDatosPersona_def datos_nuevos_def [symmetric] Let_def p
      by (simp add: datos_nuevos_def no_se_encontraron_datos_def)
  qed
  have m: "\<not> match_8_digits ''abc''"
    by (simp add: match_8_digits_def)
  have c: "consultarDNIConToken orden_npm (\<lambda>n req. respuesta pagina_vacia) mundo_inicial ''abc''
        worker_con_token
      = (\<lparr>clock = 1 * Second, sent = 1,
          log = [Slept (1 * Second),
                 Request (1 * Second) (POST url_datos [(''_token'', ''tok''), (''dni'', ''abc'')])]\<rparr>,
         Inl ''no se encontraron datos para el DNI abc'')"
    by (simp add: consultarDNIConToken_def worker_con_token_def EnviarFormularioConToken_def
          client_Do_direct Sleep_def respuesta_def leerRespuesta_def mundo_inicial_def e Second_def)
  from m c show ?thesis ..
qed

section \<open>What the lookups add to the log\<close>

lemma log_Sleep [simp]: "log (Sleep d w) = log w @ [Slept d]"
  by (simp add: Sleep_def)

lemma clock_Sleep [simp]: "clock (Sleep d w) = clock w + max 0 d"
  by (simp add: Sleep_def)

lemma sent_Sleep [simp]: "sent (Sleep d w) = sent w"
  by (simp add: Sleep_def)

lemma log_Println [simp]: "log (Println l w) = log w @ [Printed l]"
  by (simp add: Println_def)

lemma clock_Println [simp]: "clock (Println l w) = clock w"
  by (simp add: Println_def)

lemma sent_Println [simp]: "sent (Println l w) = sent w"
  by (simp add: Println_def)

lemma lookups_of_calls: "calls es' = calls es @ xs \<Longrightarrow> lookups es' = lookups es + lookups xs"
proof -
  assume a: "calls es' = calls es @ xs"
  have "lookups es' = lookups (calls es')"
    by simp
  also have "\<dots> = lookups (calls es) + lookups xs"
    unfolding a by (simp only: lookups_append)
  finally show ?thesis
    by simp
qed

text \<open>The world after each function of the packages is the world after its request.\<close>

lemma fst_obtenerToken_digito:
  "fst (obtenerToken_digito net w u) = fst (client_Do net w (GET u))"
  by (simp add: obtenerToken_digito_def split_beta Let_def split: option.splits sum.splits)

lemma fst_enviarFormulario:
  "fst (enviarFormulario net w u dni token)
     = fst (client_Do net (Sleep (1 * Second) w) (POST u [(''_token'', token), (''dniveri'', dni)]))"
  by (simp add: enviarFormulario_def split_beta Let_def split: option.splits sum.splits)

lemma fst_EnviarFormularioConToken:
  "fst (EnviarFormularioConToken orden net w u dni token)
     = fst (client_Do net (Sleep (1 * Second) w) (POST u [(''_token'', token), (''dni'', dni)]))"
  by (simp add: EnviarFormularioConToken_def split_beta Let_def split: option.splits sum.splits)

lemma fst_renovarToken:
  "fst (renovarToken net w state) = fst (client_Do net w (GET (TargetURL state)))"
  by (simp add: renovarToken_def split_beta Let_def split: option.splits sum.splits)

lemma log_obtenerToken_digito:
  "calls (log (fst (obtenerToken_digito net w u))) = calls (log w) @ [Request (clock w) (GET u)]"
  by (simp add: fst_obtenerToken_digito)

lemma log_enviarFormulario:
  "calls (log (fst (enviarFormulario net w u dni token))) =
     calls (log w) @ [Slept (1 * Second),
              Request (clock w + 1 * Second) (POST u [(''_token'', token), (''dniveri'', dni)])]"
  by (simp add: fst_enviarFormulario Second_def)

lemma lookups_ObtenerCodigoVerificacion:
  "lookups (log (fst (ObtenerCodigoVerificacion net w dni))) \<le> Suc (lookups (log w))"
proof (cases "match_8_digits dni")
  case False
  then show ?thesis by (simp add: ObtenerCodigoVerificacion_def)
next
  case True
  obtain w1 r where t: "obtenerToken_digito net w url_digito = (w1, r)"
    by (cases "obtenerToken_digito net w url_digito")
  from fst_obtenerToken_digito [of net w url_digito] t
  have l1: "lookups (log w1) = lookups (log w)" by simp
  show ?thesis
  proof (cases r)
    case (Inl e)
    with True t l1 show ?thesis by (simp add: ObtenerCodigoVerificacion_def)
  next
    case (Inr token)
    with True t l1 show ?thesis
      by (simp add: ObtenerCodigoVerificacion_def fst_enviarFormulario)
  qed
qed

lemma wire_posts_ObtenerCodigoVerificacion:
  "wire_posts (log (fst (ObtenerCodigoVerificacion net w dni))) \<le> wire_posts (log w) + 10"
proof (cases "match_8_digits dni")
  case False
  then show ?thesis by (simp add: ObtenerCodigoVerificacion_def)
next
  case True
  obtain w1 r where t: "obtenerToken_digito net w url_digito = (w1, r)"
    by (cases "obtenerToken_digito net w url_digito")
  from fst_obtenerToken_digito [of net w url_digito] t
  have l1: "wire_posts (log w1) = wire_posts (log w)"
    by (simp add: wire_posts_client_Do_GET)
  show ?thesis
  proof (cases r)
    case (Inl e)
    with True t l1 show ?thesis by (simp add: ObtenerCodigoVerificacion_def)
  next
    case (Inr token)
    from wire_posts_client_Do
      [of net "Sleep (1 * Second) w1" "POST url_digito [(''_token'', token), (''dniveri'', dni)]"]
    have "wire_posts (log (fst (enviarFormulario net w1 url_digito dni token)))
        \<le> wire_posts (log w1) + 10"
      by (simp add: fst_enviarFormulario)
    with True t l1 Inr show ?thesis
      by (simp add: ObtenerCodigoVerificacion_def)
  qed
qed

lemma log_EnviarFormularioConToken:
  "calls (log (fst (EnviarFormularioConToken orden net w u dni token))) =
     calls (log w) @ [Slept (1 * Second),
              Request (clock w + 1 * Second) (POST u [(''_token'', token), (''dni'', dni)])]"
  by (simp add: fst_EnviarFormularioConToken Second_def)

lemma log_consultarDNIConToken:
  "calls (log (fst (consultarDNIConToken orden net w dni state))) =
     (if Token state = '''' then calls (log w)
      else calls (log w) @ [Slept (1 * Second),
                    Request (clock w + 1 * Second)
                      (POST (TargetURL state) [(''_token'', Token state), (''dni'', dni)])])"
  by (simp add: consultarDNIConToken_def log_EnviarFormularioConToken)

lemma lookups_consultarDNIConToken:
  "lookups (log (fst (consultarDNIConToken orden net w dni state))) \<le> Suc (lookups (log w))"
  by (simp add: consultarDNIConToken_def fst_EnviarFormularioConToken)

lemma wire_posts_consultarDNIConToken:
  "wire_posts (log (fst (consultarDNIConToken orden net w dni state))) \<le> wire_posts (log w) + 10"
proof (cases "Token state = ''''")
  case True
  then show ?thesis by (simp add: consultarDNIConToken_def)
next
  case False
  from wire_posts_client_Do
    [of net "Sleep (1 * Second) w" "POST (TargetURL state) [(''_token'', Token state), (''dni'', dni)]"]
  show ?thesis
    using False by (simp add: consultarDNIConToken_def fst_EnviarFormularioConToken)
qed

lemma log_renovarToken:
  "calls (log (fst (renovarToken net w state)))
     = calls (log w) @ [Request (clock w) (GET (TargetURL state))]"
  by (simp add: fst_renovarToken)

lemma lookups_renovarToken [simp]:
  "lookups (log (fst (renovarToken net w state))) = lookups (log w)"
  by (simp add: fst_renovarToken)

lemma wire_posts_renovarToken [simp]:
  "wire_posts (log (fst (renovarToken net w state))) = wire_posts (log w)"
  by (simp add: fst_renovarToken wire_posts_client_Do_GET)

lemma renovarToken_failure_keeps_state:
  "renovarToken net w state = (w1, state1, Some e) \<Longrightarrow> state1 = state"
  by (auto simp: renovarToken_def split_beta Let_def split: option.splits sum.splits if_splits)

lemma renovarToken_keeps_rest:
  "renovarToken net w state = (w1, state1, err) \<Longrightarrow>
   ID state1 = ID state \<and> TargetURL state1 = TargetURL state \<and> ConsultCount state1 = ConsultCount state"
  by (auto simp: renovarToken_def split_beta Let_def split: option.splits sum.splits if_splits)

section \<open>The retry loops, unrolled\<close>

lemma maxReintentos_simps [simp]:
  "(1::int) \<le> maxReintentos" "(2::int) \<le> maxReintentos" "\<not> (3::int) \<le> maxReintentos"
  "(1::int) < maxReintentos" "\<not> (2::int) < maxReintentos"
  by (simp_all add: maxReintentos_def)

lemma procesarDNI_first_try:
  "ObtenerCodigoVerificacion net w dni = (w1, Inr codigo) \<Longrightarrow>
   procesarDNI net w dni = (w1, Inr codigo)"
  by (simp add: procesarDNI_def procesarDNI_loop.simps [of net w dni 1])

lemma procesarDNI_second_try:
  assumes "ObtenerCodigoVerificacion net w dni = (w1, Inl e)"
  shows "procesarDNI net w dni =
         ObtenerCodigoVerificacion net (Sleep (espera_reintento 1) w1) dni"
proof -
  let ?w = "Sleep (espera_reintento 1) w1"
  obtain w2 r where r: "ObtenerCodigoVerificacion net ?w dni = (w2, r)"
    by (cases "ObtenerCodigoVerificacion net ?w dni")
  have 1: "procesarDNI net w dni = procesarDNI_loop net ?w dni 2 (Some e)"
    using assms by (simp add: procesarDNI_def procesarDNI_loop.simps [of net w dni 1])
  have 2: "procesarDNI_loop net ?w dni 2 (Some e) = (w2, r)"
    using r
    by (cases r)
       (simp_all add: procesarDNI_loop.simps [of net ?w dni 2]
          procesarDNI_loop.simps [of net w2 dni 3])
  show ?thesis
    by (simp add: 1 2 r)
qed

lemma procesarDNIConToken_first_try:
  "consultarDNIConToken orden net w dni state = (w1, Inr datos) \<Longrightarrow>
   procesarDNIConToken orden net w dni state = (w1, state, Inr datos)"
  by (simp add: procesarDNIConToken_def procesarDNIConToken_loop.simps [of orden net w dni state 1])

lemma procesarDNIConToken_loop_step:
  assumes "intento \<le> maxReintentos"
    and "consultarDNIConToken orden net w dni state = (w1, Inl err)"
  shows "procesarDNIConToken_loop orden net w dni state intento lastError =
         procesarDNIConToken_loop orden net (fst (tras_fallo net w1 state intento err)) dni
           (snd (tras_fallo net w1 state intento err)) (intento + 1) (Some err)"
  using assms
  by (simp add: procesarDNIConToken_loop.simps [of orden net w dni state intento]
        tras_fallo_def split_beta Let_def)

lemma procesarDNIConToken_loop_end:
  "\<not> intento \<le> maxReintentos \<Longrightarrow>
   procesarDNIConToken_loop orden net w dni state intento lastError =
     (w, state, Inl (agoto_reintentos (ID state) lastError))"
  by (simp add: procesarDNIConToken_loop.simps [of orden net w dni state intento])

lemma procesarDNIConToken_loop_success:
  "intento \<le> maxReintentos \<Longrightarrow>
   consultarDNIConToken orden net w dni state = (w1, Inr datos) \<Longrightarrow>
   procesarDNIConToken_loop orden net w dni state intento lastError = (w1, state, Inr datos)"
  by (simp add: procesarDNIConToken_loop.simps [of orden net w dni state intento])

lemma lookups_tras_fallo:
  "lookups (log (fst (tras_fallo net w1 state intento err))) = lookups (log w1)"
  by (simp add: tras_fallo_def split_beta Let_def)

lemma lookups_procesarDNI:
  "lookups (log (fst (procesarDNI net w dni))) \<le> lookups (log w) + 2"
proof -
  obtain w1 r where r: "ObtenerCodigoVerificacion net w dni = (w1, r)"
    by (cases "ObtenerCodigoVerificacion net w dni")
  from lookups_ObtenerCodigoVerificacion [of net w dni] r
  have l1: "lookups (log w1) \<le> Suc (lookups (log w))" by simp
  show ?thesis
  proof (cases r)
    case (Inr codigo)
    with r l1 show ?thesis
      by (simp add: procesarDNI_first_try)
  next
    case (Inl e)
    with r have "procesarDNI net w dni
        = ObtenerCodigoVerificacion net (Sleep (espera_reintento 1) w1) dni"
      by (simp add: procesarDNI_second_try)
    with lookups_ObtenerCodigoVerificacion [of net "Sleep (espera_reintento 1) w1" dni] l1
    show ?thesis by simp
  qed
qed

lemma lookups_procesarDNIConToken:
  "lookups (log (fst (procesarDNIConToken orden net w dni state))) \<le> lookups (log w) + 2"
proof -
  obtain w1 r where r: "consultarDNIConToken orden net w dni state = (w1, r)"
    by (cases "consultarDNIConToken orden net w dni state")
  from lookups_consultarDNIConToken [of orden net w dni state] r
  have l1: "lookups (log w1) \<le> Suc (lookups (log w))" by simp
  show ?thesis
  proof (cases r)
    case (Inr datos)
    with r l1 show ?thesis
      by (simp add: procesarDNIConToken_first_try)
  next
    case (Inl e)
    define w' where "w' = fst (tras_fallo net w1 state 1 e)"
    define state' where "state' = snd (tras_fallo net w1 state 1 e)"
    have step1: "procesarDNIConToken orden net w dni state
        = procesarDNIConToken_loop orden net w' dni state' 2 (Some e)"
      using r Inl
      by (simp add: procesarDNIConToken_def w'_def state'_def
            procesarDNIConToken_loop_step [of 1 orden net w dni state w1 e])
    have l': "lookups (log w') = lookups (log w1)"
      by (simp add: w'_def lookups_tras_fallo)
    obtain w2 r2 where r2: "consultarDNIConToken orden net w' dni state' = (w2, r2)"
      by (cases "consultarDNIConToken orden net w' dni state'")
    from lookups_consultarDNIConToken [of orden net w' dni state'] r2
    have l2: "lookups (log w2) \<le> Suc (lookups (log w'))" by simp
    show ?thesis
    proof (cases r2)
      case (Inr datos)
      with r2 have "procesarDNIConToken_loop orden net w' dni state' 2 (Some e)
          = (w2, state', Inr datos)"
        by (simp add: procesarDNIConToken_loop_success)
      with step1 l1 l' l2 show ?thesis by simp
    next
      case (Inl e2)
      with r2 have "procesarDNIConToken_loop orden net w' dni state' 2 (Some e)
          = procesarDNIConToken_loop orden net (fst (tras_fallo net w2 state' 2 e2)) dni
              (snd (tras_fallo net w2 state' 2 e2)) 3 (Some e2)"
        using procesarDNIConToken_loop_step [of 2 orden net w' dni state' w2 e2 "Some e"]
        by simp
      then have "fst (procesarDNIConToken_loop orden net w' dni state' 2 (Some e))
          = fst (tras_fallo net w2 state' 2 e2)"
        by (simp add: procesarDNIConToken_loop_end)
      with step1 l1 l' l2 show ?thesis
        by (simp add: lookups_tras_fallo)
    qed
  qed
qed

lemma wire_posts_tras_fallo:
  "wire_posts (log (fst (tras_fallo net w1 state intento err))) = wire_posts (log w1)"
  by (simp add: tras_fallo_def split_beta Let_def)

lemma wire_posts_procesarDNI:
  "wire_posts (log (fst (procesarDNI net w dni))) \<le> wire_posts (log w) + 20"
proof -
  obtain w1 r where r: "ObtenerCodigoVerificacion net w dni = (w1, r)"
    by (cases "ObtenerCodigoVerificacion net w dni")
  from wire_posts_ObtenerCodigoVerificacion [of net w dni] r
  have l1: "wire_posts (log w1) \<le> wire_posts (log w) + 10" by simp
  show ?thesis
  proof (cases r)
    case (Inr codigo)
    with r l1 show ?thesis
      by (simp add: procesarDNI_first_try)
  next
    case (Inl e)
    with r have "procesarDNI net w dni
        = ObtenerCodigoVerificacion net (Sleep (espera_reintento 1) w1) dni"
      by (simp add: procesarDNI_second_try)
    with wire_posts_ObtenerCodigoVerificacion [of net "Sleep (espera_reintento 1) w1" dni] l1
    show ?thesis by simp
  qed
qed

lemma wire_posts_procesarDNIConToken:
  "wire_posts (log (fst (procesarDNIConToken orden net w dni state))) \<le> wire_posts (log w) + 20"
proof -
  obtain w1 r where r: "consultarDNIConToken orden net w dni state = (w1, r)"
    by (cases "consultarDNIConToken orden net w dni state")
  from wire_posts_consultarDNIConToken [of orden net w dni state] r
  have l1: "wire_posts (log w1) \<le> wire_posts (log w) + 10" by simp
  show ?thesis
  proof (cases r)
    case (Inr datos)
    with r l1 show ?thesis
      by (simp add: procesarDNIConToken_first_try)
  next
    case (Inl e)
    define w' where "w' = fst (tras_fallo net w1 state 1 e)"
    define state' where "state' = snd (tras_fallo net w1 state 1 e)"
    have step1: "procesarDNIConToken orden net w dni state
        = procesarDNIConToken_loop orden net w' dni state' 2 (Some e)"
      using r Inl
      by (simp add: procesarDNIConToken_def w'_def state'_def
            procesarDNIConToken_loop_step [of 1 orden net w dni state w1 e])
    have l': "wire_posts (log w') = wire_posts (log w1)"
      by (simp add: w'_def wire_posts_tras_fallo)
    obtain w2 r2 where r2: "consultarDNIConToken orden net w' dni state' = (w2, r2)"
      by (cases "consultarDNIConToken orden net w' dni state'")
    from wire_posts_consultarDNIConToken [of orden net w' dni state'] r2
    have l2: "wire_posts (log w2) \<le> wire_posts (log w') + 10" by simp
    show ?thesis
    proof (cases r2)
      case (Inr datos)
      with r2 have "procesarDNIConToken_loop orden net w' dni state' 2 (Some e)
          = (w2, state', Inr datos)"
        by (simp add: procesarDNIConToken_loop_success)
      with step1 l1 l' l2 show ?thesis by simp
    next
      case (Inl e2)
      with r2 have "procesarDNIConToken_loop orden net w' dni state' 2 (Some e)
          = procesarDNIConToken_loop orden net (fst (tras_fallo net w2 state' 2 e2)) dni
              (snd (tras_fallo net w2 state' 2 e2)) 3 (Some e2)"
        using procesarDNIConToken_loop_step [of 2 orden net w' dni state' w2 e2 "Some e"]
        by simp
      then have "fst (procesarDNIConToken_loop orden net w' dni state' 2 (Some e))
          = fst (tras_fallo net w2 state' 2 e2)"
        by (simp add: procesarDNIConToken_loop_end)
      with step1 l1 l' l2 show ?thesis
        by (simp add: wire_posts_tras_fallo)
    qed
  qed
qed

text \<open>
  The two loops written out. With the ceiling of two attempts each makes one pause
  before its second attempt, and no third attempt.
\<close>

lemma espera_backoff_simps:
  "espera_reintento 1 = 2 * Second" "backoff 1 = 10 * Second"
  "waitTime 1 = 60 * Second" "waitTime 2 = 90 * Second"
  by (simp_all add: espera_reintento_def backoff_def waitTime_def)

lemma procesarDNI_unrolled:
  "procesarDNI net w dni =
     (case ObtenerCodigoVerificacion net w dni of
        (w1, Inr codigo) \<Rightarrow> (w1, Inr codigo)
      | (w1, Inl e) \<Rightarrow> ObtenerCodigoVerificacion net (Sleep (2 * Second) w1) dni)"
proof -
  obtain w1 r where r: "ObtenerCodigoVerificacion net w dni = (w1, r)"
    by (cases "ObtenerCodigoVerificacion net w dni")
  show ?thesis
  proof (cases r)
    case (Inr codigo)
    with r show ?thesis
      by (simp add: procesarDNI_first_try)
  next
    case (Inl e)
    with r show ?thesis
      by (simp add: procesarDNI_second_try espera_backoff_simps)
  qed
qed

lemma procesarDNIConToken_unrolled:
  "procesarDNIConToken orden net w dni state =
     (case consultarDNIConToken orden net w dni state of
        (w1, Inr datos) \<Rightarrow> (w1, state, Inr datos)
      | (w1, Inl e1) \<Rightarrow>
          (let (w2, state2) =
                 (if isRateLimitError (Some e1) = Some True
                  then (let (w', state', renewErr) =
                              renovarToken net (Sleep (60 * Second) w1) state
                        in (w', state'))
                  else (w1, state))
           in case consultarDNIConToken orden net (Sleep (10 * Second) w2) dni state2 of
                (w4, Inr datos) \<Rightarrow> (w4, state2, Inr datos)
              | (w4, Inl e2) \<Rightarrow>
                  (let (w5, state5) =
                         (if isRateLimitError (Some e2) = Some True
                          then (let (w', state', renewErr) =
                                      renovarToken net (Sleep (90 * Second) w4) state2
                                in (w', state'))
                          else (w4, state2))
                   in (w5, state5, Inl (agoto_reintentos (ID state5) (Some e2))))))"
proof -
  obtain w1 r where r: "consultarDNIConToken orden net w dni state = (w1, r)"
    by (cases "consultarDNIConToken orden net w dni state")
  show ?thesis
  proof (cases r)
    case (Inr datos)
    with r show ?thesis
      by (simp add: procesarDNIConToken_first_try)
  next
    case (Inl e1)
    obtain w2 state2 where a: "(if isRateLimitError (Some e1) = Some True
                  then (let (w', state', renewErr) =
                              renovarToken net (Sleep (60 * Second) w1) state
                        in (w', state'))
                  else (w1, state)) = (w2, state2)"
      by (cases "(if isRateLimitError (Some e1) = Some True
                  then (let (w', state', renewErr) =
                              renovarToken net (Sleep (60 * Second) w1) state
                        in (w', state'))
                  else (w1, state))")
    have t1: "tras_fallo net w1 state 1 e1 = (Sleep (10 * Second) w2, state2)"
      unfolding tras_fallo_def espera_backoff_simps a by simp
    have step1: "procesarDNIConToken orden net w dni state
        = procesarDNIConToken_loop orden net (Sleep (10 * Second) w2) dni state2 2 (Some e1)"
      using r Inl t1 procesarDNIConToken_loop_step [of 1 orden net w dni state w1 e1 None]
      by (simp add: procesarDNIConToken_def)
    obtain w4 r2 where r2:
      "consultarDNIConToken orden net (Sleep (10 * Second) w2) dni state2 = (w4, r2)"
      by (cases "consultarDNIConToken orden net (Sleep (10 * Second) w2) dni state2")
    show ?thesis
    proof (cases r2)
      case (Inr datos)
      with r2 have "procesarDNIConToken_loop orden net (Sleep (10 * Second) w2) dni state2 2 (Some e1)
          = (w4, state2, Inr datos)"
        by (simp add: procesarDNIConToken_loop_success)
      with step1 r Inl a r2 Inr show ?thesis
        by simp
    next
      case inl2: (Inl e2)
      obtain w5 state5 where b: "(if isRateLimitError (Some e2) = Some True
                          then (let (w', state', renewErr) =
                                      renovarToken net (Sleep (90 * Second) w4) state2
                                in (w', state'))
                          else (w4, state2)) = (w5, state5)"
        by (cases "(if isRateLimitError (Some e2) = Some True
                          then (let (w', state', renewErr) =
                                      renovarToken net (Sleep (90 * Second) w4) state2
                                in (w', state'))
                          else (w4, state2))")
      have t2: "tras_fallo net w4 state2 2 e2 = (w5, state5)"
        unfolding tras_fallo_def espera_backoff_simps b by simp
      have "procesarDNIConToken_loop orden net (Sleep (10 * Second) w2) dni state2 2 (Some e1)
          = procesarDNIConToken_loop orden net w5 dni state5 3 (Some e2)"
        using r2 inl2 t2
          procesarDNIConToken_loop_step [of 2 orden net "Sleep (10 * Second) w2" dni state2 w4 e2 "Some e1"]
        by simp
      also have "\<dots> = (w5, state5, Inl (agoto_reintentos (ID state5) (Some e2)))"
        by (simp add: procesarDNIConToken_loop_end)
      finally show ?thesis
        using step1 r Inl a r2 inl2 b by simp
    qed
  qed
qed

section \<open>The passes of \<open>ConsultarDNI\<close>\<close>

text \<open>
  What the parts of a pass do to the times of the lookups, to the POST requests on the
  wire, to the clock and to the window of the scraper.
\<close>

lemma lookups_lookup_times: "lookups es = length (lookup_times es)"
  by (induction es rule: lookup_times.induct) (simp_all add: lookups_def)

lemma rate_gate_efecto:
  assumes "rate_gate w ds = (w1, ds1)"
  shows "lookup_times (log w1) = lookup_times (log w) \<and> wire_posts (log w1) = wire_posts (log w)
     \<and> clock w \<le> clock w1"
  using assms by (auto simp: rate_gate_def Let_def split: if_splits)

lemma getNonce_efecto:
  assumes "getNonce net w ds = (w', ds', err)"
  shows "lookup_times (log w') = lookup_times (log w) \<and> wire_posts (log w') = wire_posts (log w)
     \<and> clock w \<le> clock w' \<and> minuteStart ds' = minuteStart ds
     \<and> requestsInMinute ds' = requestsInMinute ds"
  using assms clock_client_Do [of w net "GET url_fecha"]
  by (auto simp: getNonce_def split_beta Let_def wire_posts_client_Do_GET
        split: option.splits if_splits)

lemma resetSession_efecto:
  assumes "resetSession net w ds = (w', ds', err)"
  shows "lookup_times (log w') = lookup_times (log w) \<and> wire_posts (log w') = wire_posts (log w)
     \<and> clock w + 3 * Second \<le> clock w' \<and> minuteStart ds' = minuteStart ds
     \<and> requestsInMinute ds' = requestsInMinute ds"
proof -
  let ?w = "Sleep (3 * Second) (Println ReseteandoSesion w)"
  from assms have g: "getNonce net ?w (ds\<lparr>nonce := '''', requestCount := 0\<rparr>) = (w', ds', err)"
    by (simp add: resetSession_def)
  from getNonce_efecto [OF g] show ?thesis
    by (simp add: Second_def)
qed

text \<open>
  The answer to the POST either leaves the world and the scraper as they are and ends
  the pass, or it is the too-many-requests answer: then thirteen seconds or more pass,
  the window restarts ten seconds after the answer, and the pass ends in the
  recursive call or in the error of the new session.
\<close>

lemma atender_respuesta_efecto:
  assumes "atender_respuesta net w ds dni body = (w', ds', p)"
  shows "((w', ds') = (w, ds) \<and> (\<exists>r. p = Termina r))
     \<or> (lookup_times (log w') = lookup_times (log w) \<and> wire_posts (log w') = wire_posts (log w)
        \<and> clock w + 13 * Second \<le> clock w' \<and> minuteStart ds' = clock w + 10 * Second
        \<and> requestsInMinute ds' = 0)"
proof (cases "TrimSpace (raw body) = ''-1'' \<or> TrimSpace (raw body) = ''0''")
  case True
  with assms show ?thesis
    by (auto simp: atender_respuesta_def Let_def split: if_splits)
next
  case False
  show ?thesis
  proof (cases "json body")
    case None
    with False assms show ?thesis
      by (auto simp: atender_respuesta_def Let_def)
  next
    case (Some response)
    show ?thesis
    proof (cases "\<not> Success response
        \<and> strings_Contains (Data_Message response) ''demasiadas solicitudes''")
      case other: False
      with False Some assms show ?thesis
        by (auto simp: atender_respuesta_def Let_def split: if_splits)
    next
      case True
      let ?w1 = "Sleep (10 * Second) (Println RateLimitDetectado w)"
      let ?ds1 = "ds\<lparr>minuteStart := clock ?w1, requestsInMinute := 0\<rparr>"
      obtain w2 ds2 err where r: "resetSession net ?w1 ?ds1 = (w2, ds2, err)"
        by (cases "resetSession net ?w1 ?ds1")
      from resetSession_efecto [OF r]
      have e: "lookup_times (log w2) = lookup_times (log w)"
        "wire_posts (log w2) = wire_posts (log w)"
        "clock w + 13 * Second \<le> clock w2" "minuteStart ds2 = clock w + 10 * Second"
        "requestsInMinute ds2 = 0"
        by (simp_all add: Second_def)
      have "(w', ds') = (w2, ds2) \<or> (w', ds') = (Println ReintentandoConsulta w2, ds2)"
        using assms False Some True r
        by (auto simp: atender_respuesta_def Let_def split: option.splits)
      with e show ?thesis
        by auto
    qed
  qed
qed

text \<open>
  A pass with a well-formed identifier: the gate, then the session (which sends no
  lookup and leaves the window alone), then, unless the session failed, the POST and
  its answer.
\<close>

lemma ConsultarDNI_cuerpo_etapas:
  assumes "len dni = 8" and "match_8_digits dni"
    and "ConsultarDNI_cuerpo net w ds dni = (w', ds', p)"
    and "rate_gate w ds = (w1, ds1)"
  shows "\<exists>w4 ds4.
      lookup_times (log w4) = lookup_times (log w1) \<and> wire_posts (log w4) = wire_posts (log w1)
      \<and> clock w1 \<le> clock w4 \<and> minuteStart ds4 = minuteStart ds1
      \<and> requestsInMinute ds4 = requestsInMinute ds1
      \<and> ((\<exists>e. (w', ds', p) = (w4, ds4, Termina (Inl e)))
         \<or> (\<exists>w6 resp.
              client_Do net (Println (ConsultandoDNI dni (requestsInMinute ds4 + 1)) w4)
                (POST url_ajax [(''action'', ''buscar_fecha''), (''company'', ''''),
                                (''dni'', dni), (''security'', nonce ds4)]) = (w6, resp)
              \<and> (case transport_error resp of
                    Some e \<Rightarrow>
                      (w', ds', p) =
                        (w6, ds4\<lparr>lastRequest := clock w4,
                                 requestsInMinute := requestsInMinute ds4 + 1\<rparr>,
                         Termina (Inl e))
                  | None \<Rightarrow>
                      atender_respuesta net w6
                        (ds4\<lparr>lastRequest := clock w4,
                             requestsInMinute := requestsInMinute ds4 + 1\<rparr>)
                        dni (Body resp) = (w', ds', p))))"
proof -
  let ?ds2 = "ds1\<lparr>requestCount := requestCount ds1 + 1\<rparr>"
  obtain w3 ds3 err3 where s3:
    "(if requestCount ?ds2 > 4 then resetSession net w1 ?ds2 else (w1, ?ds2, None)) = (w3, ds3, err3)"
    by (cases "(if requestCount ?ds2 > 4 then resetSession net w1 ?ds2 else (w1, ?ds2, None))")
  have e3: "lookup_times (log w3) = lookup_times (log w1) \<and> wire_posts (log w3) = wire_posts (log w1)
      \<and> clock w1 \<le> clock w3 \<and> minuteStart ds3 = minuteStart ds1
      \<and> requestsInMinute ds3 = requestsInMinute ds1"
  proof (cases "requestCount ?ds2 > 4")
    case True
    with s3 have "resetSession net w1 ?ds2 = (w3, ds3, err3)" by simp
    from resetSession_efecto [OF this] show ?thesis
      by (simp add: Second_def)
  next
    case False
    with s3 show ?thesis by auto
  qed
  show ?thesis
  proof (cases err3)
    case (Some e)
    with assms s3 have "(w', ds', p) = (w3, ds3, Termina (Inl e))"
      by (simp add: ConsultarDNI_cuerpo_def Let_def)
    with e3 show ?thesis by blast
  next
    case None
    obtain w4 ds4 err4 where s4:
      "(if nonce ds3 = '''' then getNonce net w3 ds3 else (w3, ds3, None)) = (w4, ds4, err4)"
      by (cases "(if nonce ds3 = '''' then getNonce net w3 ds3 else (w3, ds3, None))")
    have e4: "lookup_times (log w4) = lookup_times (log w1) \<and> wire_posts (log w4) = wire_posts (log w1)
      \<and> clock w1 \<le> clock w4 \<and> minuteStart ds4 = minuteStart ds1
      \<and> requestsInMinute ds4 = requestsInMinute ds1"
    proof (cases "nonce ds3 = ''''")
      case True
      with s4 have "getNonce net w3 ds3 = (w4, ds4, err4)" by simp
      from getNonce_efecto [OF this] e3 show ?thesis
        by simp
    next
      case False
      with s4 e3 show ?thesis by auto
    qed
    show ?thesis
    proof (cases err4)
      case (Some e)
      with assms s3 None s4 have "(w', ds', p) = (w4, ds4, Termina (Inl e))"
        by (simp add: ConsultarDNI_cuerpo_def Let_def)
      with e4 show ?thesis by blast
    next
      case none4: None
      let ?req = "POST url_ajax [(''action'', ''buscar_fecha''), (''company'', ''''),
                                 (''dni'', dni), (''security'', nonce ds4)]"
      let ?w5 = "Println (ConsultandoDNI dni (requestsInMinute ds4 + 1)) w4"
      let ?ds5 = "ds4\<lparr>lastRequest := clock w4, requestsInMinute := requestsInMinute ds4 + 1\<rparr>"
      obtain w6 resp where d: "client_Do net ?w5 ?req = (w6, resp)"
        by (cases "client_Do net ?w5 ?req")
      have body: "ConsultarDNI_cuerpo net w ds dni =
          (case transport_error resp of
             Some e \<Rightarrow> (w6, ?ds5, Termina (Inl e))
           | None \<Rightarrow> atender_respuesta net w6 ?ds5 dni (Body resp))"
        using assms(1,2,4) s3 None s4 none4 d
        by (simp add: ConsultarDNI_cuerpo_def Let_def cong: option.case_cong)
      have "case transport_error resp of
              Some e \<Rightarrow> (w', ds', p) = (w6, ?ds5, Termina (Inl e))
            | None \<Rightarrow> atender_respuesta net w6 ?ds5 dni (Body resp) = (w', ds', p)"
        using body assms(3) by (auto split: option.splits)
      with d e4 show ?thesis by blast
    qed
  qed
qed

text \<open>What every pass keeps, every call and every run of the loop keep.\<close>

lemma ConsultarDNI_mantiene:
  assumes "\<And>w ds w' ds' p. P w ds \<Longrightarrow> ConsultarDNI_cuerpo net w ds dni = (w', ds', p) \<Longrightarrow> P w' ds'"
  shows "P w ds \<Longrightarrow> ConsultarDNI n net w ds dni = (w', ds', r) \<Longrightarrow> P w' ds'"
proof (induction n arbitrary: w ds)
  case 0
  then show ?case by simp
next
  case (Suc n)
  obtain w1 ds1 p where c: "ConsultarDNI_cuerpo net w ds dni = (w1, ds1, p)"
    by (cases "ConsultarDNI_cuerpo net w ds dni")
  from assms [OF Suc.prems(1) c] have i1: "P w1 ds1" .
  show ?case
  proof (cases p)
    case (Termina res)
    with Suc.prems(2) c i1 show ?thesis by simp
  next
    case Reintenta
    with Suc.prems(2) c have "ConsultarDNI n net w1 ds1 dni = (w', ds', r)" by simp
    with i1 show ?thesis by (rule Suc.IH)
  qed
qed

lemma ConsultarMultiplesDNIs_mantiene:
  assumes "\<And>dni w ds w' ds' p. P w ds \<Longrightarrow> ConsultarDNI_cuerpo net w ds dni = (w', ds', p)
             \<Longrightarrow> P w' ds'"
  shows "P w ds \<Longrightarrow> ConsultarMultiplesDNIs n net w ds dnis = (w', ds', fin) \<Longrightarrow> P w' ds'"
proof (induction dnis arbitrary: w ds)
  case Nil
  then show ?case by simp
next
  case (Cons dni dnis)
  obtain w1 ds1 r where c: "ConsultarDNI n net w ds dni = (w1, ds1, r)"
    by (cases "ConsultarDNI n net w ds dni")
  have i1: "P w1 ds1"
    using assms Cons.prems(1) c by (rule ConsultarDNI_mantiene)
  show ?case
  proof (cases r)
    case None
    with Cons.prems(2) c i1 show ?thesis by simp
  next
    case (Some res)
    with Cons.prems(2) c have "ConsultarMultiplesDNIs n net w1 ds1 dnis = (w', ds', fin)" by simp
    with i1 show ?thesis by (rule Cons.IH)
  qed
qed

section \<open>Failures of every class are retried by the workers\<close>

lemma len_8: "match_8_digits dni \<Longrightarrow> len dni = 8"
  by (simp add: match_8_digits_def len_def)




lemma extraerCodigo_pagina_vacia: "extraerCodigo pagina_vacia = ''''"
  by (simp add: extraerCodigo_def pagina_vacia_def TrimSpace_plain esDigito_def)

lemma parse_error_pagina_vacia [simp]: "parse_error pagina_vacia = None"
  by (simp add: pagina_vacia_def)

lemma ObtenerCodigoVerificacion_red_sin_codigo:
  "ObtenerCodigoVerificacion red_sin_codigo w ''00000000'' =
     (w\<lparr>clock := clock w + 1 * Second, sent := sent w + 2,
        log := log w @ [Request (clock w) (GET url_digito), Slept (1 * Second),
                 Request (clock w + 1 * Second)
                   (POST url_digito [(''_token'', ''tok''), (''dniveri'', ''00000000'')])]\<rparr>,
      Inl codigo_no_encontrado)"
  by (simp add: ObtenerCodigoVerificacion_def match_8_digits_def is_digit_def
        obtenerToken_digito_def enviarFormulario_def client_Do_direct Sleep_def
        red_sin_codigo_def respuesta_def leerRespuesta_def extraerCodigo_pagina_vacia
        Second_def)






lemma nonce_pagina_nonce: "foldl nonce_de_script '''' (scripts pagina_nonce) = ''abc123''"
  by (simp add: pagina_nonce_def nonce_de_script_def)






section \<open>A failed renewal leaves the old token in use\<close>

lemma log_tras_fallo_ext:
  "\<exists>es. calls (log (fst (tras_fallo net w1 state intento err))) = calls (log w1) @ es"
  by (simp add: tras_fallo_def split_beta Let_def log_renovarToken)

lemma log_procesarDNIConToken_loop_ext:
  "\<exists>es. calls (log (fst (procesarDNIConToken_loop orden net w dni state intento lastError)))
     = calls (log w) @ es"
proof (induction orden net w dni state intento lastError rule: procesarDNIConToken_loop.induct)
  case (1 orden net w dni state intento lastError)
  show ?case
  proof (cases "intento \<le> maxReintentos")
    case False
    then show ?thesis
      by (simp add: procesarDNIConToken_loop_end)
  next
    case True
    obtain w1 r where r: "consultarDNIConToken orden net w dni state = (w1, r)"
      by (cases "consultarDNIConToken orden net w dni state")
    from log_consultarDNIConToken [of orden net w dni state] r
    obtain es1 where es1: "calls (log w1) = calls (log w) @ es1"
      by (cases "Token state = ''''") auto
    show ?thesis
    proof (cases r)
      case (Inr datos)
      with True r es1 show ?thesis
        by (simp add: procesarDNIConToken_loop_success)
    next
      case (Inl err)
      obtain w3 state3 where t: "tras_fallo net w1 state intento err = (w3, state3)"
        by (cases "tras_fallo net w1 state intento err")
      from log_tras_fallo_ext [of net w1 state intento err] t
      obtain es2 where es2: "calls (log w3) = calls (log w1) @ es2" by auto
      have step: "procesarDNIConToken_loop orden net w dni state intento lastError
          = procesarDNIConToken_loop orden net w3 dni state3 (intento + 1) (Some err)"
        using procesarDNIConToken_loop_step [OF True, of orden net w dni state w1 err lastError]
          r Inl t by simp
      have "\<exists>es. calls (log (fst (procesarDNIConToken_loop orden net w3 dni state3 (intento + 1)
                  (Some err))))
          = calls (log w3) @ es"
      proof -
        obtain w2 state2 where ws: "(if isRateLimitError (Some err) = Some True
                        then (let (w', state', renewErr) =
                                    renovarToken net (Sleep (waitTime intento) w1) state
                              in (w', state'))
                        else (w1, state)) = (w2, state2)"
          by (cases "(if isRateLimitError (Some err) = Some True
                        then (let (w', state', renewErr) =
                                    renovarToken net (Sleep (waitTime intento) w1) state
                              in (w', state'))
                        else (w1, state))")
        have w3: "w3 = (if intento < maxReintentos then Sleep (backoff intento) w2 else w2)"
          and s3: "state3 = state2"
          using t ws by (simp_all add: tras_fallo_def Let_def)
        from "1.IH" [OF True r [symmetric, unfolded Inl] refl ws [symmetric] refl w3]
        show ?thesis
          unfolding s3 .
      qed
      then obtain es3 where
        "calls (log (fst (procesarDNIConToken_loop orden net w3 dni state3 (intento + 1) (Some err))))
          = calls (log w3) @ es3" ..
      with step es1 es2 show ?thesis by simp
    qed
  qed
qed

lemma log_procesarDNIConToken_first:
  assumes "Token state \<noteq> ''''"
  shows "\<exists>es. calls (log (fst (procesarDNIConToken orden net w dni state))) =
     calls (log w) @ [Slept (1 * Second),
              Request (clock w + 1 * Second)
                (POST (TargetURL state) [(''_token'', Token state), (''dni'', dni)])] @ es"
proof -
  let ?first = "[Slept (1 * Second),
              Request (clock w + 1 * Second)
                (POST (TargetURL state) [(''_token'', Token state), (''dni'', dni)])]"
  obtain w1 r where r: "consultarDNIConToken orden net w dni state = (w1, r)"
    by (cases "consultarDNIConToken orden net w dni state")
  from log_consultarDNIConToken [of orden net w dni state] r assms
  have l1: "calls (log w1) = calls (log w) @ ?first" by simp
  show ?thesis
  proof (cases r)
    case (Inr datos)
    with r l1 show ?thesis
      by (simp add: procesarDNIConToken_first_try)
  next
    case (Inl err)
    obtain w3 state3 where t: "tras_fallo net w1 state 1 err = (w3, state3)"
      by (cases "tras_fallo net w1 state 1 err")
    from log_tras_fallo_ext [of net w1 state 1 err] t
    obtain es2 where es2: "calls (log w3) = calls (log w1) @ es2" by auto
    have "procesarDNIConToken orden net w dni state
        = procesarDNIConToken_loop orden net w3 dni state3 2 (Some err)"
      using procesarDNIConToken_loop_step [of 1 orden net w dni state w1 err None] r Inl t
      by (simp add: procesarDNIConToken_def)
    moreover obtain es3 where
      "calls (log (fst (procesarDNIConToken_loop orden net w3 dni state3 2 (Some err))))
         = calls (log w3) @ es3"
      using log_procesarDNIConToken_loop_ext by blast
    ultimately show ?thesis
      using l1 es2 by simp
  qed
qed

lemma log_worker_loop_ext:
  "\<exists>es. calls (log (fst (worker_loop orden net workerID w state dnis))) = calls (log w) @ es"
proof (induction dnis arbitrary: w state)
  case Nil
  then show ?case by simp
next
  case (Cons dni rest)
  obtain w1 state1 where a: "(if ConsultCount state mod 3 = 0 \<and> ConsultCount state > 0
             then (let (w', state', err) = renovarToken net w state in (w', state'))
             else (w, state)) = (w1, state1)"
    by (cases "(if ConsultCount state mod 3 = 0 \<and> ConsultCount state > 0
             then (let (w', state', err) = renovarToken net w state in (w', state'))
             else (w, state))")
  have e1: "\<exists>es. calls (log w1) = calls (log w) @ es"
    using a log_renovarToken [of net w state]
    by (auto simp: split_beta Let_def split: if_splits)
  obtain w2 state2 r where b: "procesarDNIConToken orden net w1 dni state1 = (w2, state2, r)"
    by (cases "procesarDNIConToken orden net w1 dni state1")
  have e2: "\<exists>es. calls (log w2) = calls (log w1) @ es"
    using b log_procesarDNIConToken_loop_ext [of orden net w1 dni state1 1 None]
    by (simp add: procesarDNIConToken_def)
  let ?w3 = "Sleep ((5 + workerID * 2) * Second) w2"
  let ?s3 = "state2\<lparr>ConsultCount := ConsultCount state2 + 1\<rparr>"
  obtain es4 where e4: "calls (log (fst (worker_loop orden net workerID ?w3 ?s3 rest)))
      = calls (log ?w3) @ es4"
    using Cons.IH by blast
  have "fst (worker_loop orden net workerID w state (dni # rest))
      = fst (worker_loop orden net workerID ?w3 ?s3 rest)"
    using a b by (simp add: split_beta Let_def)
  with e1 e2 e4 show ?case
    by auto
qed

lemma worker_loop_after_failed_renewal:
  assumes "ConsultCount state mod 3 = 0" and "ConsultCount state > 0"
    and "Token state \<noteq> ''''"
    and "renovarToken net w state = (w1, state1, Some e)"
  shows "\<exists>es. calls (log (fst (worker_loop orden net workerID w state (dni # rest)))) =
     calls (log w) @ [Request (clock w) (GET (TargetURL state)), Slept (1 * Second),
              Request (clock w1 + 1 * Second)
                (POST (TargetURL state) [(''_token'', Token state), (''dni'', dni)])] @ es"
proof -
  have s1: "state1 = state"
    using assms(4) by (rule renovarToken_failure_keeps_state)
  have l1: "calls (log w1) = calls (log w) @ [Request (clock w) (GET (TargetURL state))]"
    using log_renovarToken [of net w state] assms(4) by simp
  obtain w2 state2 r where b: "procesarDNIConToken orden net w1 dni state = (w2, state2, r)"
    by (cases "procesarDNIConToken orden net w1 dni state")
  from log_procesarDNIConToken_first [OF assms(3), of orden net w1 dni] b
  obtain es2 where e2: "calls (log w2) = calls (log w1) @ [Slept (1 * Second),
              Request (clock w1 + 1 * Second)
                (POST (TargetURL state) [(''_token'', Token state), (''dni'', dni)])] @ es2"
    by auto
  let ?w3 = "Sleep ((5 + workerID * 2) * Second) w2"
  let ?s3 = "state2\<lparr>ConsultCount := ConsultCount state2 + 1\<rparr>"
  obtain es4 where e4: "calls (log (fst (worker_loop orden net workerID ?w3 ?s3 rest)))
      = calls (log ?w3) @ es4"
    using log_worker_loop_ext by blast
  have "fst (worker_loop orden net workerID w state (dni # rest))
      = fst (worker_loop orden net workerID ?w3 ?s3 rest)"
    using assms(1,2,4) b s1 by (simp add: split_beta Let_def)
  with l1 e2 e4 show ?thesis
    by simp
qed

lemma procesarDNIConToken_after_failed_renewal:
  assumes t: "Token state \<noteq> ''''"
    and f: "consultarDNIConToken orden net w dni state = (wa, Inl err)"
    and k: "isRateLimitError (Some err) = Some True"
    and n: "renovarToken net (Sleep (60 * Second) wa) state = (wb, stateb, Some eb)"
  shows "\<exists>es. calls (log (fst (procesarDNIConToken orden net w dni state))) =
     calls (log wa) @ [Slept (60 * Second),
                       Request (clock wa + 60 * Second) (GET (TargetURL state)),
                       Slept (10 * Second), Slept (1 * Second),
                       Request (clock wb + 11 * Second)
                         (POST (TargetURL state) [(''_token'', Token state), (''dni'', dni)])] @ es"
proof -
  have sb: "stateb = state"
    using n by (rule renovarToken_failure_keeps_state)
  have lb: "calls (log wb) = calls (log wa) @ [Slept (60 * Second),
                       Request (clock wa + 60 * Second) (GET (TargetURL state))]"
    using log_renovarToken [of net "Sleep (60 * Second) wa" state] n
    by (simp add: Second_def)
  let ?w3 = "Sleep (10 * Second) wb"
  obtain w4 r2 where r2: "consultarDNIConToken orden net ?w3 dni state = (w4, r2)"
    by (cases "consultarDNIConToken orden net ?w3 dni state")
  from log_consultarDNIConToken [of orden net ?w3 dni state] r2 t
  have l4: "calls (log w4) = calls (log wb) @ [Slept (10 * Second), Slept (1 * Second),
                       Request (clock wb + 11 * Second)
                         (POST (TargetURL state) [(''_token'', Token state), (''dni'', dni)])]"
    by (simp add: Second_def)
  show ?thesis
  proof (cases r2)
    case (Inr datos)
    have "procesarDNIConToken orden net w dni state = (w4, state, Inr datos)"
      unfolding procesarDNIConToken_unrolled f
      using k n sb r2 Inr by simp
    with lb l4 show ?thesis
      by simp
  next
    case (Inl e2)
    obtain w5 state5 where b: "(if isRateLimitError (Some e2) = Some True
                          then (let (w', state', renewErr) =
                                      renovarToken net (Sleep (90 * Second) w4) state
                                in (w', state'))
                          else (w4, state)) = (w5, state5)"
      by (cases "(if isRateLimitError (Some e2) = Some True
                          then (let (w', state', renewErr) =
                                      renovarToken net (Sleep (90 * Second) w4) state
                                in (w', state'))
                          else (w4, state))")
    have l5: "\<exists>es. calls (log w5) = calls (log w4) @ es"
    proof (cases "isRateLimitError (Some e2) = Some True")
      case True
      with b have "w5 = fst (renovarToken net (Sleep (90 * Second) w4) state)"
        by (simp add: split_beta)
      with log_renovarToken [of net "Sleep (90 * Second) w4" state] show ?thesis
        by simp
    next
      case False
      with b show ?thesis by simp
    qed
    have "fst (procesarDNIConToken orden net w dni state) = w5"
      unfolding procesarDNIConToken_unrolled f
      using k n sb r2 Inl b by simp
    with lb l4 l5 show ?thesis
      by auto
  qed
qed

text \<open>
  Claim C8, as the code has it. A renewal that fails leaves the worker's state, and so
  its token, as it was; neither caller looks at the renewal's error beyond printing it.
  A lookup is failed without a request only when the token is empty; with any other
  token, the one left from before a failed renewal included, the lookup is submitted
  with that token. In the worker's loop, when the periodic renewal (every third
  lookup) fails, the next thing the worker sends after the failed request for the form
  page is the lookup of the next identifier, with the old token. In
  \<open>procesarDNIConToken\<close>, when the first attempt fails with an error that mentions 429
  and the renewal after the sixty-second cooldown fails, the second attempt is
  submitted ten seconds later, with the old token. (\<open>calls\<close> leaves out of the log the
  requests that the HTTP client sends on its own after a redirect.)
\<close>

theorem C8_failed_renewal_keeps_the_token_in_use:
  "(renovarToken net w state = (w1, state1, Some e) \<longrightarrow> state1 = state)
   \<and> (Token state \<noteq> '''' \<longrightarrow>
        calls (log (fst (consultarDNIConToken orden net w dni state))) =
          calls (log w) @ [Slept (1 * Second),
                   Request (clock w + 1 * Second)
                     (POST (TargetURL state) [(''_token'', Token state), (''dni'', dni)])])
   \<and> (Token state = '''' \<longrightarrow>
        consultarDNIConToken orden net w dni state = (w, Inl ''token no disponible''))
   \<and> (ConsultCount state mod 3 = 0 \<and> ConsultCount state > 0 \<and> Token state \<noteq> ''''
        \<and> renovarToken net w state = (w1, state1, Some e) \<longrightarrow>
        (\<exists>es. calls (log (fst (worker_loop orden net workerID w state (dni # rest)))) =
           calls (log w) @ [Request (clock w) (GET (TargetURL state)), Slept (1 * Second),
                    Request (clock w1 + 1 * Second)
                      (POST (TargetURL state) [(''_token'', Token state), (''dni'', dni)])] @ es))
   \<and> (Token state \<noteq> '''' \<and> consultarDNIConToken orden net w dni state = (wa, Inl err)
        \<and> isRateLimitError (Some err) = Some True
        \<and> renovarToken net (Sleep (60 * Second) wa) state = (wb, stateb, Some eb) \<longrightarrow>
        (\<exists>es. calls (log (fst (procesarDNIConToken orden net w dni state))) =
           calls (log wa) @ [Slept (60 * Second),
                    Request (clock wa + 60 * Second) (GET (TargetURL state)),
                    Slept (10 * Second), Slept (1 * Second),
                    Request (clock wb + 11 * Second)
                      (POST (TargetURL state) [(''_token'', Token state), (''dni'', dni)])] @ es))"
proof (intro conjI impI)
  assume "renovarToken net w state = (w1, state1, Some e)"
  then show "state1 = state"
    by (rule renovarToken_failure_keeps_state)
next
  assume "Token state \<noteq> ''''"
  then show "calls (log (fst (consultarDNIConToken orden net w dni state))) =
          calls (log w) @ [Slept (1 * Second),
                   Request (clock w + 1 * Second)
                     (POST (TargetURL state) [(''_token'', Token state), (''dni'', dni)])]"
    by (simp add: log_consultarDNIConToken)
next
  assume "Token state = ''''"
  then show "consultarDNIConToken orden net w dni state = (w, Inl ''token no disponible'')"
    by (simp add: consultarDNIConToken_def)
next
  assume a: "ConsultCount state mod 3 = 0 \<and> ConsultCount state > 0 \<and> Token state \<noteq> ''''
        \<and> renovarToken net w state = (w1, state1, Some e)"
  then have c1: "ConsultCount state mod 3 = 0" and c2: "ConsultCount state > 0"
    and c3: "Token state \<noteq> ''''" and c4: "renovarToken net w state = (w1, state1, Some e)"
    by simp_all
  show "\<exists>es. calls (log (fst (worker_loop orden net workerID w state (dni # rest)))) =
           calls (log w) @ [Request (clock w) (GET (TargetURL state)), Slept (1 * Second),
                    Request (clock w1 + 1 * Second)
                      (POST (TargetURL state) [(''_token'', Token state), (''dni'', dni)])] @ es"
    by (rule worker_loop_after_failed_renewal [OF c1 c2 c3 c4])
next
  assume a: "Token state \<noteq> '''' \<and> consultarDNIConToken orden net w dni state = (wa, Inl err)
        \<and> isRateLimitError (Some err) = Some True
        \<and> renovarToken net (Sleep (60 * Second) wa) state = (wb, stateb, Some eb)"
  then have c1: "Token state \<noteq> ''''"
    and c2: "consultarDNIConToken orden net w dni state = (wa, Inl err)"
    and c3: "isRateLimitError (Some err) = Some True"
    and c4: "renovarToken net (Sleep (60 * Second) wa) state = (wb, stateb, Some eb)"
    by simp_all
  show "\<exists>es. calls (log (fst (procesarDNIConToken orden net w dni state))) =
           calls (log wa) @ [Slept (60 * Second),
                    Request (clock wa + 60 * Second) (GET (TargetURL state)),
                    Slept (10 * Second), Slept (1 * Second),
                    Request (clock wb + 11 * Second)
                      (POST (TargetURL state) [(''_token'', Token state), (''dni'', dni)])] @ es"
    by (rule procesarDNIConToken_after_failed_renewal [OF c1 c2 c3 c4])
qed

lemma renovarToken_red_sin_renovacion:
  "renovarToken red_sin_renovacion w state =
     (w\<lparr>sent := Suc (sent w), log := log w @ [Request (clock w) (GET (TargetURL state))]\<rparr>,
      state, Some (error_del_servidor 500))"
  by (simp add: renovarToken_def client_Do_direct red_sin_renovacion_def respuesta_def)

lemma consultar_red_sin_renovacion:
  "consultarDNIConToken orden_npm red_sin_renovacion w ''12345678'' (worker_con_token\<lparr>ConsultCount := c\<rparr>) =
     (w\<lparr>clock := clock w + 1 * Second, sent := Suc (sent w),
        log := log w @ [Slept (1 * Second),
                 Request (clock w + 1 * Second)
                   (POST url_datos [(''_token'', ''tok''), (''dni'', ''12345678'')])]\<rparr>,
      Inr \<lparr>DNI = ''12345678'', Nombres = ''ANA'', ApellidoPaterno = ''LOPEZ'',
           ApellidoMaterno = '''', CodigoVerif = ''''\<rparr>)"
  by (simp add: consultarDNIConToken_def worker_con_token_def EnviarFormularioConToken_def
        client_Do_direct Sleep_def red_sin_renovacion_def respuesta_def leerRespuesta_def Second_def
        extraerDatosPersona_pagina_parcial)

lemma procesarDNIConToken_red_sin_renovacion:
  "procesarDNIConToken orden_npm red_sin_renovacion w ''12345678'' (worker_con_token\<lparr>ConsultCount := c\<rparr>)
      = (w\<lparr>clock := clock w + 1 * Second, sent := Suc (sent w),
            log := log w @ [Slept (1 * Second),
                 Request (clock w + 1 * Second)
                   (POST url_datos [(''_token'', ''tok''), (''dni'', ''12345678'')])]\<rparr>,
         worker_con_token\<lparr>ConsultCount := c\<rparr>,
         Inr \<lparr>DNI = ''12345678'', Nombres = ''ANA'', ApellidoPaterno = ''LOPEZ'',
           ApellidoMaterno = '''', CodigoVerif = ''''\<rparr>)"
  by (rule procesarDNIConToken_first_try) (rule consultar_red_sin_renovacion)

text \<open>The same against the endpoint that answers every submission with the status 429.\<close>

lemma isRateLimitError_429: "isRateLimitError (Some (error_del_servidor 429)) = Some True"
proof -
  have "error_del_servidor 429 = ''error del servidor: 429''"
    by (simp add: error_del_servidor_def fmt_d_def decimal.simps)
  then show ?thesis
    by (simp add: isRateLimitError_def contains_def slice_def len_def)
qed

lemma renovarToken_red_limitada:
  "renovarToken red_limitada w state =
     (w\<lparr>sent := Suc (sent w), log := log w @ [Request (clock w) (GET (TargetURL state))]\<rparr>,
      state, Some (error_del_servidor 500))"
  by (simp add: renovarToken_def client_Do_direct red_limitada_def respuesta_def)

lemma consultar_red_limitada:
  "consultarDNIConToken orden red_limitada w dni worker_con_token =
     (w\<lparr>clock := clock w + 1 * Second, sent := Suc (sent w),
        log := log w @ [Slept (1 * Second),
                 Request (clock w + 1 * Second)
                   (POST url_datos [(''_token'', ''tok''), (''dni'', dni)])]\<rparr>,
      Inl (error_del_servidor 429))"
  by (simp add: consultarDNIConToken_def worker_con_token_def EnviarFormularioConToken_def
        client_Do_direct Sleep_def red_limitada_def respuesta_def Second_def)

lemma procesarDNIConToken_red_limitada:
  "procesarDNIConToken orden_npm red_limitada mundo_inicial ''12345678'' worker_con_token
   = (\<lparr>clock = 162 * Second, sent = 4,
       log = [Slept (1 * Second),
              Request (1 * Second) (POST url_datos [(''_token'', ''tok''), (''dni'', ''12345678'')]),
              Slept (60 * Second), Request (61 * Second) (GET url_datos),
              Slept (10 * Second), Slept (1 * Second),
              Request (72 * Second) (POST url_datos [(''_token'', ''tok''), (''dni'', ''12345678'')]),
              Slept (90 * Second), Request (162 * Second) (GET url_datos)]\<rparr>,
      worker_con_token,
      Inl (agoto_reintentos 1 (Some (error_del_servidor 429))))"
  unfolding procesarDNIConToken_unrolled consultar_red_limitada
  by (simp add: isRateLimitError_429 renovarToken_red_limitada consultar_red_limitada)
     (simp add: mundo_inicial_def worker_con_token_def Sleep_def Second_def)

text \<open>
  Claim C8 fails where a renewal fails. A worker that has done three lookups with the
  token \<open>tok\<close> asks for a new token, the request for the form page fails with the
  status 500, and the worker submits the next identifier with \<open>tok\<close> and reports the
  answer as a success. And a worker whose lookup is answered with the status 429 waits
  sixty seconds, fails to renew its token, and ten seconds later submits the
  identifier again with \<open>tok\<close>.
\<close>

theorem C8_stale_token_is_submitted:
  "renovarToken red_sin_renovacion mundo_inicial (worker_con_token\<lparr>ConsultCount := 3\<rparr>)
     = (\<lparr>clock = 0, sent = 1, log = [Request 0 (GET url_datos)]\<rparr>,
        worker_con_token\<lparr>ConsultCount := 3\<rparr>, Some (error_del_servidor 500))
   \<and> worker_loop orden_npm red_sin_renovacion 1 mundo_inicial
        (worker_con_token\<lparr>ConsultCount := 3\<rparr>) [''12345678'']
     = (\<lparr>clock = 8 * Second, sent = 2,
         log = [Request 0 (GET url_datos), Slept (1 * Second),
                Request (1 * Second) (POST url_datos [(''_token'', ''tok''), (''dni'', ''12345678'')]),
                Slept (7 * Second)]\<rparr>,
        worker_con_token\<lparr>ConsultCount := 4\<rparr>,
        [Resultado ''12345678''
           (Some \<lparr>DNI = ''12345678'', Nombres = ''ANA'', ApellidoPaterno = ''LOPEZ'',
                  ApellidoMaterno = '''', CodigoVerif = ''''\<rparr>) None])
   \<and> procesarDNIConToken orden_npm red_limitada mundo_inicial ''12345678'' worker_con_token
     = (\<lparr>clock = 162 * Second, sent = 4,
         log = [Slept (1 * Second),
                Request (1 * Second) (POST url_datos [(''_token'', ''tok''), (''dni'', ''12345678'')]),
                Slept (60 * Second), Request (61 * Second) (GET url_datos),
                Slept (10 * Second), Slept (1 * Second),
                Request (72 * Second) (POST url_datos [(''_token'', ''tok''), (''dni'', ''12345678'')]),
                Slept (90 * Second), Request (162 * Second) (GET url_datos)]\<rparr>,
        worker_con_token,
        Inl (agoto_reintentos 1 (Some (error_del_servidor 429))))"
proof -
  let ?s = "worker_con_token\<lparr>ConsultCount := 3\<rparr>"
  have 1: "renovarToken red_sin_renovacion mundo_inicial ?s
     = (\<lparr>clock = 0, sent = 1, log = [Request 0 (GET url_datos)]\<rparr>, ?s,
        Some (error_del_servidor 500))"
    unfolding renovarToken_red_sin_renovacion
    by (simp add: mundo_inicial_def worker_con_token_def)
  have 2: "worker_loop orden_npm red_sin_renovacion 1 mundo_inicial ?s [''12345678'']
     = (\<lparr>clock = 8 * Second, sent = 2,
         log = [Request 0 (GET url_datos), Slept (1 * Second),
                Request (1 * Second) (POST url_datos [(''_token'', ''tok''), (''dni'', ''12345678'')]),
                Slept (7 * Second)]\<rparr>,
        worker_con_token\<lparr>ConsultCount := 4\<rparr>,
        [Resultado ''12345678''
           (Some \<lparr>DNI = ''12345678'', Nombres = ''ANA'', ApellidoPaterno = ''LOPEZ'',
                  ApellidoMaterno = '''', CodigoVerif = ''''\<rparr>) None])"
    by (simp add: renovarToken_red_sin_renovacion procesarDNIConToken_red_sin_renovacion
          Let_def resultado_de_def)
       (simp add: mundo_inicial_def worker_con_token_def Sleep_def Second_def)
  from 1 2 procesarDNIConToken_red_limitada show ?thesis
    by (intro conjI)
qed

theorem C8_failed_renewal_keeps_the_token_in_use_witness:
  "renovarToken red_sin_renovacion mundo_inicial (worker_con_token\<lparr>ConsultCount := 3\<rparr>)
     = (\<lparr>clock = 0, sent = 1, log = [Request 0 (GET url_datos)]\<rparr>,
        worker_con_token\<lparr>ConsultCount := 3\<rparr>, Some (error_del_servidor 500))
   \<and> Token (worker_con_token\<lparr>ConsultCount := 3\<rparr>) = ''tok''
   \<and> calls (log (fst (consultarDNIConToken orden_npm red_sin_renovacion
                   \<lparr>clock = 0, sent = 1, log = [Request 0 (GET url_datos)]\<rparr> ''12345678''
                   (worker_con_token\<lparr>ConsultCount := 3\<rparr>))))
       = [Request 0 (GET url_datos), Slept (1 * Second),
          Request (1 * Second) (POST url_datos [(''_token'', ''tok''), (''dni'', ''12345678'')])]
   \<and> consultarDNIConToken orden_npm red_sin_renovacion mundo_inicial ''12345678''
        (worker_con_token\<lparr>Token := ''''\<rparr>) = (mundo_inicial, Inl ''token no disponible'')
   \<and> (\<exists>es. calls (log (fst (worker_loop orden_npm red_sin_renovacion 1 mundo_inicial
                         (worker_con_token\<lparr>ConsultCount := 3\<rparr>) [''12345678'']))) =
           [Request 0 (GET url_datos), Slept (1 * Second),
            Request (1 * Second) (POST url_datos [(''_token'', ''tok''), (''dni'', ''12345678'')])]
           @ es)
   \<and> consultarDNIConToken orden_npm red_limitada mundo_inicial ''12345678'' worker_con_token
       = (\<lparr>clock = 1 * Second, sent = 1,
           log = [Slept (1 * Second),
                  Request (1 * Second)
                    (POST url_datos [(''_token'', ''tok''), (''dni'', ''12345678'')])]\<rparr>,
          Inl (error_del_servidor 429))
   \<and> isRateLimitError (Some (error_del_servidor 429)) = Some True
   \<and> renovarToken red_limitada
        (Sleep (60 * Second)
           \<lparr>clock = 1 * Second, sent = 1,
            log = [Slept (1 * Second),
                   Request (1 * Second)
                     (POST url_datos [(''_token'', ''tok''), (''dni'', ''12345678'')])]\<rparr>)
        worker_con_token
       = (\<lparr>clock = 61 * Second, sent = 2,
           log = [Slept (1 * Second),
                  Request (1 * Second)
                    (POST url_datos [(''_token'', ''tok''), (''dni'', ''12345678'')]),
                  Slept (60 * Second), Request (61 * Second) (GET url_datos)]\<rparr>,
          worker_con_token, Some (error_del_servidor 500))
   \<and> (\<exists>es. calls (log (fst (procesarDNIConToken orden_npm red_limitada mundo_inicial ''12345678''
                                worker_con_token))) =
           [Slept (1 * Second),
            Request (1 * Second) (POST url_datos [(''_token'', ''tok''), (''dni'', ''12345678'')]),
            Slept (60 * Second), Request (61 * Second) (GET url_datos),
            Slept (10 * Second), Slept (1 * Second),
            Request (72 * Second) (POST url_datos [(''_token'', ''tok''), (''dni'', ''12345678'')])]
           @ es)"
proof -
  let ?s = "worker_con_token\<lparr>ConsultCount := 3\<rparr>"
  let ?w1 = "\<lparr>clock = 0, sent = 1, log = [Request 0 (GET url_datos)]\<rparr>"
  let ?e = "error_del_servidor 500"
  let ?wa = "\<lparr>clock = 1 * Second, sent = 1,
           log = [Slept (1 * Second),
                  Request (1 * Second)
                    (POST url_datos [(''_token'', ''tok''), (''dni'', ''12345678'')])]\<rparr>"
  let ?wb = "\<lparr>clock = 61 * Second, sent = 2,
           log = [Slept (1 * Second),
                  Request (1 * Second)
                    (POST url_datos [(''_token'', ''tok''), (''dni'', ''12345678'')]),
                  Slept (60 * Second), Request (61 * Second) (GET url_datos)]\<rparr>"
  note A = C8_failed_renewal_keeps_the_token_in_use
    [where net = red_sin_renovacion and w = mundo_inicial and state = ?s and ?w1.0 = ?w1
       and ?state1.0 = ?s and e = ?e and orden = orden_npm and dni = "''12345678''"
       and workerID = 1 and rest = "[]"]
  note B = C8_failed_renewal_keeps_the_token_in_use
    [where net = red_sin_renovacion and w = ?w1 and state = ?s and orden = orden_npm
       and dni = "''12345678''"]
  note C = C8_failed_renewal_keeps_the_token_in_use
    [where net = red_sin_renovacion and w = mundo_inicial
       and state = "worker_con_token\<lparr>Token := ''''\<rparr>" and orden = orden_npm
       and dni = "''12345678''"]
  note D = C8_failed_renewal_keeps_the_token_in_use
    [where net = red_limitada and w = mundo_inicial and state = worker_con_token
       and orden = orden_npm and dni = "''12345678''" and wa = ?wa
       and err = "error_del_servidor 429" and wb = ?wb and stateb = worker_con_token
       and eb = ?e]
  have r: "renovarToken red_sin_renovacion mundo_inicial ?s = (?w1, ?s, Some ?e)"
    unfolding renovarToken_red_sin_renovacion
    by (simp add: mundo_inicial_def worker_con_token_def)
  from A [THEN conjunct1] r have "?s = ?s"
    by (rule mp)
  have t: "Token ?s = ''tok''"
    by (simp add: worker_con_token_def)
  then have tn: "Token ?s \<noteq> ''''"
    by simp
  from B [THEN conjunct2, THEN conjunct1] tn
  have "calls (log (fst (consultarDNIConToken orden_npm red_sin_renovacion ?w1 ''12345678'' ?s))) =
          calls (log ?w1) @ [Slept (1 * Second),
                   Request (clock ?w1 + 1 * Second)
                     (POST (TargetURL ?s) [(''_token'', Token ?s), (''dni'', ''12345678'')])]"
    by (rule mp)
  then have l: "calls (log (fst (consultarDNIConToken orden_npm red_sin_renovacion ?w1 ''12345678'' ?s)))
       = [Request 0 (GET url_datos), Slept (1 * Second),
          Request (1 * Second) (POST url_datos [(''_token'', ''tok''), (''dni'', ''12345678'')])]"
    by (simp add: worker_con_token_def)
  have "Token (worker_con_token\<lparr>Token := ''''\<rparr>) = ''''"
    by simp
  with C [THEN conjunct2, THEN conjunct2, THEN conjunct1]
  have n: "consultarDNIConToken orden_npm red_sin_renovacion mundo_inicial ''12345678''
        (worker_con_token\<lparr>Token := ''''\<rparr>) = (mundo_inicial, Inl ''token no disponible'')"
    by (rule mp)
  have "ConsultCount ?s mod 3 = 0 \<and> ConsultCount ?s > 0 \<and> Token ?s \<noteq> ''''
        \<and> renovarToken red_sin_renovacion mundo_inicial ?s = (?w1, ?s, Some ?e)"
    using r tn by simp
  with A [THEN conjunct2, THEN conjunct2, THEN conjunct2, THEN conjunct1]
  have "\<exists>es. calls (log (fst (worker_loop orden_npm red_sin_renovacion 1 mundo_inicial ?s
                          (''12345678'' # [])))) =
           calls (log mundo_inicial) @ [Request (clock mundo_inicial) (GET (TargetURL ?s)), Slept (1 * Second),
                    Request (clock ?w1 + 1 * Second)
                      (POST (TargetURL ?s) [(''_token'', Token ?s), (''dni'', ''12345678'')])] @ es"
    by (rule mp)
  then have k: "\<exists>es. calls (log (fst (worker_loop orden_npm red_sin_renovacion 1 mundo_inicial ?s
                         [''12345678'']))) =
           [Request 0 (GET url_datos), Slept (1 * Second),
            Request (1 * Second) (POST url_datos [(''_token'', ''tok''), (''dni'', ''12345678'')])]
           @ es"
    by (simp add: worker_con_token_def mundo_inicial_def)
  have f: "consultarDNIConToken orden_npm red_limitada mundo_inicial ''12345678'' worker_con_token
       = (?wa, Inl (error_del_servidor 429))"
    unfolding consultar_red_limitada by (simp add: mundo_inicial_def)
  have i: "isRateLimitError (Some (error_del_servidor 429)) = Some True"
    by (rule isRateLimitError_429)
  have g: "renovarToken red_limitada (Sleep (60 * Second) ?wa) worker_con_token
       = (?wb, worker_con_token, Some ?e)"
    unfolding renovarToken_red_limitada
    by (simp add: Sleep_def worker_con_token_def Second_def)
  have tw: "Token worker_con_token \<noteq> ''''"
    by (simp add: worker_con_token_def)
  from tw f i g
  have "Token worker_con_token \<noteq> ''''
        \<and> consultarDNIConToken orden_npm red_limitada mundo_inicial ''12345678'' worker_con_token
            = (?wa, Inl (error_del_servidor 429))
        \<and> isRateLimitError (Some (error_del_servidor 429)) = Some True
        \<and> renovarToken red_limitada (Sleep (60 * Second) ?wa) worker_con_token
            = (?wb, worker_con_token, Some ?e)"
    by (intro conjI)
  with D [THEN conjunct2, THEN conjunct2, THEN conjunct2, THEN conjunct2]
  have "\<exists>es. calls (log (fst (procesarDNIConToken orden_npm red_limitada mundo_inicial ''12345678''
                                worker_con_token))) =
           calls (log ?wa) @ [Slept (60 * Second),
                    Request (clock ?wa + 60 * Second) (GET (TargetURL worker_con_token)),
                    Slept (10 * Second), Slept (1 * Second),
                    Request (clock ?wb + 11 * Second)
                      (POST (TargetURL worker_con_token)
                         [(''_token'', Token worker_con_token), (''dni'', ''12345678'')])] @ es"
    by (rule mp)
  then have d: "\<exists>es. calls (log (fst (procesarDNIConToken orden_npm red_limitada mundo_inicial
                                ''12345678'' worker_con_token))) =
           [Slept (1 * Second),
            Request (1 * Second) (POST url_datos [(''_token'', ''tok''), (''dni'', ''12345678'')]),
            Slept (60 * Second), Request (61 * Second) (GET url_datos),
            Slept (10 * Second), Slept (1 * Second),
            Request (72 * Second) (POST url_datos [(''_token'', ''tok''), (''dni'', ''12345678'')])]
           @ es"
    by (simp add: worker_con_token_def Second_def)
  show ?thesis
    by (intro conjI r t l n k f i g d)
qed

section \<open>The rate gate: five lookups in a window, six in a minute\<close>

lemma en_curso_append [simp]: "en_curso c (xs @ ys) = en_curso (en_curso c xs) ys"
  by (induction xs arbitrary: c) simp_all

lemma ventanas_ok_start: "ventanas_ok c es \<Longrightarrow> c \<le> 5"
  by (cases es) simp_all

lemma ventanas_ok_append [simp]:
  "ventanas_ok c (xs @ ys) = (ventanas_ok c xs \<and> ventanas_ok (en_curso c xs) ys)"
  by (induction xs arbitrary: c) (auto dest: ventanas_ok_start)

lemma ventanas_ok_en_curso: "ventanas_ok c es \<Longrightarrow> en_curso c es \<le> 5"
  by (induction es arbitrary: c) simp_all

lemma ventanas_ok_por_ventana: "list_all (\<lambda>k. k \<le> 5) (por_ventana c es) = ventanas_ok c es"
proof (induction es arbitrary: c)
  case Nil
  then show ?case by simp
next
  case (Cons e es)
  show ?case
  proof (cases "is_reset e")
    case True
    with Cons show ?thesis by (simp add: tras_evento_def)
  next
    case False
    show ?thesis
    proof (cases "is_lookup e")
      case True
      have "ventanas_ok (Suc c) es \<Longrightarrow> c \<le> 5"
        by (drule ventanas_ok_start) simp
      with True False Cons show ?thesis
        by (auto simp: tras_evento_def)
    next
      case neutral: False
      have "ventanas_ok c es \<Longrightarrow> c \<le> 5"
        by (rule ventanas_ok_start)
      with neutral False Cons show ?thesis
        by (auto simp: tras_evento_def)
    qed
  qed
qed

lemma tras_evento_simps [simp]:
  "tras_evento c (Slept d) = c"
  "tras_evento c (Request t (GET u)) = c"
  "tras_evento c (Redirected t req) = c"
  "tras_evento c (Request t (POST u form)) = Suc c"
  "tras_evento c (Printed NuevoCicloIniciado) = 0"
  "tras_evento c (Printed (EsperandoSiguienteCiclo d)) = 0"
  "tras_evento c (Printed RateLimitDetectado) = 0"
  "tras_evento c (Printed EsperandoDoceSegundos) = c"
  "tras_evento c (Printed ReseteandoSesion) = c"
  "tras_evento c (Printed (NuevoNonceObtenido s)) = c"
  "tras_evento c (Printed (ConsultandoDNI s k)) = c"
  "tras_evento c (Printed ReintentandoConsulta) = c"
  by (simp_all add: tras_evento_def)

lemma en_curso_calls [simp]: "en_curso c (calls es) = en_curso c es"
proof (induction es arbitrary: c)
  case Nil
  then show ?case by simp
next
  case (Cons e es)
  then show ?case by (cases e) simp_all
qed

lemma ventanas_ok_calls [simp]: "ventanas_ok c (calls es) = ventanas_ok c es"
proof (induction es arbitrary: c)
  case Nil
  then show ?case by simp
next
  case (Cons e es)
  then show ?case by (cases e) (auto dest: ventanas_ok_start)
qed

lemma en_curso_client_Do [simp]:
  "en_curso c (log (fst (client_Do net w req))) = en_curso c (log w @ [Request (clock w) req])"
proof -
  have "en_curso c (log (fst (client_Do net w req)))
      = en_curso c (calls (log (fst (client_Do net w req))))"
    by (simp only: en_curso_calls)
  also have "\<dots> = en_curso c (calls (log w @ [Request (clock w) req]))"
    by simp
  finally show ?thesis
    by (simp only: en_curso_calls)
qed

lemma ventanas_ok_client_Do [simp]:
  "ventanas_ok c (log (fst (client_Do net w req)))
     = ventanas_ok c (log w @ [Request (clock w) req])"
proof -
  have "ventanas_ok c (log (fst (client_Do net w req)))
      = ventanas_ok c (calls (log (fst (client_Do net w req))))"
    by (simp only: ventanas_ok_calls)
  also have "\<dots> = ventanas_ok c (calls (log w @ [Request (clock w) req]))"
    by simp
  finally show ?thesis
    by (simp only: ventanas_ok_calls)
qed

subsection \<open>The parts of \<open>ConsultarDNI\<close> keep the count of the windows\<close>

lemma getNonce_gate:
  assumes "getNonce net w ds = (w', ds', err)"
  shows "ventanas_ok c (log w') = ventanas_ok c (log w)
     \<and> en_curso c (log w') = en_curso c (log w)
     \<and> requestsInMinute ds' = requestsInMinute ds"
proof -
  have v: "ventanas_ok c (log w) \<Longrightarrow> en_curso c (log w) \<le> 5"
    by (rule ventanas_ok_en_curso)
  from assms show ?thesis
    using v
    by (auto simp: getNonce_def split_beta Let_def split: option.splits if_splits)
qed

lemma resetSession_gate:
  assumes "resetSession net w ds = (w', ds', err)"
  shows "ventanas_ok c (log w') = ventanas_ok c (log w)
     \<and> en_curso c (log w') = en_curso c (log w)
     \<and> requestsInMinute ds' = requestsInMinute ds"
proof -
  have v: "ventanas_ok c (log w) \<Longrightarrow> en_curso c (log w) \<le> 5"
    by (rule ventanas_ok_en_curso)
  let ?w = "Sleep (3 * Second) (Println ReseteandoSesion w)"
  from assms have g: "getNonce net ?w (ds\<lparr>nonce := '''', requestCount := 0\<rparr>) = (w', ds', err)"
    by (simp add: resetSession_def)
  from getNonce_gate [OF g, of c] v show ?thesis
    by auto
qed

lemma rate_gate_inv:
  assumes "gate_inv w ds" and "rate_gate w ds = (w1, ds1)"
  shows "gate_inv w1 ds1 \<and> requestsInMinute ds1 < 5"
proof -
  from assms(1) have ok: "ventanas_ok 0 (log w)"
    and rq: "requestsInMinute ds = int (en_curso 0 (log w))"
    by (simp_all add: gate_inv_def)
  from ok have le: "en_curso 0 (log w) \<le> 5"
    by (rule ventanas_ok_en_curso)
  from assms(2) ok rq le show ?thesis
    by (auto simp: rate_gate_def gate_inv_def Let_def split: if_splits)
qed

lemma atender_respuesta_inv:
  assumes "gate_inv w ds" and "atender_respuesta net w ds dni body = (w', ds', p)"
  shows "gate_inv w' ds'"
proof (cases "TrimSpace (raw body) = ''-1'' \<or> TrimSpace (raw body) = ''0''")
  case True
  with assms show ?thesis
    by (auto simp: atender_respuesta_def Let_def split: if_splits)
next
  case False
  show ?thesis
  proof (cases "json body")
    case None
    with False assms show ?thesis
      by (auto simp: atender_respuesta_def Let_def)
  next
    case (Some response)
    show ?thesis
    proof (cases "\<not> Success response
        \<and> strings_Contains (Data_Message response) ''demasiadas solicitudes''")
      case other: False
      with False Some assms show ?thesis
        by (auto simp: atender_respuesta_def Let_def split: if_splits)
    next
      case True
      let ?w1 = "Sleep (10 * Second) (Println RateLimitDetectado w)"
      let ?ds1 = "ds\<lparr>minuteStart := clock ?w1, requestsInMinute := 0\<rparr>"
      obtain w2 ds2 err where r: "resetSession net ?w1 ?ds1 = (w2, ds2, err)"
        by (cases "resetSession net ?w1 ?ds1")
      from assms(1) have ok: "ventanas_ok 0 (log w)"
        by (simp add: gate_inv_def)
      then have le: "en_curso 0 (log w) \<le> 5"
        by (rule ventanas_ok_en_curso)
      have i1: "gate_inv ?w1 ?ds1"
        using ok le by (simp add: gate_inv_def)
      from resetSession_gate [OF r, of 0] i1 have i2: "gate_inv w2 ds2"
        by (simp add: gate_inv_def)
      have "(w', ds') = (w2, ds2) \<or> (w', ds') = (Println ReintentandoConsulta w2, ds2)"
        using assms(2) False Some True r
        by (auto simp: atender_respuesta_def Let_def split: option.splits)
      with i2 show ?thesis
        by (auto simp: gate_inv_def dest: ventanas_ok_en_curso)
    qed
  qed
qed

lemma ConsultarDNI_cuerpo_inv:
  assumes "gate_inv w ds" and "ConsultarDNI_cuerpo net w ds dni = (w', ds', p)"
  shows "gate_inv w' ds'"
proof (cases "len dni \<noteq> 8 \<or> \<not> match_8_digits dni")
  case True
  with assms show ?thesis
    by (auto simp: ConsultarDNI_cuerpo_def)
next
  case valid: False
  obtain w1 ds1 where g: "rate_gate w ds = (w1, ds1)"
    by (cases "rate_gate w ds")
  from rate_gate_inv [OF assms(1) g] have i1: "gate_inv w1 ds1" and lt: "requestsInMinute ds1 < 5"
    by simp_all
  let ?ds2 = "ds1\<lparr>requestCount := requestCount ds1 + 1\<rparr>"
  obtain w3 ds3 err3 where s3:
    "(if requestCount ?ds2 > 4 then resetSession net w1 ?ds2 else (w1, ?ds2, None)) = (w3, ds3, err3)"
    by (cases "(if requestCount ?ds2 > 4 then resetSession net w1 ?ds2 else (w1, ?ds2, None))")
  have i3: "gate_inv w3 ds3 \<and> requestsInMinute ds3 < 5"
  proof (cases "requestCount ?ds2 > 4")
    case True
    with s3 have "resetSession net w1 ?ds2 = (w3, ds3, err3)" by simp
    from resetSession_gate [OF this, of 0] i1 lt show ?thesis
      by (simp add: gate_inv_def)
  next
    case False
    with s3 i1 lt show ?thesis
      by (auto simp: gate_inv_def)
  qed
  show ?thesis
  proof (cases err3)
    case (Some e)
    with assms(2) valid g s3 have "(w', ds') = (w3, ds3)"
      by (simp add: ConsultarDNI_cuerpo_def Let_def)
    with i3 show ?thesis by simp
  next
    case None
    obtain w4 ds4 err4 where s4:
      "(if nonce ds3 = '''' then getNonce net w3 ds3 else (w3, ds3, None)) = (w4, ds4, err4)"
      by (cases "(if nonce ds3 = '''' then getNonce net w3 ds3 else (w3, ds3, None))")
    have i4: "gate_inv w4 ds4 \<and> requestsInMinute ds4 < 5"
    proof (cases "nonce ds3 = ''''")
      case True
      with s4 have "getNonce net w3 ds3 = (w4, ds4, err4)" by simp
      from getNonce_gate [OF this, of 0] i3 show ?thesis
        by (simp add: gate_inv_def)
    next
      case False
      with s4 i3 show ?thesis by auto
    qed
    show ?thesis
    proof (cases err4)
      case (Some e)
      with assms(2) valid g s3 None s4 have "(w', ds') = (w4, ds4)"
        by (simp add: ConsultarDNI_cuerpo_def Let_def)
      with i4 show ?thesis by simp
    next
      case none4: None
      let ?req = "POST url_ajax [(''action'', ''buscar_fecha''), (''company'', ''''),
                                 (''dni'', dni), (''security'', nonce ds4)]"
      let ?w5 = "Println (ConsultandoDNI dni (requestsInMinute ds4 + 1)) w4"
      let ?ds5 = "ds4\<lparr>lastRequest := clock ?w5, requestsInMinute := requestsInMinute ds4 + 1\<rparr>"
      obtain w6 resp where d: "client_Do net ?w5 ?req = (w6, resp)"
        by (cases "client_Do net ?w5 ?req")
      from d have w6: "w6 = fst (client_Do net ?w5 ?req)"
        by simp
      from i4 have ok4: "ventanas_ok 0 (log w4)"
        and rq4: "requestsInMinute ds4 = int (en_curso 0 (log w4))"
        and lt4: "requestsInMinute ds4 < 5"
        by (simp_all add: gate_inv_def)
      have i6: "gate_inv w6 ?ds5"
        using ok4 rq4 lt4 by (simp add: gate_inv_def w6)
      have body: "ConsultarDNI_cuerpo net w ds dni =
          (case transport_error resp of
             Some e \<Rightarrow> (w6, ?ds5, Termina (Inl e))
           | None \<Rightarrow> atender_respuesta net w6 ?ds5 dni (Body resp))"
        using valid g s3 None s4 none4 d
        by (simp add: ConsultarDNI_cuerpo_def Let_def)
      show ?thesis
      proof (cases "transport_error resp")
        case (Some e)
        with body assms(2) have "(w', ds') = (w6, ?ds5)" by simp
        with i6 show ?thesis by simp
      next
        case none6: None
        with body assms(2) have "atender_respuesta net w6 ?ds5 dni (Body resp) = (w', ds', p)"
          by simp
        with i6 show ?thesis
          by (rule atender_respuesta_inv)
      qed
    qed
  qed
qed

lemma ConsultarDNI_inv:
  "gate_inv w ds \<Longrightarrow> ConsultarDNI n net w ds dni = (w', ds', r) \<Longrightarrow> gate_inv w' ds'"
proof (induction n arbitrary: w ds)
  case 0
  then show ?case by simp
next
  case (Suc n)
  obtain w1 ds1 p where c: "ConsultarDNI_cuerpo net w ds dni = (w1, ds1, p)"
    by (cases "ConsultarDNI_cuerpo net w ds dni")
  from ConsultarDNI_cuerpo_inv [OF Suc.prems(1) c] have i1: "gate_inv w1 ds1" .
  show ?case
  proof (cases p)
    case (Termina res)
    with Suc.prems(2) c i1 show ?thesis by simp
  next
    case Reintenta
    with Suc.prems(2) c have "ConsultarDNI n net w1 ds1 dni = (w', ds', r)" by simp
    with i1 show ?thesis by (rule Suc.IH)
  qed
qed

lemma ConsultarMultiplesDNIs_inv:
  "gate_inv w ds \<Longrightarrow> ConsultarMultiplesDNIs n net w ds dnis = (w', ds', fin) \<Longrightarrow> gate_inv w' ds'"
proof (induction dnis arbitrary: w ds)
  case Nil
  then show ?case by simp
next
  case (Cons dni dnis)
  obtain w1 ds1 r where c: "ConsultarDNI n net w ds dni = (w1, ds1, r)"
    by (cases "ConsultarDNI n net w ds dni")
  from ConsultarDNI_inv [OF Cons.prems(1) c] have i1: "gate_inv w1 ds1" .
  show ?case
  proof (cases r)
    case None
    with Cons.prems(2) c i1 show ?thesis by simp
  next
    case (Some res)
    with Cons.prems(2) c have "ConsultarMultiplesDNIs n net w1 ds1 dnis = (w', ds', fin)" by simp
    with i1 show ?thesis by (rule Cons.IH)
  qed
qed

lemma gate_inv_NewDNIScraper: "log w = [] \<Longrightarrow> gate_inv w (NewDNIScraper w)"
  by (simp add: gate_inv_def NewDNIScraper_def)

lemma gate_inv_windows:
  "gate_inv w ds \<Longrightarrow> list_all (\<lambda>k. k \<le> 5) (por_ventana 0 (log w)) \<and> requestsInMinute ds \<le> 5"
  by (auto simp: gate_inv_def ventanas_ok_por_ventana dest: ventanas_ok_en_curso)

subsection \<open>The lookups on the clock\<close>

lemma cadena:
  assumes "\<forall>k. Suc k < j \<longrightarrow> r ! Suc k + d \<le> r ! k"
  shows "m < j \<Longrightarrow> r ! m + int m * d \<le> r ! (0::nat)"
proof (induction m)
  case 0
  then show ?case by simp
next
  case (Suc m)
  then have "r ! m + int m * d \<le> r ! 0" by simp
  moreover from assms Suc.prems have "r ! Suc m + d \<le> r ! m" by simp
  ultimately show ?case by (simp add: algebra_simps)
qed

lemma ritmo_ok_time:
  "ritmo_ok a j r c ms rim \<Longrightarrow> c \<le> c' \<Longrightarrow> ritmo_ok a j r c' ms rim"
  unfolding ritmo_ok_def by (intro conjI; (elim conjE)?; force)

lemma ritmo_ok_restart:
  assumes "ritmo_ok a j r c ms rim" and "c \<le> c'" and "ms + 60 * Second \<le> c'"
  shows "ritmo_ok c' 0 r c' c' 0"
proof -
  from assms(1) have ch: "\<forall>k. Suc k < j \<longrightarrow> r ! Suc k + 12 * Second \<le> r ! k"
    and le: "\<forall>k < length r. r ! k \<le> c" and jl: "j \<le> length r" and ams: "a \<le> ms"
    and old: "\<forall>m < 6. j + m < length r \<longrightarrow> r ! (j + m) + int m * (12 * Second) \<le> a"
    and so: "sorted_wrt (\<lambda>x y. y \<le> x) r" and es: "espaciados r"
    by (simp_all add: ritmo_ok_def)
  have "r ! m + int m * (12 * Second) \<le> c'" if m: "m < 6" "m < length r" for m
  proof (cases "m < j")
    case True
    from cadena [OF ch True] have "r ! m + int m * (12 * Second) \<le> r ! 0" .
    moreover from le m have "r ! 0 \<le> c" by (cases r) auto
    ultimately show ?thesis using assms(2) by simp
  next
    case False
    then obtain i where i: "m = j + i" by (metis le_add_diff_inverse not_less)
    with m have "i < 6" "j + i < length r" by simp_all
    with old have "r ! (j + i) + int i * (12 * Second) \<le> a" by simp
    moreover have "int m * (12 * Second) \<le> int i * (12 * Second) + 60 * Second"
      using m i by (simp add: Second_def)
    ultimately show ?thesis
      using ams assms(3) i by simp
  qed
  with le so es assms(2) show ?thesis
    by (auto simp: ritmo_ok_def)
qed

lemma ritmo_ok_lookup:
  assumes "ritmo_ok a j r c ms rim" and "0 < j \<longrightarrow> r ! 0 + 12 * Second \<le> c"
  shows "ritmo_ok a (Suc j) (c # r) c ms (rim + 1)"
proof -
  from assms(1) have ch: "\<forall>k. Suc k < j \<longrightarrow> r ! Suc k + 12 * Second \<le> r ! k"
    and le: "\<forall>k < length r. r ! k \<le> c" and jl: "j \<le> length r" and ams: "a \<le> ms"
    and msc: "ms \<le> c" and rim: "0 \<le> rim"
    and cur: "\<forall>k < j. a \<le> r ! k"
    and old: "\<forall>m < 6. j + m < length r \<longrightarrow> r ! (j + m) + int m * (12 * Second) \<le> a"
    and so: "sorted_wrt (\<lambda>x y. y \<le> x) r" and es: "espaciados r"
    by (simp_all add: ritmo_ok_def)
  have ch': "\<forall>k. Suc k < Suc j \<longrightarrow> (c # r) ! Suc k + 12 * Second \<le> (c # r) ! k"
  proof (intro allI impI)
    fix k assume "Suc k < Suc j"
    then show "(c # r) ! Suc k + 12 * Second \<le> (c # r) ! k"
      using ch assms(2) by (cases k) auto
  qed
  have le': "\<forall>k < length (c # r). (c # r) ! k \<le> c"
    using le by (auto simp: nth_Cons split: nat.splits)
  have so': "sorted_wrt (\<lambda>x y. y \<le> x) (c # r)"
    using so le by (auto simp: in_set_conv_nth)
  have cur': "\<forall>k < Suc j. a \<le> (c # r) ! k"
    using cur ams msc by (auto simp: nth_Cons split: nat.splits)
  have cj: "a + int j * (12 * Second) \<le> c"
  proof (cases j)
    case 0
    with ams msc show ?thesis by simp
  next
    case (Suc i)
    then have "i < j" by simp
    from cadena [OF ch this] have "r ! i + int i * (12 * Second) \<le> r ! 0" .
    moreover from cur \<open>i < j\<close> have "a \<le> r ! i" by simp
    moreover from assms(2) Suc have "r ! 0 + 12 * Second \<le> c" by simp
    ultimately show ?thesis
      using Suc by (simp add: algebra_simps)
  qed
  have e5: "r ! 5 + 60 * Second \<le> c" if l: "5 < length r"
  proof (cases "5 < j")
    case True
    from cadena [OF ch True] have "r ! 5 + int 5 * (12 * Second) \<le> r ! 0" .
    moreover from assms(2) True have "r ! 0 + 12 * Second \<le> c" by simp
    ultimately show ?thesis by (simp add: Second_def)
  next
    case False
    then obtain i where i: "5 = j + i" by (metis le_add_diff_inverse not_less)
    then have "i < 6" by simp
    with old i l have "r ! 5 + int i * (12 * Second) \<le> a" by (metis)
    moreover have "int i * (12 * Second) + int j * (12 * Second) = 60 * Second"
    proof -
      have "int i + int j = 5" using i by simp
      then have "(int i + int j) * (12 * Second) = 60 * Second" by simp
      then show ?thesis by (simp add: algebra_simps)
    qed
    ultimately show ?thesis
      using cj by simp
  qed
  show ?thesis
    unfolding ritmo_ok_def
    using jl ams msc rim le' so' ch' cur' old e5 es
    by (intro conjI) auto
qed

lemma ritmo_ok_rate_limit:
  assumes "ritmo_ok a j r c ms rim" and "c \<le> ms'" and "ms' \<le> c'" and "c + 12 * Second \<le> c'"
  shows "ritmo_ok a j r c' ms' 0"
proof -
  from assms(1) have le: "\<forall>k < length r. r ! k \<le> c" and jl: "j \<le> length r"
    by (simp_all add: ritmo_ok_def)
  have "0 < j \<longrightarrow> r ! 0 + 12 * Second \<le> c'"
    using le jl assms(4) by (cases r) auto
  with assms show ?thesis
    unfolding ritmo_ok_def by (intro conjI; (elim conjE)?; force)
qed

lemma ritmo_ok_listo:
  "ritmo_ok a j r c ms rim \<Longrightarrow> rim = 0 \<Longrightarrow> 0 < j \<longrightarrow> r ! 0 + 12 * Second \<le> c"
  by (simp add: ritmo_ok_def)

lemma ritmo_ok_doce:
  "ritmo_ok a j r c ms rim \<Longrightarrow> c + 12 * Second \<le> c' \<Longrightarrow> 0 < j \<longrightarrow> r ! 0 + 12 * Second \<le> c'"
proof -
  assume a: "ritmo_ok a j r c ms rim" and b: "c + 12 * Second \<le> c'"
  from a have le: "\<forall>k < length r. r ! k \<le> c" and jl: "j \<le> length r"
    by (simp_all add: ritmo_ok_def)
  then show ?thesis using b by (cases r) auto
qed

lemma ritmo_ok_inicial: "ritmo_ok c 0 [] c c 0"
  by (simp add: ritmo_ok_def)

lemma filter_desc:
  "sorted_wrt (\<lambda>x y. y \<le> x) r \<Longrightarrow> \<forall>x \<in> set r. x < b \<Longrightarrow>
   filter (\<lambda>t. (a::int) \<le> t \<and> t < b) r = takeWhile (\<lambda>t. a \<le> t) r"
proof (induction r)
  case Nil
  then show ?case by simp
next
  case (Cons x r)
  show ?case
  proof (cases "a \<le> x")
    case True
    with Cons show ?thesis by simp
  next
    case False
    have "\<forall>y \<in> set r. \<not> a \<le> y"
    proof
      fix y assume "y \<in> set r"
      with Cons.prems(1) have "y \<le> x" by simp
      with False show "\<not> a \<le> y" by simp
    qed
    then have "filter (\<lambda>t. a \<le> t \<and> t < b) r = []"
      by (simp add: filter_empty_conv)
    with False show ?thesis by simp
  qed
qed

lemma espaciados_count:
  assumes "sorted_wrt (\<lambda>x y. y \<le> x) r" and "espaciados r"
  shows "length (filter (\<lambda>t. a \<le> t \<and> t < a + 60 * Second) r) \<le> 6"
  using assms
proof (induction r)
  case Nil
  then show ?case by simp
next
  case (Cons x r)
  then have ih: "length (filter (\<lambda>t. a \<le> t \<and> t < a + 60 * Second) r) \<le> 6"
    by simp
  show ?case
  proof (cases "a \<le> x \<and> x < a + 60 * Second")
    case False
    with ih show ?thesis by auto
  next
    case True
    from Cons.prems(1) True have b: "\<forall>y \<in> set r. y < a + 60 * Second" by auto
    from Cons.prems(1) have so: "sorted_wrt (\<lambda>x y. y \<le> x) r" by simp
    have f: "filter (\<lambda>t. a \<le> t \<and> t < a + 60 * Second) r = takeWhile (\<lambda>t. a \<le> t) r"
      using so b by (rule filter_desc)
    have "length (takeWhile (\<lambda>t. a \<le> t) r) \<le> 5"
    proof (rule ccontr)
      assume "\<not> length (takeWhile (\<lambda>t. a \<le> t) r) \<le> 5"
      then have l: "5 < length (takeWhile (\<lambda>t. a \<le> t) r)" by simp
      then have "takeWhile (\<lambda>t. a \<le> t) r ! 5 \<in> set (takeWhile (\<lambda>t. a \<le> t) r)"
        by (rule nth_mem)
      then have "a \<le> takeWhile (\<lambda>t. a \<le> t) r ! 5"
        by (rule set_takeWhileD [THEN conjunct2])
      moreover have "takeWhile (\<lambda>t. a \<le> t) r ! 5 = r ! 5"
        using l by (rule takeWhile_nth)
      moreover have "5 < length r"
        using l length_takeWhile_le [of "\<lambda>t. a \<le> t" r] by simp
      with Cons.prems(2) have "r ! 5 + 60 * Second \<le> x" by simp
      ultimately show False using True by simp
    qed
    with f True show ?thesis by simp
  qed
qed

lemma espaciados_nth:
  "espaciados r \<Longrightarrow> i + 6 < length r \<Longrightarrow> r ! (i + 6) + 60 * Second \<le> r ! i"
proof (induction r arbitrary: i)
  case Nil
  then show ?case by simp
next
  case (Cons x r)
  show ?case
  proof (cases i)
    case 0
    with Cons.prems show ?thesis by simp
  next
    case (Suc k)
    with Cons.prems have "espaciados r" "k + 6 < length r" by simp_all
    from Cons.IH [OF this] Suc show ?thesis by (simp add: add.commute)
  qed
qed


text \<open>The gate lets a call through only when the next lookup may go out.\<close>

lemma rate_gate_ritmo:
  assumes "ritmo w ds" and "rate_gate w ds = (w1, ds1)"
  shows "ritmo_listo w1 ds1"
proof -
  let ?r = "rev (lookup_times (log w))"
  let ?c = "clock w"
  let ?ms = "minuteStart ds"
  let ?rim = "requestsInMinute ds"
  from assms(1) obtain a j where ok: "ritmo_ok a j ?r ?c ?ms ?rim"
    by (auto simp: ritmo_def)
  then have rim0: "0 \<le> ?rim"
    by (simp add: ritmo_ok_def)
  from rate_gate_efecto [OF assms(2)] have r1: "rev (lookup_times (log w1)) = ?r"
    by simp
  show ?thesis
  proof (cases "?c - ?ms \<ge> 60 * Second")
    case True
    with assms(2) have e: "clock w1 = ?c" "minuteStart ds1 = ?c" "requestsInMinute ds1 = 0"
      by (auto simp: rate_gate_def Let_def)
    from True have "?ms + 60 * Second \<le> ?c" by simp
    with ok have "ritmo_ok ?c 0 ?r ?c ?c 0"
      by (rule ritmo_ok_restart [OF _ order_refl])
    then show ?thesis
      unfolding ritmo_listo_def r1 e by blast
  next
    case young: False
    show ?thesis
    proof (cases "?rim \<ge> 5")
      case True
      let ?wait = "61 * Second - (?c - ?ms) + Second"
      from assms(2) young True
      have e: "clock w1 = ?c + max 0 ?wait" "minuteStart ds1 = ?c + max 0 ?wait"
        "requestsInMinute ds1 = 0"
        by (auto simp: rate_gate_def Let_def)
      have "?c \<le> ?c + max 0 ?wait" by simp
      moreover have "?ms + 60 * Second \<le> ?c + max 0 ?wait"
        by (simp add: Second_def max_def)
      ultimately have "ritmo_ok (?c + max 0 ?wait) 0 ?r (?c + max 0 ?wait) (?c + max 0 ?wait) 0"
        using ok by (rule ritmo_ok_restart [rotated])
      then show ?thesis
        unfolding ritmo_listo_def r1 e by blast
    next
      case notfull: False
      show ?thesis
      proof (cases "?rim > 0")
        case True
        from assms(2) young notfull True
        have e: "clock w1 = ?c + 12 * Second" "minuteStart ds1 = ?ms" "requestsInMinute ds1 = ?rim"
          by (auto simp: rate_gate_def Let_def Second_def)
        have le: "?c \<le> ?c + 12 * Second"
          by (simp add: Second_def)
        from ok le have "ritmo_ok a j ?r (?c + 12 * Second) ?ms ?rim"
          by (rule ritmo_ok_time)
        moreover from ok have "0 < j \<longrightarrow> ?r ! 0 + 12 * Second \<le> ?c + 12 * Second"
          by (rule ritmo_ok_doce) simp
        ultimately show ?thesis
          unfolding ritmo_listo_def r1 e by blast
      next
        case False
        with rim0 have z: "?rim = 0" by simp
        from assms(2) young notfull False
        have e: "clock w1 = ?c" "minuteStart ds1 = ?ms" "requestsInMinute ds1 = ?rim"
          by (auto simp: rate_gate_def Let_def)
        from ok z have "0 < j \<longrightarrow> ?r ! 0 + 12 * Second \<le> ?c"
          by (rule ritmo_ok_listo)
        with ok show ?thesis
          unfolding ritmo_listo_def r1 e by blast
      qed
    qed
  qed
qed

lemma atender_respuesta_ritmo:
  assumes "ritmo w ds" and "0 < length (lookup_times (log w))"
    and "atender_respuesta net w ds dni body = (w', ds', p)"
  shows "ritmo w' ds'"
proof -
  from assms(1) obtain a j where ok:
    "ritmo_ok a j (rev (lookup_times (log w))) (clock w) (minuteStart ds) (requestsInMinute ds)"
    by (auto simp: ritmo_def)
  from atender_respuesta_efecto [OF assms(3)] show ?thesis
  proof
    assume "(w', ds') = (w, ds) \<and> (\<exists>r. p = Termina r)"
    with assms(1) show ?thesis by simp
  next
    assume e: "lookup_times (log w') = lookup_times (log w) \<and> wire_posts (log w') = wire_posts (log w)
        \<and> clock w + 13 * Second \<le> clock w' \<and> minuteStart ds' = clock w + 10 * Second
        \<and> requestsInMinute ds' = 0"
    have "ritmo_ok a j (rev (lookup_times (log w))) (clock w') (clock w + 10 * Second) 0"
      using ok
    proof (rule ritmo_ok_rate_limit)
      show "clock w \<le> clock w + 10 * Second" by (simp add: Second_def)
      show "clock w + 10 * Second \<le> clock w'" using e by (simp add: Second_def)
      show "clock w + 12 * Second \<le> clock w'" using e by (simp add: Second_def)
    qed
    with e show ?thesis
      unfolding ritmo_def by auto
  qed
qed

lemma ConsultarDNI_cuerpo_ritmo:
  assumes "ritmo w ds" and "ConsultarDNI_cuerpo net w ds dni = (w', ds', p)"
  shows "ritmo w' ds'"
proof (cases "len dni \<noteq> 8 \<or> \<not> match_8_digits dni")
  case True
  with assms show ?thesis
    by (auto simp: ConsultarDNI_cuerpo_def)
next
  case False
  then have v: "len dni = 8" "match_8_digits dni" by simp_all
  obtain w1 ds1 where g: "rate_gate w ds = (w1, ds1)"
    by (cases "rate_gate w ds")
  from rate_gate_ritmo [OF assms(1) g]
  obtain a j where ok1: "ritmo_ok a j (rev (lookup_times (log w1))) (clock w1) (minuteStart ds1)
               (requestsInMinute ds1)"
    and li1: "0 < j \<longrightarrow> rev (lookup_times (log w1)) ! 0 + 12 * Second \<le> clock w1"
    by (auto simp: ritmo_listo_def)
  from ConsultarDNI_cuerpo_etapas [OF v assms(2) g]
  obtain w4 ds4 where l4: "lookup_times (log w4) = lookup_times (log w1)"
    and c4: "clock w1 \<le> clock w4" and m4: "minuteStart ds4 = minuteStart ds1"
    and q4: "requestsInMinute ds4 = requestsInMinute ds1"
    and alt: "(\<exists>e. (w', ds', p) = (w4, ds4, Termina (Inl e)))
         \<or> (\<exists>w6 resp.
              client_Do net (Println (ConsultandoDNI dni (requestsInMinute ds4 + 1)) w4)
                (POST url_ajax [(''action'', ''buscar_fecha''), (''company'', ''''),
                                (''dni'', dni), (''security'', nonce ds4)]) = (w6, resp)
              \<and> (case transport_error resp of
                    Some e \<Rightarrow>
                      (w', ds', p) =
                        (w6, ds4\<lparr>lastRequest := clock w4,
                                 requestsInMinute := requestsInMinute ds4 + 1\<rparr>,
                         Termina (Inl e))
                  | None \<Rightarrow>
                      atender_respuesta net w6
                        (ds4\<lparr>lastRequest := clock w4,
                             requestsInMinute := requestsInMinute ds4 + 1\<rparr>)
                        dni (Body resp) = (w', ds', p)))"
    by blast
  let ?r = "rev (lookup_times (log w1))"
  from ok1 c4 have ok4: "ritmo_ok a j ?r (clock w4) (minuteStart ds1) (requestsInMinute ds1)"
    by (rule ritmo_ok_time)
  from li1 c4 have li4: "0 < j \<longrightarrow> ?r ! 0 + 12 * Second \<le> clock w4"
    by auto
  from alt show ?thesis
  proof
    assume "\<exists>e. (w', ds', p) = (w4, ds4, Termina (Inl e))"
    with ok4 l4 m4 q4 show ?thesis
      by (auto simp: ritmo_def)
  next
    let ?req = "POST url_ajax [(''action'', ''buscar_fecha''), (''company'', ''''),
                                (''dni'', dni), (''security'', nonce ds4)]"
    let ?w5 = "Println (ConsultandoDNI dni (requestsInMinute ds4 + 1)) w4"
    let ?ds5 = "ds4\<lparr>lastRequest := clock w4, requestsInMinute := requestsInMinute ds4 + 1\<rparr>"
    assume "\<exists>w6 resp. client_Do net ?w5 ?req = (w6, resp)
              \<and> (case transport_error resp of
                    Some e \<Rightarrow> (w', ds', p) = (w6, ?ds5, Termina (Inl e))
                  | None \<Rightarrow> atender_respuesta net w6 ?ds5 dni (Body resp) = (w', ds', p))"
    then obtain w6 resp where d: "client_Do net ?w5 ?req = (w6, resp)"
      and k: "case transport_error resp of
                    Some e \<Rightarrow> (w', ds', p) = (w6, ?ds5, Termina (Inl e))
                  | None \<Rightarrow> atender_respuesta net w6 ?ds5 dni (Body resp) = (w', ds', p)"
      by blast
    from d have w6: "w6 = fst (client_Do net ?w5 ?req)"
      by simp
    have l6: "rev (lookup_times (log w6)) = clock w4 # ?r"
      by (simp add: w6 l4)
    have c6: "clock w4 \<le> clock w6"
      using clock_client_Do [of ?w5 net ?req] by (simp add: w6)
    from ok4 li4
    have "ritmo_ok a (Suc j) (clock w4 # ?r) (clock w4) (minuteStart ds1) (requestsInMinute ds1 + 1)"
      by (rule ritmo_ok_lookup)
    then have "ritmo_ok a (Suc j) (clock w4 # ?r) (clock w6) (minuteStart ds1)
        (requestsInMinute ds1 + 1)"
      using c6 by (rule ritmo_ok_time)
    then have i6: "ritmo w6 ?ds5"
      unfolding ritmo_def l6 by (auto simp: m4 q4)
    have n6: "0 < length (lookup_times (log w6))"
      using arg_cong [OF l6, of length] by simp
    show ?thesis
    proof (cases "transport_error resp")
      case (Some e)
      with k have "(w', ds') = (w6, ?ds5)" by simp
      with i6 show ?thesis by simp
    next
      case None
      with k have "atender_respuesta net w6 ?ds5 dni (Body resp) = (w', ds', p)"
        by simp
      with i6 n6 show ?thesis
        by (rule atender_respuesta_ritmo)
    qed
  qed
qed

lemma ritmo_NewDNIScraper: "log w = [] \<Longrightarrow> ritmo w (NewDNIScraper w)"
  unfolding ritmo_def NewDNIScraper_def
  using ritmo_ok_inicial [of "clock w"] by auto

lemma ritmo_en_minuto:
  assumes "ritmo w ds"
  shows "en_minuto a (lookup_times (log w)) \<le> 6
     \<and> sorted (lookup_times (log w))
     \<and> (\<forall>i. i + 6 < length (lookup_times (log w)) \<longrightarrow>
           lookup_times (log w) ! i + 60 * Second \<le> lookup_times (log w) ! (i + 6))"
proof -
  let ?ts = "lookup_times (log w)"
  from assms obtain a' j where ok:
    "ritmo_ok a' j (rev ?ts) (clock w) (minuteStart ds) (requestsInMinute ds)"
    by (auto simp: ritmo_def)
  then have so: "sorted_wrt (\<lambda>x y. y \<le> x) (rev ?ts)" and es: "espaciados (rev ?ts)"
    by (simp_all add: ritmo_ok_def)
  from espaciados_count [OF so es, of a]
  have "length (filter (\<lambda>t. a \<le> t \<and> t < a + 60 * Second) ?ts) \<le> 6"
    by (simp add: rev_filter [symmetric])
  then have 1: "en_minuto a ?ts \<le> 6"
    by (simp add: en_minuto_def)
  have 2: "sorted ?ts"
    using so by (simp add: sorted_wrt_rev)
  have 3: "?ts ! i + 60 * Second \<le> ?ts ! (i + 6)" if l: "i + 6 < length ?ts" for i
  proof -
    let ?n = "length ?ts"
    let ?k = "?n - 1 - (i + 6)"
    from l have k: "?k + 6 < length (rev ?ts)" by simp
    from espaciados_nth [OF es k]
    have "rev ?ts ! (?k + 6) + 60 * Second \<le> rev ?ts ! ?k" .
    moreover have "rev ?ts ! (?k + 6) = ?ts ! i"
    proof -
      have "?k + 6 < ?n" using l by arith
      then have "rev ?ts ! (?k + 6) = ?ts ! (?n - Suc (?k + 6))"
        by (rule rev_nth)
      moreover have "?n - Suc (?k + 6) = i" using l by arith
      ultimately show ?thesis by (simp only:)
    qed
    moreover have "rev ?ts ! ?k = ?ts ! (i + 6)"
    proof -
      have "?k < ?n" using l by arith
      then have "rev ?ts ! ?k = ?ts ! (?n - Suc ?k)"
        by (rule rev_nth)
      moreover have "?n - Suc ?k = i + 6" using l by arith
      ultimately show ?thesis by (simp only:)
    qed
    ultimately show ?thesis by simp
  qed
  from 1 2 3 show ?thesis by blast
qed

subsection \<open>The requests on the wire\<close>

lemma ConsultarDNI_cuerpo_wire:
  assumes "wire_posts (log w) \<le> 10 * lookups (log w)"
    and "ConsultarDNI_cuerpo net w ds dni = (w', ds', p)"
  shows "wire_posts (log w') \<le> 10 * lookups (log w')"
proof (cases "len dni \<noteq> 8 \<or> \<not> match_8_digits dni")
  case True
  with assms show ?thesis
    by (auto simp: ConsultarDNI_cuerpo_def)
next
  case False
  then have v: "len dni = 8" "match_8_digits dni" by simp_all
  obtain w1 ds1 where g: "rate_gate w ds = (w1, ds1)"
    by (cases "rate_gate w ds")
  from rate_gate_efecto [OF g] assms(1)
  have i1: "wire_posts (log w1) \<le> 10 * lookups (log w1)"
    by (simp add: lookups_lookup_times)
  from ConsultarDNI_cuerpo_etapas [OF v assms(2) g]
  obtain w4 ds4 where l4: "lookup_times (log w4) = lookup_times (log w1)"
    and p4: "wire_posts (log w4) = wire_posts (log w1)"
    and alt: "(\<exists>e. (w', ds', p) = (w4, ds4, Termina (Inl e)))
         \<or> (\<exists>w6 resp.
              client_Do net (Println (ConsultandoDNI dni (requestsInMinute ds4 + 1)) w4)
                (POST url_ajax [(''action'', ''buscar_fecha''), (''company'', ''''),
                                (''dni'', dni), (''security'', nonce ds4)]) = (w6, resp)
              \<and> (case transport_error resp of
                    Some e \<Rightarrow>
                      (w', ds', p) =
                        (w6, ds4\<lparr>lastRequest := clock w4,
                                 requestsInMinute := requestsInMinute ds4 + 1\<rparr>,
                         Termina (Inl e))
                  | None \<Rightarrow>
                      atender_respuesta net w6
                        (ds4\<lparr>lastRequest := clock w4,
                             requestsInMinute := requestsInMinute ds4 + 1\<rparr>)
                        dni (Body resp) = (w', ds', p)))"
    by blast
  from i1 l4 p4 have i4: "wire_posts (log w4) \<le> 10 * lookups (log w4)"
    by (simp add: lookups_lookup_times)
  from alt show ?thesis
  proof
    assume "\<exists>e. (w', ds', p) = (w4, ds4, Termina (Inl e))"
    with i4 show ?thesis by auto
  next
    let ?req = "POST url_ajax [(''action'', ''buscar_fecha''), (''company'', ''''),
                                (''dni'', dni), (''security'', nonce ds4)]"
    let ?w5 = "Println (ConsultandoDNI dni (requestsInMinute ds4 + 1)) w4"
    let ?ds5 = "ds4\<lparr>lastRequest := clock w4, requestsInMinute := requestsInMinute ds4 + 1\<rparr>"
    assume "\<exists>w6 resp. client_Do net ?w5 ?req = (w6, resp)
              \<and> (case transport_error resp of
                    Some e \<Rightarrow> (w', ds', p) = (w6, ?ds5, Termina (Inl e))
                  | None \<Rightarrow> atender_respuesta net w6 ?ds5 dni (Body resp) = (w', ds', p))"
    then obtain w6 resp where d: "client_Do net ?w5 ?req = (w6, resp)"
      and k: "case transport_error resp of
                    Some e \<Rightarrow> (w', ds', p) = (w6, ?ds5, Termina (Inl e))
                  | None \<Rightarrow> atender_respuesta net w6 ?ds5 dni (Body resp) = (w', ds', p)"
      by blast
    from d have w6: "w6 = fst (client_Do net ?w5 ?req)"
      by simp
    have "wire_posts (log w6) \<le> wire_posts (log ?w5) + 10"
      unfolding w6 by (rule wire_posts_client_Do)
    moreover have "lookups (log w6) = Suc (lookups (log w4))"
      by (simp add: w6)
    ultimately have i6: "wire_posts (log w6) \<le> 10 * lookups (log w6)"
      using i4 by simp
    show ?thesis
    proof (cases "transport_error resp")
      case (Some e)
      with k have "w' = w6" by simp
      with i6 show ?thesis by simp
    next
      case None
      with k have "atender_respuesta net w6 ?ds5 dni (Body resp) = (w', ds', p)"
        by simp
      from atender_respuesta_efecto [OF this] i6 show ?thesis
        by (auto simp: lookups_lookup_times)
    qed
  qed
qed

text \<open>
  Claim C3, as the code has it. The gate counts lookups in fixed windows, not in a
  rolling one. In a run of a fresh scraper, whatever the endpoint answers, however long
  it takes to answer and whichever identifiers are asked for:
  no window (the stretch between two restarts of the counter) holds more than five
  lookups, and the counter \<open>requestsInMinute\<close> is never above five between calls;
  the sixty seconds that start at any time \<open>a\<close> hold at most six lookups, for each
  lookup is issued sixty seconds or more after the sixth before it;
  and a lookup puts at most ten POST requests on the wire (the HTTP client sends it
  again when the endpoint redirects it). This holds for one call of \<open>ConsultarDNI\<close> and
  for the loop \<open>ConsultarMultiplesDNIs\<close>, also when a call does not return.
\<close>

theorem C3_five_lookups_per_window_six_per_minute:
  "log w0 = [] \<longrightarrow>
     list_all (\<lambda>k. k \<le> 5)
       (por_ventana 0 (log (fst (ConsultarMultiplesDNIs n net w0 (NewDNIScraper w0) dnis))))
     \<and> requestsInMinute (fst (snd (ConsultarMultiplesDNIs n net w0 (NewDNIScraper w0) dnis))) \<le> 5
     \<and> en_minuto a
          (lookup_times (log (fst (ConsultarMultiplesDNIs n net w0 (NewDNIScraper w0) dnis)))) \<le> 6
     \<and> sorted (lookup_times (log (fst (ConsultarMultiplesDNIs n net w0 (NewDNIScraper w0) dnis))))
     \<and> (\<forall>i. i + 6
              < length (lookup_times
                  (log (fst (ConsultarMultiplesDNIs n net w0 (NewDNIScraper w0) dnis)))) \<longrightarrow>
           lookup_times (log (fst (ConsultarMultiplesDNIs n net w0 (NewDNIScraper w0) dnis))) ! i
             + 60 * Second
           \<le> lookup_times (log (fst (ConsultarMultiplesDNIs n net w0 (NewDNIScraper w0) dnis)))
                ! (i + 6))
     \<and> wire_posts (log (fst (ConsultarMultiplesDNIs n net w0 (NewDNIScraper w0) dnis)))
         \<le> 10 * lookups (log (fst (ConsultarMultiplesDNIs n net w0 (NewDNIScraper w0) dnis)))
     \<and> list_all (\<lambda>k. k \<le> 5)
       (por_ventana 0 (log (fst (ConsultarDNI n net w0 (NewDNIScraper w0) dni))))
     \<and> requestsInMinute (fst (snd (ConsultarDNI n net w0 (NewDNIScraper w0) dni))) \<le> 5
     \<and> en_minuto a (lookup_times (log (fst (ConsultarDNI n net w0 (NewDNIScraper w0) dni)))) \<le> 6"
proof
  assume e: "log w0 = []"
  then have i: "gate_inv w0 (NewDNIScraper w0)"
    by (rule gate_inv_NewDNIScraper)
  from e have r: "ritmo w0 (NewDNIScraper w0)"
    by (rule ritmo_NewDNIScraper)
  from e have p: "wire_posts (log w0) \<le> 10 * lookups (log w0)"
    by simp
  obtain w' ds' fin where m: "ConsultarMultiplesDNIs n net w0 (NewDNIScraper w0) dnis = (w', ds', fin)"
    by (cases "ConsultarMultiplesDNIs n net w0 (NewDNIScraper w0) dnis")
  obtain w'' ds'' res where c: "ConsultarDNI n net w0 (NewDNIScraper w0) dni = (w'', ds'', res)"
    by (cases "ConsultarDNI n net w0 (NewDNIScraper w0) dni")
  have rm: "ritmo w' ds'"
    using r m by (rule ConsultarMultiplesDNIs_mantiene [where P = ritmo, rotated])
       (rule ConsultarDNI_cuerpo_ritmo)
  have rc: "ritmo w'' ds''"
    using r c by (rule ConsultarDNI_mantiene [where P = ritmo, rotated])
       (rule ConsultarDNI_cuerpo_ritmo)
  have pm: "wire_posts (log w') \<le> 10 * lookups (log w')"
    using p m
    by (rule ConsultarMultiplesDNIs_mantiene
          [where P = "\<lambda>w ds. wire_posts (log w) \<le> 10 * lookups (log w)", rotated])
       (rule ConsultarDNI_cuerpo_wire)
  from gate_inv_windows [OF ConsultarMultiplesDNIs_inv [OF i m]]
    gate_inv_windows [OF ConsultarDNI_inv [OF i c]]
    ritmo_en_minuto [OF rm, of a] ritmo_en_minuto [OF rc, of a] pm
  show "list_all (\<lambda>k. k \<le> 5)
       (por_ventana 0 (log (fst (ConsultarMultiplesDNIs n net w0 (NewDNIScraper w0) dnis))))
     \<and> requestsInMinute (fst (snd (ConsultarMultiplesDNIs n net w0 (NewDNIScraper w0) dnis))) \<le> 5
     \<and> en_minuto a
          (lookup_times (log (fst (ConsultarMultiplesDNIs n net w0 (NewDNIScraper w0) dnis)))) \<le> 6
     \<and> sorted (lookup_times (log (fst (ConsultarMultiplesDNIs n net w0 (NewDNIScraper w0) dnis))))
     \<and> (\<forall>i. i + 6
              < length (lookup_times
                  (log (fst (ConsultarMultiplesDNIs n net w0 (NewDNIScraper w0) dnis)))) \<longrightarrow>
           lookup_times (log (fst (ConsultarMultiplesDNIs n net w0 (NewDNIScraper w0) dnis))) ! i
             + 60 * Second
           \<le> lookup_times (log (fst (ConsultarMultiplesDNIs n net w0 (NewDNIScraper w0) dnis)))
                ! (i + 6))
     \<and> wire_posts (log (fst (ConsultarMultiplesDNIs n net w0 (NewDNIScraper w0) dnis)))
         \<le> 10 * lookups (log (fst (ConsultarMultiplesDNIs n net w0 (NewDNIScraper w0) dnis)))
     \<and> list_all (\<lambda>k. k \<le> 5)
       (por_ventana 0 (log (fst (ConsultarDNI n net w0 (NewDNIScraper w0) dni))))
     \<and> requestsInMinute (fst (snd (ConsultarDNI n net w0 (NewDNIScraper w0) dni))) \<le> 5
     \<and> en_minuto a (lookup_times (log (fst (ConsultarDNI n net w0 (NewDNIScraper w0) dni)))) \<le> 6"
    by (simp add: m c)
qed

subsection \<open>Six lookups within one minute\<close>

lemma TrimSpace_json: "TrimSpace ''{json}'' = ''{json}''"
  by (simp add: TrimSpace_def TrimLeft.simps TrimRight.simps white_space_def)

lemma atender_respuesta_exito:
  "atender_respuesta net w ds dni cuerpo_exito =
     (w, ds, Termina (Inr \<lparr>dd_DNI = dni, dd_Nombres = ''ANA'', dd_FechaNacimiento = ''01/02/1990''\<rparr>))"
  by (simp add: atender_respuesta_def cuerpo_exito_def TrimSpace_json)

lemma getNonce_red_lenta:
  "nonce ds = '''' \<Longrightarrow>
   getNonce red_lenta_al_inicio w ds =
     (w\<lparr>clock := clock w + (if sent w = 0 then 40 * Second else 0), sent := Suc (sent w),
        log := log w @ [Request (clock w) (GET url_fecha), Printed (NuevoNonceObtenido ''abc123'')]\<rparr>,
      ds\<lparr>nonce := ''abc123''\<rparr>, None)"
  by (simp add: getNonce_def client_Do_direct red_lenta_al_inicio_def respuesta_fecha_def
        nonce_pagina_nonce Println_def Second_def)

text \<open>The POST and its answer, after the gate and the session: the tail of the body.\<close>

lemma cuerpo_red_lenta_primera:
  assumes "match_8_digits dni" and "requestsInMinute ds = 0" and "nonce ds = ''''"
    and "clock w - minuteStart ds < 60 * Second" and "requestCount ds < 4" and "sent w = 0"
  shows "ConsultarDNI_cuerpo red_lenta_al_inicio w ds dni =
     (w\<lparr>clock := clock w + 40 * Second, sent := Suc (Suc (sent w)),
        log := log w @ [Request (clock w) (GET url_fecha), Printed (NuevoNonceObtenido ''abc123''),
                 Printed (ConsultandoDNI dni 1),
                 Request (clock w + 40 * Second)
                   (POST url_ajax [(''action'', ''buscar_fecha''), (''company'', ''''),
                                   (''dni'', dni), (''security'', ''abc123'')])]\<rparr>,
      ds\<lparr>nonce := ''abc123'', lastRequest := clock w + 40 * Second,
         requestCount := requestCount ds + 1, requestsInMinute := 1\<rparr>,
      Termina (Inr \<lparr>dd_DNI = dni, dd_Nombres = ''ANA'', dd_FechaNacimiento = ''01/02/1990''\<rparr>))"
  using assms
  by (simp add: ConsultarDNI_cuerpo_def len_8 rate_gate_def Let_def getNonce_red_lenta
        client_Do_direct red_lenta_al_inicio_def respuesta_fecha_def atender_respuesta_exito
        Println_def Second_def)

lemma cuerpo_red_lenta_siguiente:
  assumes "match_8_digits dni" and "0 < requestsInMinute ds" and "requestsInMinute ds < 5"
    and "nonce ds \<noteq> ''''" and "clock w - minuteStart ds < 60 * Second" and "requestCount ds < 4"
  shows "ConsultarDNI_cuerpo red_lenta_al_inicio w ds dni =
     (w\<lparr>clock := clock w + 12 * Second, sent := Suc (sent w),
        log := log w @ [Printed EsperandoDoceSegundos, Slept (12 * Second),
                 Printed (ConsultandoDNI dni (requestsInMinute ds + 1)),
                 Request (clock w + 12 * Second)
                   (POST url_ajax [(''action'', ''buscar_fecha''), (''company'', ''''),
                                   (''dni'', dni), (''security'', nonce ds)])]\<rparr>,
      ds\<lparr>lastRequest := clock w + 12 * Second,
         requestCount := requestCount ds + 1, requestsInMinute := requestsInMinute ds + 1\<rparr>,
      Termina (Inr \<lparr>dd_DNI = dni, dd_Nombres = ''ANA'', dd_FechaNacimiento = ''01/02/1990''\<rparr>))"
  using assms
  by (simp add: ConsultarDNI_cuerpo_def len_8 rate_gate_def Let_def
        client_Do_direct red_lenta_al_inicio_def respuesta_fecha_def atender_respuesta_exito
        Println_def Sleep_def Second_def)

lemma cuerpo_red_lenta_nuevo_ciclo:
  assumes "match_8_digits dni" and "clock w - minuteStart ds \<ge> 60 * Second"
    and "nonce ds \<noteq> ''''" and "requestCount ds < 4"
  shows "ConsultarDNI_cuerpo red_lenta_al_inicio w ds dni =
     (w\<lparr>sent := Suc (sent w),
        log := log w @ [Printed NuevoCicloIniciado, Printed (ConsultandoDNI dni 1),
                 Request (clock w)
                   (POST url_ajax [(''action'', ''buscar_fecha''), (''company'', ''''),
                                   (''dni'', dni), (''security'', nonce ds)])]\<rparr>,
      ds\<lparr>lastRequest := clock w, requestCount := requestCount ds + 1,
         minuteStart := clock w, requestsInMinute := 1\<rparr>,
      Termina (Inr \<lparr>dd_DNI = dni, dd_Nombres = ''ANA'', dd_FechaNacimiento = ''01/02/1990''\<rparr>))"
  using assms
  by (simp add: ConsultarDNI_cuerpo_def len_8 rate_gate_def Let_def
        client_Do_direct red_lenta_al_inicio_def respuesta_fecha_def atender_respuesta_exito
        Println_def Sleep_def Second_def)

lemma cuerpo_red_lenta_nueva_sesion:
  assumes "match_8_digits dni" and "0 < requestsInMinute ds" and "requestsInMinute ds < 5"
    and "clock w - minuteStart ds < 60 * Second" and "requestCount ds = 4" and "sent w \<noteq> 0"
  shows "ConsultarDNI_cuerpo red_lenta_al_inicio w ds dni =
     (w\<lparr>clock := clock w + 15 * Second, sent := Suc (Suc (sent w)),
        log := log w @ [Printed EsperandoDoceSegundos, Slept (12 * Second),
                 Printed ReseteandoSesion, Slept (3 * Second),
                 Request (clock w + 15 * Second) (GET url_fecha),
                 Printed (NuevoNonceObtenido ''abc123''),
                 Printed (ConsultandoDNI dni (requestsInMinute ds + 1)),
                 Request (clock w + 15 * Second)
                   (POST url_ajax [(''action'', ''buscar_fecha''), (''company'', ''''),
                                   (''dni'', dni), (''security'', ''abc123'')])]\<rparr>,
      ds\<lparr>nonce := ''abc123'', lastRequest := clock w + 15 * Second,
         requestCount := 0, requestsInMinute := requestsInMinute ds + 1\<rparr>,
      Termina (Inr \<lparr>dd_DNI = dni, dd_Nombres = ''ANA'', dd_FechaNacimiento = ''01/02/1990''\<rparr>))"
  using assms
  by (simp add: ConsultarDNI_cuerpo_def len_8 rate_gate_def Let_def resetSession_def
        getNonce_red_lenta
        client_Do_direct red_lenta_al_inicio_def respuesta_fecha_def atender_respuesta_exito
        Println_def Sleep_def Second_def)

lemma corrida_red_lenta:
  "ConsultarMultiplesDNIs 1 red_lenta_al_inicio mundo_inicial (NewDNIScraper mundo_inicial) seis_dnis
   = (\<lparr>clock = 91 * Second, sent = 8,
       log = [Request 0 (GET url_fecha), Printed (NuevoNonceObtenido ''abc123''),
              Printed (ConsultandoDNI ''10000001'' 1),
              Request (40 * Second)
                (POST url_ajax [(''action'', ''buscar_fecha''), (''company'', ''''),
                                (''dni'', ''10000001''), (''security'', ''abc123'')]),
              Printed EsperandoDoceSegundos, Slept (12 * Second),
              Printed (ConsultandoDNI ''10000002'' 2),
              Request (52 * Second)
                (POST url_ajax [(''action'', ''buscar_fecha''), (''company'', ''''),
                                (''dni'', ''10000002''), (''security'', ''abc123'')]),
              Printed EsperandoDoceSegundos, Slept (12 * Second),
              Printed (ConsultandoDNI ''10000003'' 3),
              Request (64 * Second)
                (POST url_ajax [(''action'', ''buscar_fecha''), (''company'', ''''),
                                (''dni'', ''10000003''), (''security'', ''abc123'')]),
              Printed NuevoCicloIniciado,
              Printed (ConsultandoDNI ''10000004'' 1),
              Request (64 * Second)
                (POST url_ajax [(''action'', ''buscar_fecha''), (''company'', ''''),
                                (''dni'', ''10000004''), (''security'', ''abc123'')]),
              Printed EsperandoDoceSegundos, Slept (12 * Second),
              Printed ReseteandoSesion, Slept (3 * Second),
              Request (79 * Second) (GET url_fecha), Printed (NuevoNonceObtenido ''abc123''),
              Printed (ConsultandoDNI ''10000005'' 2),
              Request (79 * Second)
                (POST url_ajax [(''action'', ''buscar_fecha''), (''company'', ''''),
                                (''dni'', ''10000005''), (''security'', ''abc123'')]),
              Printed EsperandoDoceSegundos, Slept (12 * Second),
              Printed (ConsultandoDNI ''10000006'' 3),
              Request (91 * Second)
                (POST url_ajax [(''action'', ''buscar_fecha''), (''company'', ''''),
                                (''dni'', ''10000006''), (''security'', ''abc123'')])]\<rparr>,
      \<lparr>nonce = ''abc123'', lastRequest = 91 * Second, requestCount = 1,
       minuteStart = 64 * Second, requestsInMinute = 3\<rparr>,
      True)"
  by (simp add: seis_dnis_def cuerpo_red_lenta_primera cuerpo_red_lenta_siguiente
        cuerpo_red_lenta_nuevo_ciclo cuerpo_red_lenta_nueva_sesion match_8_digits_def
        is_digit_def mundo_inicial_def NewDNIScraper_def Second_def)

text \<open>
  Claim C3 fails across a restart of the counter. A fresh scraper looks up six
  identifiers; the form page takes forty seconds to arrive, the lookups are answered at
  once. The lookups go out at the seconds 40, 52, 64, 64, 79 and 91: six requests
  within 51 seconds, all of them in the sixty seconds that start at second 40. The
  fourth call finds that a minute has passed since the window started, starts a new
  window and sends at once.
\<close>

theorem C3_six_lookups_within_a_minute:
  "lookup_times (log (fst (ConsultarMultiplesDNIs 1 red_lenta_al_inicio mundo_inicial
                             (NewDNIScraper mundo_inicial) seis_dnis)))
     = [40 * Second, 52 * Second, 64 * Second, 64 * Second, 79 * Second, 91 * Second]
   \<and> 91 * Second - 40 * Second < 60 * Second
   \<and> en_minuto (40 * Second)
        (lookup_times (log (fst (ConsultarMultiplesDNIs 1 red_lenta_al_inicio mundo_inicial
                                   (NewDNIScraper mundo_inicial) seis_dnis)))) = 6
   \<and> length seis_dnis = 6"
  unfolding corrida_red_lenta
  by (simp add: Second_def seis_dnis_def en_minuto_def)

theorem C3_five_lookups_per_window_six_per_minute_witness:
  "log mundo_inicial = []
   \<and> por_ventana 0 (log (fst (ConsultarMultiplesDNIs 1 red_lenta_al_inicio mundo_inicial
                                  (NewDNIScraper mundo_inicial) seis_dnis))) = [3, 3]
   \<and> list_all (\<lambda>k. k \<le> 5)
        (por_ventana 0 (log (fst (ConsultarMultiplesDNIs 1 red_lenta_al_inicio mundo_inicial
                                     (NewDNIScraper mundo_inicial) seis_dnis))))
   \<and> requestsInMinute (fst (snd (ConsultarMultiplesDNIs 1 red_lenta_al_inicio mundo_inicial
                                     (NewDNIScraper mundo_inicial) seis_dnis))) = 3
   \<and> en_minuto (40 * Second)
        (lookup_times (log (fst (ConsultarMultiplesDNIs 1 red_lenta_al_inicio mundo_inicial
                                   (NewDNIScraper mundo_inicial) seis_dnis)))) \<le> 6
   \<and> lookups (log (fst (ConsultarMultiplesDNIs 1 red_lenta_al_inicio mundo_inicial
                           (NewDNIScraper mundo_inicial) seis_dnis))) = 6
   \<and> wire_posts (log (fst (ConsultarMultiplesDNIs 1 red_lenta_al_inicio mundo_inicial
                              (NewDNIScraper mundo_inicial) seis_dnis)))
       \<le> 10 * lookups (log (fst (ConsultarMultiplesDNIs 1 red_lenta_al_inicio mundo_inicial
                                    (NewDNIScraper mundo_inicial) seis_dnis)))"
proof -
  let ?run = "ConsultarMultiplesDNIs 1 red_lenta_al_inicio mundo_inicial
                (NewDNIScraper mundo_inicial) seis_dnis"
  have e: "log mundo_inicial = []"
    by (simp add: mundo_inicial_def)
  from C3_five_lookups_per_window_six_per_minute
    [where ?w0.0 = mundo_inicial and n = 1 and net = red_lenta_al_inicio and dnis = seis_dnis
       and a = "40 * Second"] e
  have T: "list_all (\<lambda>k. k \<le> 5) (por_ventana 0 (log (fst ?run)))
     \<and> requestsInMinute (fst (snd ?run)) \<le> 5
     \<and> en_minuto (40 * Second) (lookup_times (log (fst ?run))) \<le> 6
     \<and> sorted (lookup_times (log (fst ?run)))
     \<and> (\<forall>i. i + 6 < length (lookup_times (log (fst ?run))) \<longrightarrow>
           lookup_times (log (fst ?run)) ! i + 60 * Second
           \<le> lookup_times (log (fst ?run)) ! (i + 6))
     \<and> wire_posts (log (fst ?run)) \<le> 10 * lookups (log (fst ?run))
     \<and> list_all (\<lambda>k. k \<le> 5)
       (por_ventana 0 (log (fst (ConsultarDNI 1 red_lenta_al_inicio mundo_inicial
          (NewDNIScraper mundo_inicial) dni))))
     \<and> requestsInMinute (fst (snd (ConsultarDNI 1 red_lenta_al_inicio mundo_inicial
          (NewDNIScraper mundo_inicial) dni))) \<le> 5
     \<and> en_minuto (40 * Second)
          (lookup_times (log (fst (ConsultarDNI 1 red_lenta_al_inicio mundo_inicial
             (NewDNIScraper mundo_inicial) dni)))) \<le> 6" for dni
    by (rule mp)
  from T have a: "list_all (\<lambda>k. k \<le> 5) (por_ventana 0 (log (fst ?run)))"
    by (rule conjunct1)
  have m: "en_minuto (40 * Second) (lookup_times (log (fst ?run))) \<le> 6"
    by (rule T [THEN conjunct2, THEN conjunct2, THEN conjunct1])
  have p: "wire_posts (log (fst ?run)) \<le> 10 * lookups (log (fst ?run))"
    by (rule T [THEN conjunct2, THEN conjunct2, THEN conjunct2, THEN conjunct2, THEN conjunct2,
          THEN conjunct1])
  have b: "por_ventana 0 (log (fst ?run)) = [3, 3]"
    unfolding corrida_red_lenta by simp
  have c: "requestsInMinute (fst (snd ?run)) = 3"
    unfolding corrida_red_lenta by simp
  have l: "lookups (log (fst ?run)) = 6"
    unfolding corrida_red_lenta by simp
  show ?thesis
    by (intro conjI e a b c m l p)
qed

section \<open>How often and how far apart the lookups are retried\<close>

lemma getNonce_red_saturada:
  "nonce ds = '''' \<Longrightarrow>
   getNonce red_saturada w ds =
     (w\<lparr>sent := Suc (sent w),
        log := log w @ [Request (clock w) (GET url_fecha), Printed (NuevoNonceObtenido ''abc123'')]\<rparr>,
      ds\<lparr>nonce := ''abc123''\<rparr>, None)"
  by (simp add: getNonce_def client_Do_direct red_saturada_def respuesta_fecha_def
        nonce_pagina_nonce Println_def)

lemma atender_respuesta_demasiadas:
  "atender_respuesta red_saturada w ds dni cuerpo_demasiadas =
     (w\<lparr>clock := clock w + 13 * Second, sent := Suc (sent w),
        log := log w @ [Printed RateLimitDetectado, Slept (10 * Second),
                 Printed ReseteandoSesion, Slept (3 * Second),
                 Request (clock w + 13 * Second) (GET url_fecha),
                 Printed (NuevoNonceObtenido ''abc123''), Printed ReintentandoConsulta]\<rparr>,
      ds\<lparr>nonce := ''abc123'', requestCount := 0, minuteStart := clock w + 10 * Second,
         requestsInMinute := 0\<rparr>,
      Reintenta)"
  by (simp add: atender_respuesta_def cuerpo_demasiadas_def TrimSpace_json resetSession_def
        getNonce_red_saturada Let_def Println_def Sleep_def Second_def)

lemma cuerpo_red_saturada:
  assumes "match_8_digits dni" and "listo_para_reintentar w ds"
  shows "\<exists>w' ds'. ConsultarDNI_cuerpo red_saturada w ds dni = (w', ds', Reintenta)
     \<and> listo_para_reintentar w' ds'
     \<and> clock w' = clock w + 13 * Second
     \<and> lookup_times (log w') = lookup_times (log w) @ [clock w]"
proof (cases "nonce ds = ''''")
  case True
  with assms show ?thesis
    by (simp add: ConsultarDNI_cuerpo_def len_8 rate_gate_def Let_def getNonce_red_saturada
          listo_para_reintentar_def client_Do_direct red_saturada_def [of _ "POST _ _"]
          respuesta_fecha_def atender_respuesta_demasiadas Println_def Second_def)
next
  case False
  with assms show ?thesis
    by (simp add: ConsultarDNI_cuerpo_def len_8 rate_gate_def Let_def
          listo_para_reintentar_def client_Do_direct red_saturada_def [of _ "POST _ _"]
          respuesta_fecha_def atender_respuesta_demasiadas Println_def Second_def)
qed

lemma ConsultarDNI_red_saturada:
  assumes "match_8_digits dni"
  shows "listo_para_reintentar w ds \<Longrightarrow>
     snd (snd (ConsultarDNI n red_saturada w ds dni)) = None
     \<and> lookup_times (log (fst (ConsultarDNI n red_saturada w ds dni)))
         = lookup_times (log w) @ map (\<lambda>k. clock w + int k * (13 * Second)) [0..<n]"
proof (induction n arbitrary: w ds)
  case 0
  then show ?case by simp
next
  case (Suc n)
  from cuerpo_red_saturada [OF assms Suc.prems]
  obtain w' ds' where c: "ConsultarDNI_cuerpo red_saturada w ds dni = (w', ds', Reintenta)"
    and l: "listo_para_reintentar w' ds'"
    and k: "clock w' = clock w + 13 * Second"
    and t: "lookup_times (log w') = lookup_times (log w) @ [clock w]"
    by blast
  have m: "map (\<lambda>k. clock w + int k * (13 * Second)) [0..<Suc n]
      = clock w # map (\<lambda>k. clock w' + int k * (13 * Second)) [0..<n]"
    by (simp add: k upt_rec [of 0 "Suc n"] map_Suc_upt [symmetric] algebra_simps
          del: upt_Suc)
  have "ConsultarDNI (Suc n) red_saturada w ds dni = ConsultarDNI n red_saturada w' ds' dni"
    by (simp add: c)
  with Suc.IH [OF l] t m show ?case
    by simp
qed

text \<open>
  Claim C5, as the code has it. The retry loops of the workers stop at two attempts,
  whatever the failures are. \<open>procesarDNI\<close> is its first attempt when that succeeds
  and otherwise a pause of two seconds and a second attempt, whose result is the
  result. \<open>procesarDNIConToken\<close> is its first attempt when that succeeds; otherwise,
  when the error mentions 429, a cooldown of sixty seconds and a token renewal, then
  in every case a pause of ten seconds and a second attempt; when that fails too, with
  an error that mentions 429, it still waits ninety seconds and renews the token
  before it returns the error, though no attempt follows. So each loop makes one pause
  before an attempt: with two attempts nothing escalates from one retry to the next.
  Each loop submits at most two lookups, which put at most twenty POST requests on
  the wire when the endpoint redirects them. \<open>ConsultarDNI\<close> has no ceiling for the
  too-many-requests answer: against an endpoint that always gives it, the first \<open>n\<close>
  passes send \<open>n\<close> lookups, thirteen seconds apart, and the call has not returned,
  for every \<open>n\<close>.
\<close>

theorem C5_worker_loops_two_attempts_ConsultarDNI_unbounded:
  "procesarDNI net w dni =
     (case ObtenerCodigoVerificacion net w dni of
        (w1, Inr codigo) \<Rightarrow> (w1, Inr codigo)
      | (w1, Inl e) \<Rightarrow> ObtenerCodigoVerificacion net (Sleep (2 * Second) w1) dni)
   \<and> procesarDNIConToken orden net w dni state =
     (case consultarDNIConToken orden net w dni state of
        (w1, Inr datos) \<Rightarrow> (w1, state, Inr datos)
      | (w1, Inl e1) \<Rightarrow>
          (let (w2, state2) =
                 (if isRateLimitError (Some e1) = Some True
                  then (let (w', state', renewErr) =
                              renovarToken net (Sleep (60 * Second) w1) state
                        in (w', state'))
                  else (w1, state))
           in case consultarDNIConToken orden net (Sleep (10 * Second) w2) dni state2 of
                (w4, Inr datos) \<Rightarrow> (w4, state2, Inr datos)
              | (w4, Inl e2) \<Rightarrow>
                  (let (w5, state5) =
                         (if isRateLimitError (Some e2) = Some True
                          then (let (w', state', renewErr) =
                                      renovarToken net (Sleep (90 * Second) w4) state2
                                in (w', state'))
                          else (w4, state2))
                   in (w5, state5, Inl (agoto_reintentos (ID state5) (Some e2))))))
   \<and> lookups (log (fst (procesarDNI net w dni))) \<le> lookups (log w) + 2
   \<and> wire_posts (log (fst (procesarDNI net w dni))) \<le> wire_posts (log w) + 20
   \<and> lookups (log (fst (procesarDNIConToken orden net w dni state))) \<le> lookups (log w) + 2
   \<and> wire_posts (log (fst (procesarDNIConToken orden net w dni state))) \<le> wire_posts (log w) + 20
   \<and> (match_8_digits dni \<longrightarrow>
        snd (snd (ConsultarDNI n red_saturada mundo_inicial (NewDNIScraper mundo_inicial) dni)) = None
        \<and> lookup_times (log (fst (ConsultarDNI n red_saturada mundo_inicial
                                      (NewDNIScraper mundo_inicial) dni)))
            = map (\<lambda>k. int k * (13 * Second)) [0..<n]
        \<and> lookups (log (fst (ConsultarDNI n red_saturada mundo_inicial
                                 (NewDNIScraper mundo_inicial) dni))) = n)"
proof (intro conjI impI)
  show "procesarDNI net w dni =
     (case ObtenerCodigoVerificacion net w dni of
        (w1, Inr codigo) \<Rightarrow> (w1, Inr codigo)
      | (w1, Inl e) \<Rightarrow> ObtenerCodigoVerificacion net (Sleep (2 * Second) w1) dni)"
    by (rule procesarDNI_unrolled)
  show "procesarDNIConToken orden net w dni state =
     (case consultarDNIConToken orden net w dni state of
        (w1, Inr datos) \<Rightarrow> (w1, state, Inr datos)
      | (w1, Inl e1) \<Rightarrow>
          (let (w2, state2) =
                 (if isRateLimitError (Some e1) = Some True
                  then (let (w', state', renewErr) =
                              renovarToken net (Sleep (60 * Second) w1) state
                        in (w', state'))
                  else (w1, state))
           in case consultarDNIConToken orden net (Sleep (10 * Second) w2) dni state2 of
                (w4, Inr datos) \<Rightarrow> (w4, state2, Inr datos)
              | (w4, Inl e2) \<Rightarrow>
                  (let (w5, state5) =
                         (if isRateLimitError (Some e2) = Some True
                          then (let (w', state', renewErr) =
                                      renovarToken net (Sleep (90 * Second) w4) state2
                                in (w', state'))
                          else (w4, state2))
                   in (w5, state5, Inl (agoto_reintentos (ID state5) (Some e2))))))"
    by (rule procesarDNIConToken_unrolled)
  show "lookups (log (fst (procesarDNI net w dni))) \<le> lookups (log w) + 2"
    by (rule lookups_procesarDNI)
  show "wire_posts (log (fst (procesarDNI net w dni))) \<le> wire_posts (log w) + 20"
    by (rule wire_posts_procesarDNI)
  show "lookups (log (fst (procesarDNIConToken orden net w dni state))) \<le> lookups (log w) + 2"
    by (rule lookups_procesarDNIConToken)
  show "wire_posts (log (fst (procesarDNIConToken orden net w dni state)))
      \<le> wire_posts (log w) + 20"
    by (rule wire_posts_procesarDNIConToken)
next
  assume v: "match_8_digits dni"
  have l: "listo_para_reintentar mundo_inicial (NewDNIScraper mundo_inicial)"
    by (simp add: listo_para_reintentar_def NewDNIScraper_def mundo_inicial_def Second_def)
  note r = ConsultarDNI_red_saturada [OF v l, of n]
  from r show "snd (snd (ConsultarDNI n red_saturada mundo_inicial (NewDNIScraper mundo_inicial) dni))
      = None"
    by (rule conjunct1)
  from r show t: "lookup_times (log (fst (ConsultarDNI n red_saturada mundo_inicial
                                      (NewDNIScraper mundo_inicial) dni)))
            = map (\<lambda>k. int k * (13 * Second)) [0..<n]"
    by (simp add: mundo_inicial_def)
  show "lookups (log (fst (ConsultarDNI n red_saturada mundo_inicial
                                 (NewDNIScraper mundo_inicial) dni))) = n"
    unfolding lookups_lookup_times t by simp
qed

theorem C5_worker_loops_two_attempts_ConsultarDNI_unbounded_witness:
  "procesarDNI red_sin_codigo mundo_inicial ''00000000'' =
     (\<lparr>clock = 4 * Second, sent = 4,
       log = [Request 0 (GET url_digito), Slept (1 * Second),
              Request (1 * Second)
                (POST url_digito [(''_token'', ''tok''), (''dniveri'', ''00000000'')]),
              Slept (2 * Second),
              Request (3 * Second) (GET url_digito), Slept (1 * Second),
              Request (4 * Second)
                (POST url_digito [(''_token'', ''tok''), (''dniveri'', ''00000000'')])]\<rparr>,
      Inl codigo_no_encontrado)
   \<and> lookups (log (fst (procesarDNI red_sin_codigo mundo_inicial ''00000000''))) \<le> 2
   \<and> wire_posts (log (fst (procesarDNI red_sin_codigo mundo_inicial ''00000000''))) \<le> 20
   \<and> lookups (log (fst (procesarDNI red_redirige mundo_inicial ''00000000''))) = 2
   \<and> wire_posts (log (fst (procesarDNI red_redirige mundo_inicial ''00000000''))) = 20
   \<and> wire_posts (log (fst (procesarDNI red_redirige mundo_inicial ''00000000'')))
       \<le> wire_posts (log mundo_inicial) + 20
   \<and> procesarDNIConToken orden_npm red_limitada mundo_inicial ''12345678'' worker_con_token
     = (\<lparr>clock = 162 * Second, sent = 4,
         log = [Slept (1 * Second),
                Request (1 * Second) (POST url_datos [(''_token'', ''tok''), (''dni'', ''12345678'')]),
                Slept (60 * Second), Request (61 * Second) (GET url_datos),
                Slept (10 * Second), Slept (1 * Second),
                Request (72 * Second) (POST url_datos [(''_token'', ''tok''), (''dni'', ''12345678'')]),
                Slept (90 * Second), Request (162 * Second) (GET url_datos)]\<rparr>,
        worker_con_token,
        Inl (agoto_reintentos 1 (Some (error_del_servidor 429))))
   \<and> lookups (log (fst (procesarDNIConToken orden_npm red_limitada mundo_inicial ''12345678''
                           worker_con_token))) \<le> 2
   \<and> match_8_digits ''12345678''
   \<and> snd (snd (ConsultarDNI 10 red_saturada mundo_inicial (NewDNIScraper mundo_inicial)
                  ''12345678'')) = None
   \<and> lookups (log (fst (ConsultarDNI 10 red_saturada mundo_inicial
                           (NewDNIScraper mundo_inicial) ''12345678''))) = 10"
proof -
  note T = C5_worker_loops_two_attempts_ConsultarDNI_unbounded
    [where dni = "''12345678''" and n = 10 and net = red_limitada and orden = orden_npm
       and w = mundo_inicial and state = worker_con_token]
  note U = C5_worker_loops_two_attempts_ConsultarDNI_unbounded
    [where net = red_sin_codigo and w = mundo_inicial and dni = "''00000000''"]
  have p1: "procesarDNI red_sin_codigo mundo_inicial ''00000000'' =
     (\<lparr>clock = 4 * Second, sent = 4,
       log = [Request 0 (GET url_digito), Slept (1 * Second),
              Request (1 * Second)
                (POST url_digito [(''_token'', ''tok''), (''dniveri'', ''00000000'')]),
              Slept (2 * Second),
              Request (3 * Second) (GET url_digito), Slept (1 * Second),
              Request (4 * Second)
                (POST url_digito [(''_token'', ''tok''), (''dniveri'', ''00000000'')])]\<rparr>,
      Inl codigo_no_encontrado)"
    unfolding U [THEN conjunct1] ObtenerCodigoVerificacion_red_sin_codigo
    by (simp add: ObtenerCodigoVerificacion_red_sin_codigo)
       (simp add: Sleep_def mundo_inicial_def Second_def)
  have p2: "lookups (log (fst (procesarDNI red_sin_codigo mundo_inicial ''00000000''))) \<le> 2"
    using U [THEN conjunct2, THEN conjunct2, THEN conjunct1] by (simp add: mundo_inicial_def)
  have p3: "wire_posts (log (fst (procesarDNI red_sin_codigo mundo_inicial ''00000000''))) \<le> 20"
    using U [THEN conjunct2, THEN conjunct2, THEN conjunct2, THEN conjunct1]
    by (simp add: mundo_inicial_def)
  note R = C5_worker_loops_two_attempts_ConsultarDNI_unbounded
    [where net = red_redirige and w = mundo_inicial and dni = "''00000000''"]
  have r1: "lookups (log (fst (procesarDNI red_redirige mundo_inicial ''00000000''))) = 2"
    by code_simp
  have r2: "wire_posts (log (fst (procesarDNI red_redirige mundo_inicial ''00000000''))) = 20"
    by code_simp
  have r3: "wire_posts (log (fst (procesarDNI red_redirige mundo_inicial ''00000000'')))
       \<le> wire_posts (log mundo_inicial) + 20"
    by (rule R [THEN conjunct2, THEN conjunct2, THEN conjunct2, THEN conjunct1])
  have q1: "procesarDNIConToken orden_npm red_limitada mundo_inicial ''12345678'' worker_con_token
     = (\<lparr>clock = 162 * Second, sent = 4,
         log = [Slept (1 * Second),
                Request (1 * Second) (POST url_datos [(''_token'', ''tok''), (''dni'', ''12345678'')]),
                Slept (60 * Second), Request (61 * Second) (GET url_datos),
                Slept (10 * Second), Slept (1 * Second),
                Request (72 * Second) (POST url_datos [(''_token'', ''tok''), (''dni'', ''12345678'')]),
                Slept (90 * Second), Request (162 * Second) (GET url_datos)]\<rparr>,
        worker_con_token,
        Inl (agoto_reintentos 1 (Some (error_del_servidor 429))))"
    unfolding T [THEN conjunct2, THEN conjunct1] consultar_red_limitada
    by (simp add: isRateLimitError_429 renovarToken_red_limitada consultar_red_limitada)
       (simp add: mundo_inicial_def worker_con_token_def Sleep_def Second_def)
  have q2: "lookups (log (fst (procesarDNIConToken orden_npm red_limitada mundo_inicial ''12345678''
                           worker_con_token))) \<le> 2"
    using T [THEN conjunct2, THEN conjunct2, THEN conjunct2, THEN conjunct2, THEN conjunct1]
    by (simp add: mundo_inicial_def)
  have v: "match_8_digits ''12345678''"
    by (simp add: match_8_digits_def is_digit_def)
  from T [THEN conjunct2, THEN conjunct2, THEN conjunct2, THEN conjunct2, THEN conjunct2,
          THEN conjunct2] v
  have c: "snd (snd (ConsultarDNI 10 red_saturada mundo_inicial (NewDNIScraper mundo_inicial)
                    ''12345678'')) = None
        \<and> lookup_times (log (fst (ConsultarDNI 10 red_saturada mundo_inicial
                                      (NewDNIScraper mundo_inicial) ''12345678'')))
            = map (\<lambda>k. int k * (13 * Second)) [0..<10]
        \<and> lookups (log (fst (ConsultarDNI 10 red_saturada mundo_inicial
                                 (NewDNIScraper mundo_inicial) ''12345678''))) = 10"
    by (rule mp)
  from c have c1: "snd (snd (ConsultarDNI 10 red_saturada mundo_inicial (NewDNIScraper mundo_inicial)
                    ''12345678'')) = None"
    by (rule conjunct1)
  from c have c2: "lookups (log (fst (ConsultarDNI 10 red_saturada mundo_inicial
                           (NewDNIScraper mundo_inicial) ''12345678''))) = 10"
    by simp
  show ?thesis
    by (intro conjI p1 p2 p3 r1 r2 r3 q1 q2 v c1 c2)
qed

text \<open>
  Claim C5 fails for \<open>ConsultarDNI\<close>: against an endpoint that keeps answering too many
  requests, four passes send four lookups, at the seconds 0, 13, 26 and 39, and the
  call has not returned. The workers' loops stop at two attempts; here there is no
  ceiling, and the pause before each new attempt stays at thirteen seconds.
\<close>

theorem C5_ConsultarDNI_retries_without_ceiling:
  "snd (snd (ConsultarDNI 4 red_saturada mundo_inicial (NewDNIScraper mundo_inicial) ''12345678''))
     = None
   \<and> lookup_times (log (fst (ConsultarDNI 4 red_saturada mundo_inicial
                                 (NewDNIScraper mundo_inicial) ''12345678'')))
     = [0, 13 * Second, 26 * Second, 39 * Second]
   \<and> maxReintentos = 2"
proof -
  have v: "match_8_digits ''12345678''"
    by (simp add: match_8_digits_def is_digit_def)
  have l: "listo_para_reintentar mundo_inicial (NewDNIScraper mundo_inicial)"
    by (simp add: listo_para_reintentar_def NewDNIScraper_def mundo_inicial_def Second_def)
  have u: "[0..<4] = [0, 1, 2, 3]"
    by (simp add: upt_rec)
  from ConsultarDNI_red_saturada [OF v l, of 4]
  show ?thesis
    unfolding u by (simp add: mundo_inicial_def maxReintentos_def)
qed

section \<open>The orchestrators: one result for each identifier, when a worker starts\<close>

lemma en_mano_append [simp]: "en_mano (xs @ ys) = en_mano xs @ en_mano ys"
  by (induction xs rule: en_mano.induct) simp_all



lemma list_all_terminal_not_middle:
  "list_all terminal (xs @ e # ys) \<Longrightarrow> terminal e"
  by simp













end
